theory Spec2Isabelle
  imports Main "HOL-Library.AList"
begin

section \<open>JavaScript values\<close>

text \<open>
  The values that cross the program's interfaces: errors handed to \<open>stop\<close>, signal
  names and exit codes, and the payloads of inter-process messages. Numbers are
  integers here (the program only compares and counts).
\<close>

datatype js_value =
    JUndefined
  | JNull
  | JBool bool
  | JNum int
  | JStr string
  | JObj "(string \<times> js_value) list"

text \<open>Truthiness, as \<open>if (v)\<close>, \<open>v || w\<close> and \<open>v ? a : b\<close> test it.\<close>

fun truthy :: "js_value \<Rightarrow> bool" where
  "truthy JUndefined = False"
| "truthy JNull = False"
| "truthy (JBool b) = b"
| "truthy (JNum n) = (n \<noteq> 0)"
| "truthy (JStr s) = (s \<noteq> [])"
| "truthy (JObj fs) = True"

text \<open>Reading a property of \<open>undefined\<close> or \<open>null\<close> throws a TypeError.\<close>

fun nullish :: "js_value \<Rightarrow> bool" where
  "nullish JUndefined = True"
| "nullish JNull = True"
| "nullish v = False"

text \<open>
  \<open>v.k\<close> on a value that is not nullish. The program reads the properties
  \<open>command\<close>, \<open>error\<close>, \<open>sig\<close>, \<open>map\<close>, \<open>from\<close>, \<open>msg\<close>, \<open>message\<close> and \<open>stack\<close>;
  a boolean, a number or a string has none of them.
\<close>

fun getprop :: "js_value \<Rightarrow> string \<Rightarrow> js_value" where
  "getprop (JObj fs) k = (case map_of fs k of None \<Rightarrow> JUndefined | Some v \<Rightarrow> v)"
| "getprop v k = JUndefined"

definition js_or :: "js_value \<Rightarrow> js_value \<Rightarrow> js_value" where
  "js_or a b = (if truthy a then a else b)"

datatype fault = TypeError

section \<open>Constants of the module\<close>

datatype signal = SIGHUP | SIGINT | SIGQUIT | SIGTERM

fun SIGNALS :: "signal \<Rightarrow> string" where
  "SIGNALS SIGHUP = ''SIGHUP''"
| "SIGNALS SIGINT = ''SIGINT''"
| "SIGNALS SIGQUIT = ''SIGQUIT''"
| "SIGNALS SIGTERM = ''SIGTERM''"

definition PREFIX :: string where
  "PREFIX = ''cLuSToR-mOdE''"

definition CMD_RELOAD :: string where
  "CMD_RELOAD = PREFIX @ ''__reload__''"

definition CMD_EXIT :: string where
  "CMD_EXIT = PREFIX @ ''__exit__''"

definition CMD_SYNC :: string where
  "CMD_SYNC = PREFIX @ ''__sync__''"

definition CMD_MSG :: string where
  "CMD_MSG = PREFIX @ ''__msg__''"

definition MIN_LIFE :: int where
  "MIN_LIFE = 10000"

text \<open>
  \<open>sigCode.CODES\<close> comes from \<open>lib/sigcode\<close>, which is not part of the sources at hand:
  the two codes \<open>stop\<close> uses are parameters.
\<close>

record sig_codes =
  FATAL_ERROR :: js_value
  EXPECTED :: js_value

section \<open>Data model\<close>

text \<open>A worker object of the \<open>cluster\<close> module: \<open>worker.id\<close> and \<open>worker.process.pid\<close>.\<close>

record worker =
  wid :: nat
  process_pid :: nat

text \<open>An entry of \<open>workerMap\<close>.\<close>

record worker_data =
  started :: int
  pid :: nat

text \<open>
  A function given by the application (a shutdown task, the \<open>onExit\<close> hook): a label
  that names it in the trace, and what it does with the completion signal it is
  handed. It either invokes the signal before it returns, with the given argument
  (a truthy argument reports a failure), or returns without invoking it; the signal
  may then arrive later, as an event of its own.
\<close>

datatype callback = CallsBack js_value | Defers

datatype js_function = Fn nat callback

fun label :: "js_function \<Rightarrow> nat" where
  "label (Fn l c) = l"

fun behaviour :: "js_function \<Rightarrow> callback" where
  "behaviour (Fn l c) = c"

record shutdown_item =
  task :: js_function
  runOnMaster :: bool

datatype log_level = INFO | WARN | ERROR | FATAL | VERBOSE

text \<open>The command envelopes handed to \<open>msg.send\<close>.\<close>

datatype envelope =
    SendReload
  | SendExit js_value js_value
  | SendSync "(nat \<times> worker_data) list"

text \<open>
  What the process does to the outside, in order: a log line (its level and the
  fixed head of its text), an event emitted on the public emitter \<open>ee\<close>, a call of
  \<open>msg.send\<close> (with the target worker, if one was given and exists) or of
  \<open>msg.relay\<close>, a \<open>cluster.fork()\<close>, the invocation of a shutdown task or of the
  \<open>onExit\<close> hook, and \<open>process.exit\<close>.
\<close>

datatype effect =
    Log log_level string
  | Emit string "js_value list"
  | Send envelope "worker option"
  | Relay js_value worker
  | Fork worker
  | RunTask nat
  | RunHook nat
  | ProcessExit int

text \<open>
  The closure of one \<open>shutdown\<close> call that waits for the completion signal of the
  task it invoked: the tasks still to run, and the call's two arguments.
\<close>

record suspended_shutdown =
  remaining :: "shutdown_item list"
  errorShutdown :: js_value
  shutdown_sig :: js_value

text \<open>
  The state of one process: the module's variables, the listeners on the module's
  private \<open>emitter\<close> (each is the \<open>next\<close> of an \<open>async.eachSeries\<close> in flight, kept
  as the keys that remain), what the platform holds (\<open>cluster.isMaster\<close>,
  \<open>cluster.workers\<close>, the id and pid of the next fork, \<open>process.pid\<close>, \<open>Date.now()\<close>,
  \<open>os.cpus().length\<close>), which listeners \<open>start\<close> has installed, the calls that wait
  for a completion signal, the trace of effects, and the exit code once
  \<open>process.exit\<close> has run.

  The variable \<open>workerMap\<close> holds the registry in the primary process (written by
  \<open>createWorker\<close> and \<open>handleWorkerExit\<close>, which only run there) and the last synced
  copy in a worker process (written by the message listener of \<open>startWorker\<close>);
  the model keeps the two uses in the fields \<open>workerMap\<close> and \<open>syncedMap\<close>.
\<close>

record state =
  numOfWorkers :: int
  autoSpawn :: bool
  syncWorker :: bool
  isReloading :: bool
  isShutdown :: bool
  isMaster :: bool
  shutdownLock :: bool
  reloaded :: int
  shutdownTasks :: "shutdown_item list"
  workerMap :: "(nat \<times> worker_data) list"
  syncedMap :: js_value
  onExit :: "js_function option"
  on_reloaded :: "nat list list"
  on_workerExit :: "(nat list \<times> js_value) list"
  cluster_isMaster :: bool
  cluster_workers :: "worker list"
  next_worker_id :: nat
  pids :: "nat \<Rightarrow> nat"
  self_pid :: nat
  now :: int
  cpus :: int
  signals_on :: bool
  cluster_exit_on :: bool
  message_on :: bool
  suspended :: "suspended_shutdown list"
  hooks_waiting :: "int list"
  trace :: "effect list"
  exited :: "int option"

text \<open>The module as it is loaded, on a given platform.\<close>

definition initial :: "bool \<Rightarrow> nat \<Rightarrow> (nat \<Rightarrow> nat) \<Rightarrow> int \<Rightarrow> int \<Rightarrow> state" where
  "initial primary self forkpids cores t =
     \<lparr> numOfWorkers = 0, autoSpawn = False, syncWorker = True, isReloading = False,
       isShutdown = False, isMaster = False, shutdownLock = False, reloaded = 0,
       shutdownTasks = [], workerMap = [], syncedMap = JObj [], onExit = None,
       on_reloaded = [], on_workerExit = [],
       cluster_isMaster = primary, cluster_workers = [], next_worker_id = 1,
       pids = forkpids, self_pid = self, now = t, cpus = cores,
       signals_on = False, cluster_exit_on = False, message_on = False,
       suspended = [], hooks_waiting = [], trace = [], exited = None \<rparr>"

definition out :: "effect \<Rightarrow> state \<Rightarrow> state" where
  "out e s = s\<lparr>trace := trace s @ [e]\<rparr>"

definition log :: "log_level \<Rightarrow> string \<Rightarrow> state \<Rightarrow> state" where
  "log lvl txt s = out (Log lvl txt) s"

definition emit :: "string \<Rightarrow> js_value list \<Rightarrow> state \<Rightarrow> state" where
  "emit name args s = out (Emit name args) s"

text \<open>\<open>print = (e) ? (logger.fatal || logger.error) : logger.info\<close>\<close>

definition print_level :: "js_value \<Rightarrow> log_level" where
  "print_level e = (if truthy e then FATAL else INFO)"

text \<open>Reading the trace: the events emitted, the tasks invoked, the forks.\<close>

fun is_emit :: "effect \<Rightarrow> bool" where
  "is_emit (Emit name args) = True"
| "is_emit e = False"

definition emits :: "effect list \<Rightarrow> effect list" where
  "emits es = filter is_emit es"

fun named :: "string \<Rightarrow> effect \<Rightarrow> bool" where
  "named n (Emit name args) = (name = n)"
| "named n e = False"

definition events_named :: "string \<Rightarrow> effect list \<Rightarrow> effect list" where
  "events_named n es = filter (named n) es"

fun is_fork :: "effect \<Rightarrow> bool" where
  "is_fork (Fork w) = True"
| "is_fork e = False"

definition forks :: "effect list \<Rightarrow> effect list" where
  "forks es = filter is_fork es"

fun is_log :: "effect \<Rightarrow> bool" where
  "is_log (Log l t) = True"
| "is_log e = False"

definition not_logs :: "effect list \<Rightarrow> effect list" where
  "not_logs es = filter (\<lambda>e. \<not> is_log e) es"

fun run_label :: "effect \<Rightarrow> nat list" where
  "run_label (RunTask l) = [l]"
| "run_label e = []"

definition run_labels :: "effect list \<Rightarrow> nat list" where
  "run_labels es = concat (map run_label es)"

text \<open>
  Reading a task: it reports success (it signals completion without an error before
  it returns), or it reports failure. \<open>visited\<close> is the part of a task list up to and
  with the first task that does not report success.
\<close>

definition succeeds :: "shutdown_item \<Rightarrow> bool" where
  "succeeds item = (case behaviour (task item) of CallsBack err \<Rightarrow> \<not> truthy err | Defers \<Rightarrow> False)"

definition fails :: "shutdown_item \<Rightarrow> bool" where
  "fails item = (case behaviour (task item) of CallsBack err \<Rightarrow> truthy err | Defers \<Rightarrow> False)"

definition defers :: "shutdown_item \<Rightarrow> bool" where
  "defers item = (case behaviour (task item) of CallsBack err \<Rightarrow> False | Defers \<Rightarrow> True)"

fun visited :: "shutdown_item list \<Rightarrow> shutdown_item list" where
  "visited [] = []"
| "visited (item # rest) = item # (if succeeds item then visited rest else [])"

text \<open>The \<open>onExit\<close> hook, if there is one, invokes its completion signal before it returns.\<close>

definition hook_returns :: "state \<Rightarrow> bool" where
  "hook_returns s =
     (case onExit s of
        None \<Rightarrow> True
      | Some f \<Rightarrow> (case behaviour f of CallsBack v \<Rightarrow> True | Defers \<Rightarrow> False))"

text \<open>
  The events of \<open>n\<close> replacements in a row during a reload, the first new worker
  having the id \<open>i\<close>, with the pids \<open>p\<close> of the platform.
\<close>

fun progress_events :: "(nat \<Rightarrow> nat) \<Rightarrow> nat \<Rightarrow> nat \<Rightarrow> effect list" where
  "progress_events p i 0 = []"
| "progress_events p i (Suc n) =
     [Emit ''reload'' [JStr ''reloading'', JNum (int (p i)), JNum (int i)],
      Emit ''reload.reloading'' [JUndefined, JNum (int i)]] @ progress_events p (Suc i) n"

section \<open>The public queries and registrations\<close>

definition ee_isMaster :: "state \<Rightarrow> bool" where
  "ee_isMaster s = (if isMaster s \<and> numOfWorkers s \<noteq> 0 then True else False)"

definition ee_isCluster :: "state \<Rightarrow> bool" where
  "ee_isCluster s = (if numOfWorkers s \<noteq> 0 then True else False)"

text \<open>
  \<open>addShutdownTask(task, runOnMaster)\<close>: the first argument is a function or not
  (\<open>None\<close>), the second is given or \<open>undefined\<close> (\<open>None\<close>).
\<close>

definition ee_addShutdownTask :: "js_function option \<Rightarrow> bool option \<Rightarrow> state \<Rightarrow> bool \<times> state" where
  "ee_addShutdownTask fn rom s =
     (case fn of
        None \<Rightarrow> (False, s)
      | Some f \<Rightarrow>
          let r = (case rom of None \<Rightarrow> True | Some b \<Rightarrow> b)
          in (True, s\<lparr>shutdownTasks := shutdownTasks s @ [\<lparr>task = f, runOnMaster = r\<rparr>]\<rparr>))"

definition ee_onExit :: "js_function option \<Rightarrow> state \<Rightarrow> state" where
  "ee_onExit fn s = (case fn of None \<Rightarrow> s | Some f \<Rightarrow> s\<lparr>onExit := Some f\<rparr>)"

section \<open>Workers\<close>

definition noMoreWorkers :: "state \<Rightarrow> bool" where
  "noMoreWorkers s = (length (cluster_workers s) = 0)"

text \<open>\<open>cluster.workers[id]\<close>\<close>

definition lookup_worker :: "state \<Rightarrow> nat \<Rightarrow> worker option" where
  "lookup_worker s i = find (\<lambda>w. wid w = i) (cluster_workers s)"

definition cluster_fork :: "state \<Rightarrow> worker \<times> state" where
  "cluster_fork s =
     (let w = \<lparr>wid = next_worker_id s, process_pid = pids s (next_worker_id s)\<rparr>
      in (w, out (Fork w)
               (s\<lparr>cluster_workers := cluster_workers s @ [w],
                  next_worker_id := Suc (next_worker_id s)\<rparr>)))"

definition syncWorkerMap :: "state \<Rightarrow> state" where
  "syncWorkerMap s =
     (if syncWorker s
      then out (Send (SendSync (workerMap s)) None)
             (log VERBOSE ''Dispatch synchronize worker command'' s)
      else s)"

definition createWorker :: "state \<Rightarrow> worker \<times> state" where
  "createWorker s =
     (let (w, s) = cluster_fork s;
          s = s\<lparr>workerMap :=
                  AList.update (wid w) \<lparr>started = now s, pid = process_pid w\<rparr> (workerMap s)\<rparr>;
          s = log INFO ''Worker created'' s;
          s = syncWorkerMap s
      in (w, s))"

section \<open>Start\<close>

record config =
  cfg_max :: "int option"
  cfg_autoSpawn :: "bool option"
  cfg_sync :: "bool option"

definition startListeners :: "state \<Rightarrow> state" where
  "startListeners s = (log INFO ''Start listeners'' s)\<lparr>signals_on := True\<rparr>"

text \<open>
  The loop of \<open>startMaster\<close>: \<open>for (i = 0; i < numOfWorkers; i++) createWorker()\<close>.
  \<open>createWorker\<close> does not assign \<open>numOfWorkers\<close>, so the bound is fixed when the
  loop starts.
\<close>

fun spawn_loop :: "nat \<Rightarrow> state \<Rightarrow> state" where
  "spawn_loop 0 s = s"
| "spawn_loop (Suc n) s = spawn_loop n (snd (createWorker s))"

definition startMaster :: "state \<Rightarrow> state" where
  "startMaster s =
     (let s = log INFO ''Starting master process'' s;
          s = s\<lparr>cluster_exit_on := True\<rparr>
      in spawn_loop (nat (numOfWorkers s)) s)"

definition startWorker :: "state \<Rightarrow> state" where
  "startWorker s = log INFO ''Worker process started'' (s\<lparr>message_on := True\<rparr>)"

definition startClusterMode :: "state \<Rightarrow> bool \<times> state" where
  "startClusterMode s =
     (if numOfWorkers s > 1 then
        (if cluster_isMaster s then
           (let s = startMaster s;
                s = emit ''cluster'' [JStr ''master.ready'', JNum (int (self_pid s))] s;
                s = emit ''cluster.master.ready'' [JNum (int (self_pid s))] s
            in (True, s))
         else
           (let s = startWorker s;
                s = emit ''cluster'' [JStr ''worker.ready'', JNum (int (self_pid s))] s;
                s = emit ''cluster.worker.ready'' [JNum (int (self_pid s))] s
            in (True, s)))
      else
        (let s = emit ''cluster'' [JStr ''non.ready''] s;
             s = emit ''cluster.non.ready'' [] s
         in (False, s)))"

definition start :: "state \<Rightarrow> state" where
  "start s =
     (let s = startListeners s;
          (inClusterMode, s) = startClusterMode s
      in if isMaster s then log INFO ''Starting in cluster mode'' s else s)"

text \<open>
  \<open>ee.start(config)\<close>; \<open>None\<close> is a call without a config, and a field that is
  \<open>None\<close> is left out of the config.
\<close>

definition ee_start :: "config option \<Rightarrow> state \<Rightarrow> state" where
  "ee_start config s =
     (let s = (if cluster_isMaster s then s\<lparr>isMaster := True\<rparr> else s);
          config = (case config of
                      None \<Rightarrow> \<lparr>cfg_max = None, cfg_autoSpawn = None, cfg_sync = None\<rparr>
                    | Some c \<Rightarrow> c);
          s = s\<lparr>numOfWorkers :=
                  (if cfg_max config = Some 0 then 0
                   else (case cfg_max config of None \<Rightarrow> cpus s | Some n \<Rightarrow> n))\<rparr>;
          s = s\<lparr>autoSpawn := (case cfg_autoSpawn config of None \<Rightarrow> False | Some b \<Rightarrow> b)\<rparr>;
          s = s\<lparr>syncWorker := (case cfg_sync config of None \<Rightarrow> True | Some b \<Rightarrow> b)\<rparr>;
          s = (if \<not> ee_isCluster s then s\<lparr>syncWorker := False\<rparr> else s);
          s = (if isMaster s
               then log INFO ''Synchronaize worker map''
                      (log INFO ''Auto re-spawn'' (log INFO ''Number of workers'' s))
               else s)
      in start s)"

section \<open>Final shutdown\<close>

text \<open>
  \<open>process.exit(code)\<close>: the listener that \<open>startListeners\<close> put on the process's
  \<open>exit\<close> event logs an error for a code that is not 0; then the process is gone.
\<close>

definition process_exit :: "int \<Rightarrow> state \<Rightarrow> state" where
  "process_exit code s =
     (let s = (if signals_on s \<and> code \<noteq> 0 then log ERROR ''Error termination'' s else s)
      in (out (ProcessExit code) s)\<lparr>exited := Some code\<rparr>)"

text \<open>
  The function \<open>done\<close> inside \<open>shutdown\<close>, with the variables it closes over as
  arguments: \<open>error\<close> is what \<open>async.eachSeries\<close> hands over.
\<close>

definition shutdown_done :: "js_value \<Rightarrow> js_value \<Rightarrow> js_value \<Rightarrow> state \<Rightarrow> state" where
  "shutdown_done error errShutdown sig s =
     (let code = (if truthy error then 1 else 0);
          s = log (print_level errShutdown) ''Exit'' s;
          s = (if truthy errShutdown
               then log (print_level errShutdown) ''(errorShutdown)'' s else s);
          s = emit ''exit'' [JNum code, js_or sig JNull] s
      in case onExit s of
           Some f \<Rightarrow>
             (let s = out (RunHook (label f)) s
              in case behaviour f of
                   CallsBack v \<Rightarrow> process_exit code s
                 | Defers \<Rightarrow> s\<lparr>hooks_waiting := hooks_waiting s @ [code]\<rparr>)
         | None \<Rightarrow> process_exit code s)"

text \<open>
  \<open>async.eachSeries(taskList, function (item, next) {...}, done)\<close>, as the \<open>async\<close>
  library documents it: the iteratee runs on one item at a time, in the order of the
  list; when an iteratee passes an error to its callback, the final callback is
  called at once with that error and no further item is visited; after the last
  item, the final callback is called without an error. A task that has not invoked
  its callback leaves the iteration suspended.
\<close>

fun eachSeries_shutdown :: "shutdown_item list \<Rightarrow> js_value \<Rightarrow> js_value \<Rightarrow> state \<Rightarrow> state" where
  "eachSeries_shutdown [] errShutdown sig s = shutdown_done JUndefined errShutdown sig s"
| "eachSeries_shutdown (item # rest) errShutdown sig s =
     (let s = log (print_level errShutdown) ''Execute shutdown task'' s;
          s = out (RunTask (label (task item))) s
      in case behaviour (task item) of
           CallsBack err \<Rightarrow>
             if truthy err then shutdown_done err errShutdown sig s
             else eachSeries_shutdown rest errShutdown sig s
         | Defers \<Rightarrow>
             s\<lparr>suspended := suspended s @
                  [\<lparr>remaining = rest, errorShutdown = errShutdown, shutdown_sig = sig\<rparr>]\<rparr>)"

text \<open>The local \<open>taskList\<close> of \<open>shutdown\<close>: the registered tasks, filtered.\<close>

definition taskList :: "state \<Rightarrow> shutdown_item list" where
  "taskList s =
     filter (\<lambda>item. if ee_isMaster s then runOnMaster item else True) (shutdownTasks s)"

definition shutdown :: "js_value \<Rightarrow> js_value \<Rightarrow> state \<Rightarrow> state" where
  "shutdown errShutdown sig s =
     (let tasks = taskList s;
          s = log VERBOSE ''Number of shutdown tasks before shutting down'' s
      in eachSeries_shutdown tasks errShutdown sig s)"

text \<open>
  The completion signal of the task that the \<open>k\<close>-th suspended \<open>shutdown\<close> call waits
  for, and the completion signal of a deferred \<open>onExit\<close> hook.
\<close>

definition task_signal :: "nat \<Rightarrow> js_value \<Rightarrow> state \<Rightarrow> state" where
  "task_signal k err s =
     (if k < length (suspended s) then
        (let r = suspended s ! k;
             s = s\<lparr>suspended := take k (suspended s) @ drop (Suc k) (suspended s)\<rparr>
         in if truthy err then shutdown_done err (errorShutdown r) (shutdown_sig r) s
            else eachSeries_shutdown (remaining r) (errorShutdown r) (shutdown_sig r) s)
      else s)"

definition hook_signal :: "nat \<Rightarrow> state \<Rightarrow> state" where
  "hook_signal k s =
     (if k < length (hooks_waiting s) then
        process_exit (hooks_waiting s ! k)
          (s\<lparr>hooks_waiting := take k (hooks_waiting s) @ drop (Suc k) (hooks_waiting s)\<rparr>)
      else s)"

section \<open>Exit requests\<close>

text \<open>\<open>e = null; if (errorExit) e = {message: errorExit.message, stack: errorExit.stack}\<close>\<close>

definition serialized :: "js_value \<Rightarrow> js_value" where
  "serialized errorExit =
     (if truthy errorExit
      then JObj [(''message'', getprop errorExit ''message''),
                 (''stack'', getprop errorExit ''stack'')]
      else JNull)"

text \<open>
  The \<open>async.eachSeries\<close> of \<open>exit\<close> over the keys of \<open>cluster.workers\<close>: the iteratee
  registers its \<open>next\<close> once on the private emitter's \<open>workerExit\<close> and sends EXIT to
  one worker. There is no final callback.
\<close>

fun exit_each :: "nat list \<Rightarrow> js_value \<Rightarrow> state \<Rightarrow> state" where
  "exit_each [] errorExit s = s"
| "exit_each (i # rest) errorExit s =
     (let s = s\<lparr>on_workerExit := on_workerExit s @ [(rest, errorExit)]\<rparr>;
          s = log (print_level errorExit) ''Instruct worker process to exit'' s
      in out (Send (SendExit (serialized errorExit) JUndefined) (lookup_worker s i)) s)"

text \<open>
  \<open>emitter.emit('workerExit')\<close>: every listener registered with \<open>once\<close> is removed
  and called; what a call registers waits for the next emit.
\<close>

definition emit_workerExit :: "state \<Rightarrow> state" where
  "emit_workerExit s =
     foldl (\<lambda>s (ks, e). exit_each ks e s) (s\<lparr>on_workerExit := []\<rparr>) (on_workerExit s)"

definition exit :: "js_value \<Rightarrow> js_value \<Rightarrow> state \<Rightarrow> state" where
  "exit errorExit sig s =
     (if \<not> isMaster s then
        out (Send (SendExit (serialized errorExit) sig) None) s
      else if shutdownLock s then
        (if truthy errorExit
         then log (print_level errorExit) ''Exit instruction by error'' s
         else s)
      else
        (let s = s\<lparr>shutdownLock := True\<rparr>;
             s = (if truthy errorExit
                  then log (print_level errorExit) ''Exiting with an error'' s
                  else log (print_level errorExit) ''Exiting'' s)
         in if numOfWorkers s \<noteq> 0 \<and> cluster_isMaster s then
              (let s = s\<lparr>isShutdown := True\<rparr>
               in if noMoreWorkers s then
                    shutdown sig JUndefined
                      (log (print_level errorExit) ''Master is exiting'' s)
                  else exit_each (map wid (cluster_workers s)) errorExit s)
            else if numOfWorkers s = 0 then shutdown errorExit sig s
            else s))"

definition ee_stop :: "sig_codes \<Rightarrow> js_value \<Rightarrow> state \<Rightarrow> state" where
  "ee_stop codes error s =
     exit error (if truthy error then FATAL_ERROR codes else EXPECTED codes) s"

section \<open>Reload\<close>

fun reload_each :: "nat list \<Rightarrow> state \<Rightarrow> state" where
  "reload_each [] s = s"
| "reload_each (i # rest) s =
     (let s = s\<lparr>on_reloaded := on_reloaded s @ [rest]\<rparr>
      in out (Send SendReload (lookup_worker s i)) s)"

definition emit_reloaded :: "state \<Rightarrow> state" where
  "emit_reloaded s =
     foldl (\<lambda>s ks. reload_each ks s) (s\<lparr>on_reloaded := []\<rparr>) (on_reloaded s)"

definition reload :: "state \<Rightarrow> state" where
  "reload s =
     (if \<not> isMaster s then s
      else
        (let s = log INFO ''Reloading'' s
         in if numOfWorkers s \<noteq> 0 then
              reload_each (map wid (cluster_workers s)) (s\<lparr>isReloading := True, reloaded := 0\<rparr>)
            else s))"

text \<open>
  In \<open>handleReloading\<close> the second event is given \<open>worker.pid\<close>; a worker object of
  the \<open>cluster\<close> module has \<open>id\<close> and \<open>process\<close> but no \<open>pid\<close>, so the event carries
  \<open>undefined\<close> there.
\<close>

definition handleReloading :: "state \<Rightarrow> state" where
  "handleReloading s =
     (let (w, s) = createWorker s;
          s = emit_reloaded s;
          s = s\<lparr>reloaded := reloaded s + 1\<rparr>;
          s = log INFO ''Reloaded a worker process'' s;
          s = emit ''reload'' [JStr ''reloading'', JNum (int (process_pid w)), JNum (int (wid w))] s;
          s = emit ''reload.reloading'' [JUndefined, JNum (int (wid w))] s
      in if reloaded s = numOfWorkers s then
           (let s = s\<lparr>isReloading := False, reloaded := 0\<rparr>;
                s = emit ''reload'' [JStr ''complete''] s;
                s = emit ''reload.complete'' [] s
            in log INFO ''All worker processes have reloaded'' s)
         else s)"

section \<open>Worker exits\<close>

text \<open>
  \<open>workerData\<close> is \<open>workerMap[worker.id]\<close>, \<open>undefined\<close> (\<open>None\<close>) for an id the map does
  not hold; \<open>workerData.pid\<close> then throws.
\<close>

definition handleAutoSpawn ::
  "worker \<Rightarrow> worker_data option \<Rightarrow> js_value \<Rightarrow> js_value \<Rightarrow> state \<Rightarrow> fault + state" where
  "handleAutoSpawn w workerData code sig s =
     (if \<not> isShutdown s then
        (case workerData of
           None \<Rightarrow> Inl TypeError
         | Some d \<Rightarrow>
             (let s = log ERROR ''A worker process exited unexpectedly'' s
              in if now s - started d < MIN_LIFE then
                   Inr (log ERROR ''A worker process must be alive for at least MIN_LIFE''
                          (s\<lparr>numOfWorkers := numOfWorkers s - 1\<rparr>))
                 else
                   (let (newWorker, s) = createWorker s
                    in Inr (emit ''auto.spawn''
                              [JNum (int (process_pid newWorker)), JNum (int (wid newWorker))] s))))
      else Inr (log INFO ''Master process is instructing to shutdown'' s))"

text \<open>
  The listener of the cluster's \<open>exit\<close> event; \<open>suicide\<close> is \<open>worker.suicide\<close>. The
  platform has taken the worker out of \<open>cluster.workers\<close> before it calls.
\<close>

definition handleWorkerExit ::
  "worker \<Rightarrow> bool \<Rightarrow> js_value \<Rightarrow> js_value \<Rightarrow> state \<Rightarrow> fault + state" where
  "handleWorkerExit w suicide code sig s =
     (let s = log INFO ''Cluster process is exiting'' s;
          workerData = map_of (workerMap s) (wid w);
          s = s\<lparr>workerMap := AList.delete (wid w) (workerMap s)\<rparr>
      in if isReloading s then Inr (handleReloading s)
         else
           (case (if \<not> suicide \<and> autoSpawn s
                  then handleAutoSpawn w workerData code sig s else Inr s) of
              Inl f \<Rightarrow> Inl f
            | Inr s \<Rightarrow>
                if noMoreWorkers s then
                  (let s = log INFO ''No more workers running'' s
                   in if isShutdown s \<or> truthy code then
                        Inr (shutdown JNull code
                               (log INFO ''All worker processes have disconnected'' s))
                      else Inr s)
                else Inr (emit_workerExit (syncWorkerMap s))))"

section \<open>Inter-process messages\<close>

text \<open>
  A message as the listener receives it, together with what \<open>JSON.parse\<close> makes of
  it: \<open>Json v\<close> is a text that parses to \<open>v\<close>; \<open>NotJson raw\<close> is a value on which
  \<open>JSON.parse\<close> throws, which the \<open>catch\<close> leaves in \<open>data\<close> as it came. The channel
  delivers strings and, for a sender that passes an object, objects; \<open>JSON.parse\<close>
  of an object throws (it parses the object's string form).
\<close>

datatype ipc_message = Json js_value | NotJson js_value

definition parsed :: "ipc_message \<Rightarrow> state \<Rightarrow> js_value \<times> state" where
  "parsed m s =
     (case m of
        Json v \<Rightarrow> (v, s)
      | NotJson raw \<Rightarrow> (raw, log WARN ''Message data not JSON:'' s))"

text \<open>The listener that \<open>createWorker\<close> puts on a worker, in the primary process.\<close>

definition worker_on_message :: "worker \<Rightarrow> ipc_message \<Rightarrow> state \<Rightarrow> fault + state" where
  "worker_on_message w m s =
     (let (data, s) = parsed m s
      in if nullish data then Inl TypeError
         else if getprop data ''command'' = JStr CMD_MSG then Inr (out (Relay data w) s)
         else if getprop data ''command'' = JStr CMD_EXIT then
           Inr (exit (getprop data ''error'')
                  (js_or (getprop data ''sig'') (JStr (SIGNALS SIGTERM)))
                  (log INFO ''Exit instruction from worker:'' s))
         else Inr s)"

text \<open>The listener that \<open>startWorker\<close> puts on the process, in a worker process.\<close>

definition process_on_message :: "ipc_message \<Rightarrow> state \<Rightarrow> fault + state" where
  "process_on_message m s =
     (let (data, s) = parsed m s
      in if nullish data then Inl TypeError
         else if \<not> truthy (getprop data ''command'') then Inr s
         else if getprop data ''command'' = JStr CMD_EXIT then
           Inr (shutdown (js_or (getprop data ''error'') JNull) JUndefined
                  (log INFO ''Shutting down worker process for exit'' s))
         else if getprop data ''command'' = JStr CMD_RELOAD then
           Inr (shutdown JUndefined JUndefined
                  (log INFO ''Shutting down worker process for reload'' s))
         else if getprop data ''command'' = JStr CMD_SYNC then
           (let s = log VERBOSE ''synched map:'' (log INFO ''Synchronize worker map'' s);
                s = s\<lparr>syncedMap := getprop data ''map''\<rparr>
            in Inr (emit ''sync'' [syncedMap s] s))
         else if getprop data ''command'' = JStr CMD_MSG then
           Inr (emit ''message''
                  [JObj [(''from'', getprop data ''from''), (''msg'', getprop data ''msg'')]] s)
         else Inr s)"

section \<open>Events\<close>

text \<open>
  What can happen to a process after \<open>start\<close> (called once): a signal, a call of the
  public interface, the exit of a worker (its id, \<open>worker.suicide\<close>, the exit code and the
  signal), a message from a worker or from the primary process, a deferred
  completion signal, and time passing. A process that has exited takes no more
  events. Signals and messages reach the module through the listeners that \<open>start\<close>
  installs; without them the module does nothing with the event.
\<close>

datatype event =
    Signal signal
  | Stop js_value
  | AddShutdownTask "js_function option" "bool option"
  | OnExit "js_function option"
  | WorkerExited nat bool js_value js_value
  | WorkerMessage nat ipc_message
  | MasterMessage ipc_message
  | TaskSignal nat js_value
  | HookSignal nat
  | Elapse nat

fun handle :: "sig_codes \<Rightarrow> event \<Rightarrow> state \<Rightarrow> fault + state" where
  "handle codes (Signal SIGHUP) s = Inr (if signals_on s then reload s else s)"
| "handle codes (Signal sg) s =
     Inr (if signals_on s then exit JNull (JStr (SIGNALS sg)) s else s)"
| "handle codes (Stop error) s = Inr (ee_stop codes error s)"
| "handle codes (AddShutdownTask fn rom) s = Inr (snd (ee_addShutdownTask fn rom s))"
| "handle codes (OnExit fn) s = Inr (ee_onExit fn s)"
| "handle codes (WorkerExited i suicide code sig) s =
     (case lookup_worker s i of
        None \<Rightarrow> Inr s
      | Some w \<Rightarrow>
          (let s = s\<lparr>cluster_workers := filter (\<lambda>v. wid v \<noteq> i) (cluster_workers s)\<rparr>
           in if cluster_exit_on s then handleWorkerExit w suicide code sig s else Inr s))"
| "handle codes (WorkerMessage i m) s =
     (case lookup_worker s i of
        None \<Rightarrow> Inr s
      | Some w \<Rightarrow> worker_on_message w m s)"
| "handle codes (MasterMessage m) s =
     (if message_on s then process_on_message m s else Inr s)"
| "handle codes (TaskSignal k err) s = Inr (task_signal k err s)"
| "handle codes (HookSignal k) s = Inr (hook_signal k s)"
| "handle codes (Elapse d) s = Inr (s\<lparr>now := now s + int d\<rparr>)"

definition deliver :: "sig_codes \<Rightarrow> event \<Rightarrow> state \<Rightarrow> fault + state" where
  "deliver codes ev s = (if exited s \<noteq> None then Inr s else handle codes ev s)"

fun run :: "sig_codes \<Rightarrow> event list \<Rightarrow> state \<Rightarrow> fault + state" where
  "run codes [] s = Inr s"
| "run codes (ev # evs) s =
     (case deliver codes ev s of
        Inl f \<Rightarrow> Inl f
      | Inr s' \<Rightarrow> run codes evs s')"

text \<open>The state a run of events ends in, if it ends without a fault.\<close>

definition final :: "fault + state \<Rightarrow> state option" where
  "final r = (case r of Inl f \<Rightarrow> None | Inr s \<Rightarrow> Some s)"

text \<open>
  The completion signals that a final shutdown over the tasks \<open>ts\<close> with the hook
  \<open>hook\<close> waits for, when no other shutdown is in flight: one for every task that
  returned without its signal, each carrying \<open>ok\<close>, then one for the hook if it
  returned without its signal.
\<close>

definition completion_signals :: "js_value \<Rightarrow> shutdown_item list \<Rightarrow> js_function option \<Rightarrow> event list" where
  "completion_signals ok ts hook =
     replicate (length (filter defers ts)) (TaskSignal 0 ok) @
     (case hook of
        None \<Rightarrow> []
      | Some f \<Rightarrow> (case behaviour f of CallsBack v \<Rightarrow> [] | Defers \<Rightarrow> [HookSignal 0]))"

text \<open>
  An event by which a shutdown task reports a failure: a late completion signal with
  an error, or the registration of a task that reports a failure when it runs.
\<close>

fun reports_failure :: "event \<Rightarrow> bool" where
  "reports_failure (TaskSignal k err) = truthy err"
| "reports_failure (AddShutdownTask (Some f) rom) =
     (case behaviour f of CallsBack err \<Rightarrow> truthy err | Defers \<Rightarrow> False)"
| "reports_failure ev = False"

text \<open>
  No failure of a task is on its way to the exit code: the process has not exited
  with a code other than 0, no hook holds a code other than 0, and no task that is
  registered or still to run reports a failure.
\<close>

definition no_failure_pending :: "state \<Rightarrow> bool" where
  "no_failure_pending s =
     ((exited s = None \<or> exited s = Some 0)
      \<and> list_all (\<lambda>c. c = 0) (hooks_waiting s)
      \<and> list_all (\<lambda>i. \<not> fails i) (shutdownTasks s)
      \<and> list_all (\<lambda>r. list_all (\<lambda>i. \<not> fails i) (remaining r)) (suspended s))"

text \<open>
  The \<open>reload\<close> events of \<open>n\<close> replacements in a row, the first new worker having the
  id \<open>i\<close>.
\<close>

fun reloading_events :: "(nat \<Rightarrow> nat) \<Rightarrow> nat \<Rightarrow> nat \<Rightarrow> effect list" where
  "reloading_events p i 0 = []"
| "reloading_events p i (Suc n) =
     Emit ''reload'' [JStr ''reloading'', JNum (int (p i)), JNum (int i)] # reloading_events p (Suc i) n"

section \<open>Example processes\<close>

text \<open>
  Concrete processes on which the theorems below are evaluated: exit codes as
  \<open>lib/sigcode\<close> might define them, a primary process with pid 4000 on a machine
  with 8 cores whose forks get the pids 4001, 4002, ..., and a worker process.
\<close>

definition example_codes :: sig_codes where
  "example_codes = \<lparr>FATAL_ERROR = JNum 1, EXPECTED = JNum 0\<rparr>"

definition primary_process :: state where
  "primary_process = initial True 4000 (\<lambda>i. 4000 + i) 8 0"

definition worker_process :: state where
  "worker_process = initial False 4001 (\<lambda>i. 5000 + i) 8 0"

definition example_error :: js_value where
  "example_error = JObj [(''message'', JStr ''boom''), (''stack'', JStr ''at main'')]"

definition config_max :: "int \<Rightarrow> config" where
  "config_max n = \<lparr>cfg_max = Some n, cfg_autoSpawn = None, cfg_sync = None\<rparr>"

text \<open>Standalone (\<open>max = 0\<close>), one task that reports success.\<close>

definition standalone_one_task :: state where
  "standalone_one_task =
     ee_start (Some (config_max 0))
       (snd (ee_addShutdownTask (Some (Fn 1 (CallsBack JUndefined))) None primary_process))"

text \<open>Standalone, a task that reports a failure and then one that reports success.\<close>

definition standalone_failing_first :: state where
  "standalone_failing_first =
     ee_start (Some (config_max 0))
       (snd (ee_addShutdownTask (Some (Fn 2 (CallsBack JUndefined))) None
          (snd (ee_addShutdownTask (Some (Fn 1 (CallsBack (JStr ''disk full'')))) None
             primary_process))))"

text \<open>
  The primary process with \<open>max = 1\<close>, a task registered with \<open>runOnMaster = false\<close>
  and then one registered without the second argument.
\<close>

definition single_master :: state where
  "single_master =
     ee_start (Some (config_max 1))
       (snd (ee_addShutdownTask (Some (Fn 2 (CallsBack JUndefined))) None
          (snd (ee_addShutdownTask (Some (Fn 1 (CallsBack JUndefined))) (Some False)
             primary_process))))"

text \<open>A worker process of a cluster of two, after \<open>start\<close>.\<close>

definition started_worker :: state where
  "started_worker = ee_start (Some (config_max 2)) worker_process"

text \<open>
  The primary process of a cluster of two with \<open>autoSpawn\<close>, after \<open>start\<close>: the workers
  1 and 2 with the pids 4001 and 4002, both started at time 0.
\<close>

definition master_of_two :: state where
  "master_of_two =
     ee_start (Some \<lparr>cfg_max = Some 2, cfg_autoSpawn = Some True, cfg_sync = None\<rparr>)
       primary_process"

text \<open>
  The primary process of a cluster of two, with one shutdown task and an \<open>onExit\<close>
  hook that both return before they signal completion (as a task built on a timer
  does), after \<open>start\<close>.
\<close>

definition master_with_slow_task :: state where
  "master_with_slow_task =
     ee_start (Some (config_max 2))
       (ee_onExit (Some (Fn 9 Defers))
          (snd (ee_addShutdownTask (Some (Fn 1 Defers)) None primary_process)))"

text \<open>An object, not a text, whose \<open>command\<close> is the EXIT command.\<close>

definition exit_object :: js_value where
  "exit_object = JObj [(''command'', JStr CMD_EXIT)]"

text \<open>
  The primary process of a cluster of two with the default config (\<open>autoSpawn\<close> off),
  after \<open>start\<close>.
\<close>

definition plain_master_of_two :: state where
  "plain_master_of_two = ee_start (Some (config_max 2)) primary_process"

text \<open>
  Standalone, a task that returns before it signals completion (as a task built on
  a timer does) and then one that reports success.
\<close>

definition standalone_slow_first :: state where
  "standalone_slow_first =
     ee_start (Some (config_max 0))
       (snd (ee_addShutdownTask (Some (Fn 2 (CallsBack JUndefined))) None
          (snd (ee_addShutdownTask (Some (Fn 1 Defers)) None primary_process))))"

text \<open>The EXIT command as the master sends it to a worker, as a text that parses.\<close>

definition exit_envelope :: js_value where
  "exit_envelope = JObj [(''command'', JStr CMD_EXIT), (''error'', JNull)]"

section \<open>Basic facts\<close>

subsection \<open>The trace and the fields a step leaves alone\<close>

lemma trace_out [simp]: "trace (out e s) = trace s @ [e]"
  by (simp add: out_def)

lemma out_frame [simp]:
  shows "numOfWorkers (out e s) = numOfWorkers s"
    and "autoSpawn (out e s) = autoSpawn s"
    and "syncWorker (out e s) = syncWorker s"
    and "isReloading (out e s) = isReloading s"
    and "isShutdown (out e s) = isShutdown s"
    and "isMaster (out e s) = isMaster s"
    and "shutdownLock (out e s) = shutdownLock s"
    and "reloaded (out e s) = reloaded s"
    and "shutdownTasks (out e s) = shutdownTasks s"
    and "workerMap (out e s) = workerMap s"
    and "syncedMap (out e s) = syncedMap s"
    and "onExit (out e s) = onExit s"
    and "on_reloaded (out e s) = on_reloaded s"
    and "on_workerExit (out e s) = on_workerExit s"
    and "cluster_isMaster (out e s) = cluster_isMaster s"
    and "cluster_workers (out e s) = cluster_workers s"
    and "next_worker_id (out e s) = next_worker_id s"
    and "pids (out e s) = pids s"
    and "self_pid (out e s) = self_pid s"
    and "now (out e s) = now s"
    and "cpus (out e s) = cpus s"
    and "signals_on (out e s) = signals_on s"
    and "cluster_exit_on (out e s) = cluster_exit_on s"
    and "message_on (out e s) = message_on s"
    and "suspended (out e s) = suspended s"
    and "hooks_waiting (out e s) = hooks_waiting s"
    and "exited (out e s) = exited s"
  by (simp_all add: out_def)

lemma trace_log [simp]: "trace (log l t s) = trace s @ [Log l t]"
  by (simp add: log_def)

lemma log_frame [simp]:
  shows "numOfWorkers (log l t s) = numOfWorkers s"
    and "autoSpawn (log l t s) = autoSpawn s"
    and "syncWorker (log l t s) = syncWorker s"
    and "isReloading (log l t s) = isReloading s"
    and "isShutdown (log l t s) = isShutdown s"
    and "isMaster (log l t s) = isMaster s"
    and "shutdownLock (log l t s) = shutdownLock s"
    and "reloaded (log l t s) = reloaded s"
    and "shutdownTasks (log l t s) = shutdownTasks s"
    and "workerMap (log l t s) = workerMap s"
    and "syncedMap (log l t s) = syncedMap s"
    and "onExit (log l t s) = onExit s"
    and "on_reloaded (log l t s) = on_reloaded s"
    and "on_workerExit (log l t s) = on_workerExit s"
    and "cluster_isMaster (log l t s) = cluster_isMaster s"
    and "cluster_workers (log l t s) = cluster_workers s"
    and "next_worker_id (log l t s) = next_worker_id s"
    and "pids (log l t s) = pids s"
    and "self_pid (log l t s) = self_pid s"
    and "now (log l t s) = now s"
    and "cpus (log l t s) = cpus s"
    and "signals_on (log l t s) = signals_on s"
    and "cluster_exit_on (log l t s) = cluster_exit_on s"
    and "message_on (log l t s) = message_on s"
    and "suspended (log l t s) = suspended s"
    and "hooks_waiting (log l t s) = hooks_waiting s"
    and "exited (log l t s) = exited s"
  by (simp_all add: log_def)

lemma trace_emit [simp]: "trace (emit n a s) = trace s @ [Emit n a]"
  by (simp add: emit_def)

lemma emit_frame [simp]:
  shows "numOfWorkers (emit n a s) = numOfWorkers s"
    and "autoSpawn (emit n a s) = autoSpawn s"
    and "syncWorker (emit n a s) = syncWorker s"
    and "isReloading (emit n a s) = isReloading s"
    and "isShutdown (emit n a s) = isShutdown s"
    and "isMaster (emit n a s) = isMaster s"
    and "shutdownLock (emit n a s) = shutdownLock s"
    and "reloaded (emit n a s) = reloaded s"
    and "shutdownTasks (emit n a s) = shutdownTasks s"
    and "workerMap (emit n a s) = workerMap s"
    and "syncedMap (emit n a s) = syncedMap s"
    and "onExit (emit n a s) = onExit s"
    and "on_reloaded (emit n a s) = on_reloaded s"
    and "on_workerExit (emit n a s) = on_workerExit s"
    and "cluster_isMaster (emit n a s) = cluster_isMaster s"
    and "cluster_workers (emit n a s) = cluster_workers s"
    and "next_worker_id (emit n a s) = next_worker_id s"
    and "pids (emit n a s) = pids s"
    and "self_pid (emit n a s) = self_pid s"
    and "now (emit n a s) = now s"
    and "cpus (emit n a s) = cpus s"
    and "signals_on (emit n a s) = signals_on s"
    and "cluster_exit_on (emit n a s) = cluster_exit_on s"
    and "message_on (emit n a s) = message_on s"
    and "suspended (emit n a s) = suspended s"
    and "hooks_waiting (emit n a s) = hooks_waiting s"
    and "exited (emit n a s) = exited s"
  by (simp_all add: emit_def)

lemma emits_Nil [simp]: "emits [] = []"
  by (simp add: emits_def)

lemma emits_Cons [simp]: "emits (e # es) = (if is_emit e then e # emits es else emits es)"
  by (simp add: emits_def)

lemma emits_append [simp]: "emits (xs @ ys) = emits xs @ emits ys"
  by (simp add: emits_def)

lemma forks_Nil [simp]: "forks [] = []"
  by (simp add: forks_def)

lemma forks_Cons [simp]: "forks (e # es) = (if is_fork e then e # forks es else forks es)"
  by (simp add: forks_def)

lemma forks_append [simp]: "forks (xs @ ys) = forks xs @ forks ys"
  by (simp add: forks_def)

lemma not_logs_Nil [simp]: "not_logs [] = []"
  by (simp add: not_logs_def)

lemma not_logs_Cons [simp]: "not_logs (e # es) = (if \<not> is_log e then e # not_logs es else not_logs es)"
  by (simp add: not_logs_def)

lemma not_logs_append [simp]: "not_logs (xs @ ys) = not_logs xs @ not_logs ys"
  by (simp add: not_logs_def)

lemma events_named_Nil [simp]: "events_named n [] = []"
  by (simp add: events_named_def)

lemma events_named_Cons [simp]:
  "events_named n (e # es) = (if named n e then e # events_named n es else events_named n es)"
  by (simp add: events_named_def)

lemma events_named_append [simp]: "events_named n (xs @ ys) = events_named n xs @ events_named n ys"
  by (simp add: events_named_def)

lemma run_labels_Nil [simp]: "run_labels [] = []"
  by (simp add: run_labels_def)

lemma run_labels_Cons [simp]: "run_labels (e # es) = run_label e @ run_labels es"
  by (simp add: run_labels_def)

lemma run_labels_append [simp]: "run_labels (xs @ ys) = run_labels xs @ run_labels ys"
  by (simp add: run_labels_def)

subsection \<open>The example processes as they are loaded\<close>

lemma primary_process_fields [simp]:
  "numOfWorkers primary_process = 0"
  "autoSpawn primary_process = False"
  "syncWorker primary_process = True"
  "isReloading primary_process = False"
  "isShutdown primary_process = False"
  "isMaster primary_process = False"
  "shutdownLock primary_process = False"
  "reloaded primary_process = 0"
  "shutdownTasks primary_process = []"
  "workerMap primary_process = []"
  "syncedMap primary_process = JObj []"
  "onExit primary_process = None"
  "on_reloaded primary_process = []"
  "on_workerExit primary_process = []"
  "cluster_isMaster primary_process = True"
  "cluster_workers primary_process = []"
  "next_worker_id primary_process = 1"
  "pids primary_process = (\<lambda>i. 4000 + i)"
  "self_pid primary_process = 4000"
  "now primary_process = 0"
  "cpus primary_process = 8"
  "signals_on primary_process = False"
  "cluster_exit_on primary_process = False"
  "message_on primary_process = False"
  "suspended primary_process = []"
  "hooks_waiting primary_process = []"
  "trace primary_process = []"
  "exited primary_process = None"
  by (simp_all add: primary_process_def initial_def)

lemma worker_process_fields [simp]:
  "numOfWorkers worker_process = 0"
  "autoSpawn worker_process = False"
  "syncWorker worker_process = True"
  "isReloading worker_process = False"
  "isShutdown worker_process = False"
  "isMaster worker_process = False"
  "shutdownLock worker_process = False"
  "reloaded worker_process = 0"
  "shutdownTasks worker_process = []"
  "workerMap worker_process = []"
  "syncedMap worker_process = JObj []"
  "onExit worker_process = None"
  "on_reloaded worker_process = []"
  "on_workerExit worker_process = []"
  "cluster_isMaster worker_process = False"
  "cluster_workers worker_process = []"
  "next_worker_id worker_process = 1"
  "pids worker_process = (\<lambda>i. 5000 + i)"
  "self_pid worker_process = 4001"
  "now worker_process = 0"
  "cpus worker_process = 8"
  "signals_on worker_process = False"
  "cluster_exit_on worker_process = False"
  "message_on worker_process = False"
  "suspended worker_process = []"
  "hooks_waiting worker_process = []"
  "trace worker_process = []"
  "exited worker_process = None"
  by (simp_all add: worker_process_def initial_def)

subsection \<open>The final shutdown\<close>

lemma process_exit_frame [simp]:
  shows "numOfWorkers (process_exit c s) = numOfWorkers s"
    and "autoSpawn (process_exit c s) = autoSpawn s"
    and "syncWorker (process_exit c s) = syncWorker s"
    and "isReloading (process_exit c s) = isReloading s"
    and "isShutdown (process_exit c s) = isShutdown s"
    and "isMaster (process_exit c s) = isMaster s"
    and "shutdownLock (process_exit c s) = shutdownLock s"
    and "reloaded (process_exit c s) = reloaded s"
    and "shutdownTasks (process_exit c s) = shutdownTasks s"
    and "workerMap (process_exit c s) = workerMap s"
    and "syncedMap (process_exit c s) = syncedMap s"
    and "onExit (process_exit c s) = onExit s"
    and "on_reloaded (process_exit c s) = on_reloaded s"
    and "on_workerExit (process_exit c s) = on_workerExit s"
    and "cluster_isMaster (process_exit c s) = cluster_isMaster s"
    and "cluster_workers (process_exit c s) = cluster_workers s"
    and "next_worker_id (process_exit c s) = next_worker_id s"
    and "pids (process_exit c s) = pids s"
    and "self_pid (process_exit c s) = self_pid s"
    and "now (process_exit c s) = now s"
    and "cpus (process_exit c s) = cpus s"
    and "signals_on (process_exit c s) = signals_on s"
    and "cluster_exit_on (process_exit c s) = cluster_exit_on s"
    and "message_on (process_exit c s) = message_on s"
    and "suspended (process_exit c s) = suspended s"
    and "hooks_waiting (process_exit c s) = hooks_waiting s"
  by (simp_all add: process_exit_def Let_def)

lemma exited_process_exit [simp]: "exited (process_exit c s) = Some c"
  by (simp add: process_exit_def Let_def)

lemma trace_process_exit:
  "trace (process_exit c s) =
     trace s @ (if signals_on s \<and> c \<noteq> 0 then [Log ERROR ''Error termination''] else []) @ [ProcessExit c]"
  by (simp add: process_exit_def Let_def)

lemma run_labels_process_exit [simp]:
  "run_labels (trace (process_exit c s)) = run_labels (trace s)"
  by (simp add: trace_process_exit)

lemma forks_process_exit [simp]: "forks (trace (process_exit c s)) = forks (trace s)"
  by (simp add: trace_process_exit)

lemma events_named_process_exit [simp]:
  "events_named n (trace (process_exit c s)) = events_named n (trace s)"
  by (simp add: trace_process_exit)

lemma shutdown_done_frame [simp]:
  shows "numOfWorkers (shutdown_done err e sg s) = numOfWorkers s"
    and "autoSpawn (shutdown_done err e sg s) = autoSpawn s"
    and "syncWorker (shutdown_done err e sg s) = syncWorker s"
    and "isReloading (shutdown_done err e sg s) = isReloading s"
    and "isShutdown (shutdown_done err e sg s) = isShutdown s"
    and "isMaster (shutdown_done err e sg s) = isMaster s"
    and "shutdownLock (shutdown_done err e sg s) = shutdownLock s"
    and "reloaded (shutdown_done err e sg s) = reloaded s"
    and "shutdownTasks (shutdown_done err e sg s) = shutdownTasks s"
    and "workerMap (shutdown_done err e sg s) = workerMap s"
    and "syncedMap (shutdown_done err e sg s) = syncedMap s"
    and "onExit (shutdown_done err e sg s) = onExit s"
    and "on_reloaded (shutdown_done err e sg s) = on_reloaded s"
    and "on_workerExit (shutdown_done err e sg s) = on_workerExit s"
    and "cluster_isMaster (shutdown_done err e sg s) = cluster_isMaster s"
    and "cluster_workers (shutdown_done err e sg s) = cluster_workers s"
    and "next_worker_id (shutdown_done err e sg s) = next_worker_id s"
    and "pids (shutdown_done err e sg s) = pids s"
    and "self_pid (shutdown_done err e sg s) = self_pid s"
    and "now (shutdown_done err e sg s) = now s"
    and "cpus (shutdown_done err e sg s) = cpus s"
    and "signals_on (shutdown_done err e sg s) = signals_on s"
    and "cluster_exit_on (shutdown_done err e sg s) = cluster_exit_on s"
    and "message_on (shutdown_done err e sg s) = message_on s"
    and "suspended (shutdown_done err e sg s) = suspended s"
  by (simp_all add: shutdown_done_def Let_def split: option.splits callback.splits)

lemma run_labels_shutdown_done [simp]:
  "run_labels (trace (shutdown_done err e sg s)) = run_labels (trace s)"
  by (simp add: shutdown_done_def Let_def split: option.splits callback.splits)

lemma forks_shutdown_done [simp]:
  "forks (trace (shutdown_done err e sg s)) = forks (trace s)"
  by (simp add: shutdown_done_def Let_def split: option.splits callback.splits)

lemma events_named_shutdown_done:
  "events_named n (trace (shutdown_done err e sg s)) =
     events_named n (trace s) @
       (if n = ''exit'' then [Emit ''exit'' [JNum (if truthy err then 1 else 0), js_or sg JNull]] else [])"
  by (simp add: shutdown_done_def Let_def split: option.splits callback.splits)

lemma exited_shutdown_done:
  "exited (shutdown_done err e sg s) =
     (if hook_returns s then Some (if truthy err then 1 else 0) else exited s)"
  by (simp add: shutdown_done_def hook_returns_def Let_def split: option.splits callback.splits)

lemma eachSeries_shutdown_frame [simp]:
  shows "numOfWorkers (eachSeries_shutdown ts e sg s) = numOfWorkers s"
    and "autoSpawn (eachSeries_shutdown ts e sg s) = autoSpawn s"
    and "syncWorker (eachSeries_shutdown ts e sg s) = syncWorker s"
    and "isReloading (eachSeries_shutdown ts e sg s) = isReloading s"
    and "isShutdown (eachSeries_shutdown ts e sg s) = isShutdown s"
    and "isMaster (eachSeries_shutdown ts e sg s) = isMaster s"
    and "shutdownLock (eachSeries_shutdown ts e sg s) = shutdownLock s"
    and "reloaded (eachSeries_shutdown ts e sg s) = reloaded s"
    and "shutdownTasks (eachSeries_shutdown ts e sg s) = shutdownTasks s"
    and "workerMap (eachSeries_shutdown ts e sg s) = workerMap s"
    and "syncedMap (eachSeries_shutdown ts e sg s) = syncedMap s"
    and "onExit (eachSeries_shutdown ts e sg s) = onExit s"
    and "on_reloaded (eachSeries_shutdown ts e sg s) = on_reloaded s"
    and "on_workerExit (eachSeries_shutdown ts e sg s) = on_workerExit s"
    and "cluster_isMaster (eachSeries_shutdown ts e sg s) = cluster_isMaster s"
    and "cluster_workers (eachSeries_shutdown ts e sg s) = cluster_workers s"
    and "next_worker_id (eachSeries_shutdown ts e sg s) = next_worker_id s"
    and "pids (eachSeries_shutdown ts e sg s) = pids s"
    and "self_pid (eachSeries_shutdown ts e sg s) = self_pid s"
    and "now (eachSeries_shutdown ts e sg s) = now s"
    and "cpus (eachSeries_shutdown ts e sg s) = cpus s"
    and "signals_on (eachSeries_shutdown ts e sg s) = signals_on s"
    and "cluster_exit_on (eachSeries_shutdown ts e sg s) = cluster_exit_on s"
    and "message_on (eachSeries_shutdown ts e sg s) = message_on s"
  by (induction ts arbitrary: s) (simp_all add: Let_def split: callback.splits)

lemma run_labels_eachSeries_shutdown:
  "run_labels (trace (eachSeries_shutdown ts e sg s)) =
     run_labels (trace s) @ map (label \<circ> task) (visited ts)"
  by (induction ts arbitrary: s) (simp_all add: Let_def succeeds_def split: callback.splits)

lemma forks_eachSeries_shutdown [simp]:
  "forks (trace (eachSeries_shutdown ts e sg s)) = forks (trace s)"
  by (induction ts arbitrary: s) (simp_all add: Let_def split: callback.splits)

lemma events_named_eachSeries_shutdown:
  "n \<noteq> ''exit'' \<Longrightarrow> events_named n (trace (eachSeries_shutdown ts e sg s)) = events_named n (trace s)"
  by (induction ts arbitrary: s)
     (simp_all add: Let_def events_named_shutdown_done split: callback.splits)

lemma hook_returns_out [simp]:
  "hook_returns (out x s) = hook_returns s"
  "hook_returns (log l t s) = hook_returns s"
  "hook_returns (emit n a s) = hook_returns s"
  by (simp_all add: hook_returns_def)

lemma exited_eachSeries_shutdown_failed:
  "hook_returns s \<Longrightarrow> list_all succeeds pre \<Longrightarrow> fails item \<Longrightarrow>
   exited (eachSeries_shutdown (pre @ item # post) e sg s) = Some 1"
  by (induction pre arbitrary: s)
     (auto simp add: Let_def succeeds_def fails_def exited_shutdown_done split: callback.splits)

lemma visited_all: "list_all succeeds ts \<Longrightarrow> visited ts = ts"
  by (induction ts) simp_all

lemma visited_until: "list_all succeeds pre \<Longrightarrow> \<not> succeeds item \<Longrightarrow> visited (pre @ item # post) = pre @ [item]"
  by (induction pre) simp_all

lemma fails_not_succeeds: "fails item \<Longrightarrow> \<not> succeeds item"
  by (simp add: fails_def succeeds_def split: callback.splits)

lemma defers_not_succeeds: "defers item \<Longrightarrow> \<not> succeeds item"
  by (simp add: defers_def succeeds_def split: callback.splits)

lemma shutdown_frame [simp]:
  shows "numOfWorkers (shutdown e sg s) = numOfWorkers s"
    and "autoSpawn (shutdown e sg s) = autoSpawn s"
    and "syncWorker (shutdown e sg s) = syncWorker s"
    and "isReloading (shutdown e sg s) = isReloading s"
    and "isShutdown (shutdown e sg s) = isShutdown s"
    and "isMaster (shutdown e sg s) = isMaster s"
    and "shutdownLock (shutdown e sg s) = shutdownLock s"
    and "reloaded (shutdown e sg s) = reloaded s"
    and "shutdownTasks (shutdown e sg s) = shutdownTasks s"
    and "workerMap (shutdown e sg s) = workerMap s"
    and "syncedMap (shutdown e sg s) = syncedMap s"
    and "onExit (shutdown e sg s) = onExit s"
    and "on_reloaded (shutdown e sg s) = on_reloaded s"
    and "on_workerExit (shutdown e sg s) = on_workerExit s"
    and "cluster_isMaster (shutdown e sg s) = cluster_isMaster s"
    and "cluster_workers (shutdown e sg s) = cluster_workers s"
    and "next_worker_id (shutdown e sg s) = next_worker_id s"
    and "pids (shutdown e sg s) = pids s"
    and "self_pid (shutdown e sg s) = self_pid s"
    and "now (shutdown e sg s) = now s"
    and "cpus (shutdown e sg s) = cpus s"
    and "signals_on (shutdown e sg s) = signals_on s"
    and "cluster_exit_on (shutdown e sg s) = cluster_exit_on s"
    and "message_on (shutdown e sg s) = message_on s"
  by (simp_all add: shutdown_def Let_def)

lemma run_labels_shutdown:
  "run_labels (trace (shutdown e sg s)) =
     run_labels (trace s) @ map (label \<circ> task) (visited (taskList s))"
  by (simp add: shutdown_def Let_def run_labels_eachSeries_shutdown)

lemma forks_shutdown [simp]: "forks (trace (shutdown e sg s)) = forks (trace s)"
  by (simp add: shutdown_def Let_def)

lemma events_named_shutdown:
  "n \<noteq> ''exit'' \<Longrightarrow> events_named n (trace (shutdown e sg s)) = events_named n (trace s)"
  by (simp add: shutdown_def Let_def events_named_eachSeries_shutdown)

lemma exited_shutdown_failed:
  "hook_returns s \<Longrightarrow> taskList s = pre @ item # post \<Longrightarrow> list_all succeeds pre \<Longrightarrow>
   fails item \<Longrightarrow> exited (shutdown e sg s) = Some 1"
  by (simp add: shutdown_def Let_def exited_eachSeries_shutdown_failed)

section \<open>Exit codes and shutdown tasks\<close>

lemma taskList_upd [simp]:
  "taskList (out x s) = taskList s"
  "taskList (log l t s) = taskList s"
  "taskList (emit n a s) = taskList s"
  "taskList (s\<lparr>shutdownLock := b\<rparr>) = taskList s"
  "taskList (s\<lparr>isShutdown := b\<rparr>) = taskList s"
  by (simp_all add: taskList_def ee_isMaster_def)

lemma hook_returns_upd [simp]:
  "hook_returns (s\<lparr>shutdownLock := b\<rparr>) = hook_returns s"
  "hook_returns (s\<lparr>isShutdown := b\<rparr>) = hook_returns s"
  by (simp_all add: hook_returns_def)

lemma exited_eachSeries_shutdown_returns:
  "hook_returns s \<Longrightarrow> list_all (\<lambda>i. \<not> defers i) ts \<Longrightarrow>
   exited (eachSeries_shutdown ts e sg s) = Some (if list_all succeeds ts then 0 else 1)"
  by (induction ts arbitrary: s)
     (auto simp add: Let_def succeeds_def defers_def exited_shutdown_done split: callback.splits)

lemma exited_shutdown_returns:
  "hook_returns s \<Longrightarrow> list_all (\<lambda>i. \<not> defers i) (taskList s) \<Longrightarrow>
   exited (shutdown e sg s) = Some (if list_all succeeds (taskList s) then 0 else 1)"
  by (simp add: shutdown_def Let_def exited_eachSeries_shutdown_returns)

text \<open>
  \<open>stop(error)\<close> on a process that has no worker to wait for (standalone, or the
  primary process with no worker alive) goes straight to the final shutdown. When the
  tasks and the hook signal completion before they return, the process exits at once,
  with code 0 when every task of the filtered list reports success and with code 1
  otherwise, for every \<open>error\<close>, null or not.
\<close>

lemma stop_exits_at_once:
  assumes "isMaster s" and "\<not> shutdownLock s"
    and "numOfWorkers s = 0 \<or> (cluster_isMaster s \<and> noMoreWorkers s)"
    and "hook_returns s"
    and "list_all (\<lambda>i. \<not> defers i) (taskList s)"
  shows "exited (ee_stop codes error s) = Some (if list_all succeeds (taskList s) then 0 else 1)"
  using assms
  by (auto simp add: ee_stop_def exit_def Let_def noMoreWorkers_def exited_shutdown_returns)

lemma standalone_one_task_fields:
  "isMaster standalone_one_task" "\<not> shutdownLock standalone_one_task"
  "numOfWorkers standalone_one_task = 0" "onExit standalone_one_task = None"
  "shutdownTasks standalone_one_task = [\<lparr>task = Fn 1 (CallsBack JUndefined), runOnMaster = True\<rparr>]"
  "signals_on standalone_one_task" "exited standalone_one_task = None"
  by (simp_all add: standalone_one_task_def config_max_def ee_start_def
      ee_addShutdownTask_def start_def startListeners_def startClusterMode_def ee_isCluster_def Let_def)

lemma suspended_eachSeries_shutdown_deferred:
  "list_all succeeds pre \<Longrightarrow> defers item \<Longrightarrow>
   suspended (eachSeries_shutdown (pre @ item # post) e sg s) =
     suspended s @ [\<lparr>remaining = post, errorShutdown = e, shutdown_sig = sg\<rparr>]
   \<and> exited (eachSeries_shutdown (pre @ item # post) e sg s) = exited s"
  by (induction pre arbitrary: s)
     (auto simp add: Let_def succeeds_def defers_def split: callback.splits)

lemma shutdown_deferred:
  "taskList s = pre @ item # post \<Longrightarrow> list_all succeeds pre \<Longrightarrow> defers item \<Longrightarrow>
   suspended (shutdown e sg s) =
     suspended s @ [\<lparr>remaining = post, errorShutdown = e, shutdown_sig = sg\<rparr>]
   \<and> exited (shutdown e sg s) = exited s"
  by (simp add: shutdown_def Let_def suspended_eachSeries_shutdown_deferred)

lemma task_signal_resumes:
  "k < length (suspended s) \<Longrightarrow> \<not> truthy err \<Longrightarrow>
   run_labels (trace (task_signal k err s)) =
     run_labels (trace s) @ map (label \<circ> task) (visited (remaining (suspended s ! k)))"
  by (simp add: task_signal_def Let_def run_labels_eachSeries_shutdown)

lemma standalone_failing_first_fields:
  "isMaster standalone_failing_first" "\<not> shutdownLock standalone_failing_first"
  "numOfWorkers standalone_failing_first = 0" "onExit standalone_failing_first = None"
  "shutdownTasks standalone_failing_first =
     [\<lparr>task = Fn 1 (CallsBack (JStr ''disk full'')), runOnMaster = True\<rparr>,
      \<lparr>task = Fn 2 (CallsBack JUndefined), runOnMaster = True\<rparr>]"
  "signals_on standalone_failing_first" "exited standalone_failing_first = None"
  "run_labels (trace standalone_failing_first) = []"
  by (simp_all add: standalone_failing_first_def config_max_def
      ee_start_def ee_addShutdownTask_def start_def startListeners_def startClusterMode_def
      ee_isCluster_def Let_def)

lemma list_all_filter: "list_all P xs \<Longrightarrow> list_all P (filter Q xs)"
  by (induction xs) simp_all


lemma single_master_fields:
  "isMaster single_master" "\<not> shutdownLock single_master"
  "numOfWorkers single_master = 1" "onExit single_master = None"
  "shutdownTasks single_master =
     [\<lparr>task = Fn 1 (CallsBack JUndefined), runOnMaster = False\<rparr>,
      \<lparr>task = Fn 2 (CallsBack JUndefined), runOnMaster = True\<rparr>]"
  "signals_on single_master" "exited single_master = None"
  "cluster_isMaster single_master" "cluster_workers single_master = []"
  "run_labels (trace single_master) = []"
  by (simp_all add: single_master_def config_max_def
      ee_start_def ee_addShutdownTask_def start_def startListeners_def startClusterMode_def
      ee_isCluster_def Let_def)



section \<open>Start and the role queries\<close>

text \<open>
  Claim C9. A start with \<open>max = 0\<close>, whatever the rest of the config and the process,
  emits the event \<open>cluster\<close> with the state \<open>non.ready\<close> once and the event
  \<open>cluster.non.ready\<close> once, and no other event; after it \<open>isCluster()\<close> and
  \<open>isMaster()\<close> return false.
\<close>

theorem max_zero_non_ready:
  "emits (trace (ee_start (Some (c\<lparr>cfg_max := Some 0\<rparr>)) s)) =
     emits (trace s) @ [Emit ''cluster'' [JStr ''non.ready''], Emit ''cluster.non.ready'' []]
   \<and> ee_isCluster (ee_start (Some (c\<lparr>cfg_max := Some 0\<rparr>)) s) = False
   \<and> ee_isMaster (ee_start (Some (c\<lparr>cfg_max := Some 0\<rparr>)) s) = False"
  by (simp add: ee_start_def start_def startClusterMode_def startListeners_def ee_isCluster_def
      ee_isMaster_def Let_def)

text \<open>The theorem of C9 on the primary process as it is loaded.\<close>

theorem max_zero_non_ready_witness:
  "emits (trace (ee_start (Some (config_max 0)) primary_process)) =
     [Emit ''cluster'' [JStr ''non.ready''], Emit ''cluster.non.ready'' []]
   \<and> ee_isCluster (ee_start (Some (config_max 0)) primary_process) = False
   \<and> ee_isMaster (ee_start (Some (config_max 0)) primary_process) = False"
  using max_zero_non_ready [of "config_max 0" primary_process]
  by (simp add: config_max_def)

text \<open>
  Claim C10. In the primary process a start with \<open>max = 1\<close> forks no worker and emits
  the two non-ready events, the same events as a start with \<open>max = 0\<close>; after it
  \<open>isCluster()\<close> and \<open>isMaster()\<close> return true.
\<close>

theorem max_one_primary:
  assumes "cluster_isMaster s"
  shows "emits (trace (ee_start (Some (c\<lparr>cfg_max := Some 1\<rparr>)) s)) =
           emits (trace s) @ [Emit ''cluster'' [JStr ''non.ready''], Emit ''cluster.non.ready'' []]
   \<and> emits (trace (ee_start (Some (c\<lparr>cfg_max := Some 1\<rparr>)) s)) =
       emits (trace (ee_start (Some (c\<lparr>cfg_max := Some 0\<rparr>)) s))
   \<and> cluster_workers (ee_start (Some (c\<lparr>cfg_max := Some 1\<rparr>)) s) = cluster_workers s
   \<and> forks (trace (ee_start (Some (c\<lparr>cfg_max := Some 1\<rparr>)) s)) = forks (trace s)
   \<and> ee_isCluster (ee_start (Some (c\<lparr>cfg_max := Some 1\<rparr>)) s) = True
   \<and> ee_isMaster (ee_start (Some (c\<lparr>cfg_max := Some 1\<rparr>)) s) = True"
  using assms
  by (simp add: ee_start_def start_def startClusterMode_def startListeners_def ee_isCluster_def
      ee_isMaster_def Let_def)

text \<open>The theorem of C10 on the primary process as it is loaded.\<close>

theorem max_one_primary_witness:
  "emits (trace (ee_start (Some (config_max 1)) primary_process)) =
     [Emit ''cluster'' [JStr ''non.ready''], Emit ''cluster.non.ready'' []]
   \<and> cluster_workers (ee_start (Some (config_max 1)) primary_process) = []
   \<and> forks (trace (ee_start (Some (config_max 1)) primary_process)) = []
   \<and> ee_isCluster (ee_start (Some (config_max 1)) primary_process) = True
   \<and> ee_isMaster (ee_start (Some (config_max 1)) primary_process) = True"
  using max_one_primary [of primary_process "config_max 1"]
  by (simp add: config_max_def)

section \<open>Reload off the master\<close>

text \<open>
  Claim C7. In a process for which \<open>isMaster()\<close> is false (a worker, or a standalone
  process) a reload, called or triggered by the hang-up signal, sends nothing,
  emits nothing and changes no variable: the state after it is the state before it,
  but for one log line in the standalone case.
\<close>

theorem reload_off_master_is_noop:
  assumes "\<not> ee_isMaster s"
  shows "reload s = (if isMaster s then log INFO ''Reloading'' s else s)
       \<and> deliver codes (Signal SIGHUP) s =
           Inr (if exited s = None \<and> signals_on s \<and> isMaster s then log INFO ''Reloading'' s else s)
       \<and> not_logs (trace (reload s)) = not_logs (trace s)
       \<and> isReloading (reload s) = isReloading s
       \<and> reloaded (reload s) = reloaded s
       \<and> on_reloaded (reload s) = on_reloaded s"
proof -
  from assms have "\<not> isMaster s \<or> numOfWorkers s = 0"
    by (simp add: ee_isMaster_def split: if_splits)
  then show ?thesis
    by (auto simp add: reload_def deliver_def Let_def)
qed

lemma started_worker_fields:
  "isMaster started_worker = False" "numOfWorkers started_worker = 2"
  "signals_on started_worker" "exited started_worker = None" "message_on started_worker"
  by (simp_all add: started_worker_def config_max_def
      ee_start_def start_def startListeners_def startClusterMode_def startWorker_def
      ee_isCluster_def Let_def)

text \<open>The theorem of C7 on a worker process: the state does not change at all.\<close>

theorem reload_off_master_is_noop_witness:
  "reload started_worker = started_worker
   \<and> deliver example_codes (Signal SIGHUP) started_worker = Inr started_worker"
  using reload_off_master_is_noop [of started_worker example_codes]
  by (simp add: started_worker_fields ee_isMaster_def)

section \<open>Workers and the private emitter\<close>

lemma fst_cluster_fork [simp]:
  "fst (cluster_fork s) = \<lparr>wid = next_worker_id s, process_pid = pids s (next_worker_id s)\<rparr>"
  by (simp add: cluster_fork_def Let_def)

lemma cluster_fork_frame [simp]:
  shows "numOfWorkers (snd (cluster_fork s)) = numOfWorkers s"
    and "autoSpawn (snd (cluster_fork s)) = autoSpawn s"
    and "syncWorker (snd (cluster_fork s)) = syncWorker s"
    and "isReloading (snd (cluster_fork s)) = isReloading s"
    and "isShutdown (snd (cluster_fork s)) = isShutdown s"
    and "isMaster (snd (cluster_fork s)) = isMaster s"
    and "shutdownLock (snd (cluster_fork s)) = shutdownLock s"
    and "reloaded (snd (cluster_fork s)) = reloaded s"
    and "shutdownTasks (snd (cluster_fork s)) = shutdownTasks s"
    and "workerMap (snd (cluster_fork s)) = workerMap s"
    and "syncedMap (snd (cluster_fork s)) = syncedMap s"
    and "onExit (snd (cluster_fork s)) = onExit s"
    and "on_reloaded (snd (cluster_fork s)) = on_reloaded s"
    and "on_workerExit (snd (cluster_fork s)) = on_workerExit s"
    and "cluster_isMaster (snd (cluster_fork s)) = cluster_isMaster s"
    and "pids (snd (cluster_fork s)) = pids s"
    and "self_pid (snd (cluster_fork s)) = self_pid s"
    and "now (snd (cluster_fork s)) = now s"
    and "cpus (snd (cluster_fork s)) = cpus s"
    and "signals_on (snd (cluster_fork s)) = signals_on s"
    and "cluster_exit_on (snd (cluster_fork s)) = cluster_exit_on s"
    and "message_on (snd (cluster_fork s)) = message_on s"
    and "suspended (snd (cluster_fork s)) = suspended s"
    and "hooks_waiting (snd (cluster_fork s)) = hooks_waiting s"
    and "exited (snd (cluster_fork s)) = exited s"
  by (simp_all add: cluster_fork_def Let_def)

lemma cluster_fork_changes [simp]:
  "cluster_workers (snd (cluster_fork s)) = cluster_workers s @ [fst (cluster_fork s)]"
  "next_worker_id (snd (cluster_fork s)) = Suc (next_worker_id s)"
  "trace (snd (cluster_fork s)) = trace s @ [Fork (fst (cluster_fork s))]"
  by (simp_all add: cluster_fork_def Let_def)

lemma syncWorkerMap_frame [simp]:
  shows "numOfWorkers (syncWorkerMap s) = numOfWorkers s"
    and "autoSpawn (syncWorkerMap s) = autoSpawn s"
    and "syncWorker (syncWorkerMap s) = syncWorker s"
    and "isReloading (syncWorkerMap s) = isReloading s"
    and "isShutdown (syncWorkerMap s) = isShutdown s"
    and "isMaster (syncWorkerMap s) = isMaster s"
    and "shutdownLock (syncWorkerMap s) = shutdownLock s"
    and "reloaded (syncWorkerMap s) = reloaded s"
    and "shutdownTasks (syncWorkerMap s) = shutdownTasks s"
    and "workerMap (syncWorkerMap s) = workerMap s"
    and "syncedMap (syncWorkerMap s) = syncedMap s"
    and "onExit (syncWorkerMap s) = onExit s"
    and "on_reloaded (syncWorkerMap s) = on_reloaded s"
    and "on_workerExit (syncWorkerMap s) = on_workerExit s"
    and "cluster_isMaster (syncWorkerMap s) = cluster_isMaster s"
    and "cluster_workers (syncWorkerMap s) = cluster_workers s"
    and "next_worker_id (syncWorkerMap s) = next_worker_id s"
    and "pids (syncWorkerMap s) = pids s"
    and "self_pid (syncWorkerMap s) = self_pid s"
    and "now (syncWorkerMap s) = now s"
    and "cpus (syncWorkerMap s) = cpus s"
    and "signals_on (syncWorkerMap s) = signals_on s"
    and "cluster_exit_on (syncWorkerMap s) = cluster_exit_on s"
    and "message_on (syncWorkerMap s) = message_on s"
    and "suspended (syncWorkerMap s) = suspended s"
    and "hooks_waiting (syncWorkerMap s) = hooks_waiting s"
    and "exited (syncWorkerMap s) = exited s"
  by (simp_all add: syncWorkerMap_def)

lemma trace_syncWorkerMap:
  "trace (syncWorkerMap s) =
     trace s @ (if syncWorker s
                then [Log VERBOSE ''Dispatch synchronize worker command'',
                      Send (SendSync (workerMap s)) None]
                else [])"
  by (simp add: syncWorkerMap_def)

lemma syncWorkerMap_quiet [simp]:
  "emits (trace (syncWorkerMap s)) = emits (trace s)"
  "forks (trace (syncWorkerMap s)) = forks (trace s)"
  "events_named n (trace (syncWorkerMap s)) = events_named n (trace s)"
  "run_labels (trace (syncWorkerMap s)) = run_labels (trace s)"
  by (simp_all add: trace_syncWorkerMap)

lemma fst_createWorker [simp]:
  "fst (createWorker s) = \<lparr>wid = next_worker_id s, process_pid = pids s (next_worker_id s)\<rparr>"
  by (simp add: createWorker_def Let_def split_def)

lemma createWorker_frame [simp]:
  shows "numOfWorkers (snd (createWorker s)) = numOfWorkers s"
    and "autoSpawn (snd (createWorker s)) = autoSpawn s"
    and "syncWorker (snd (createWorker s)) = syncWorker s"
    and "isReloading (snd (createWorker s)) = isReloading s"
    and "isShutdown (snd (createWorker s)) = isShutdown s"
    and "isMaster (snd (createWorker s)) = isMaster s"
    and "shutdownLock (snd (createWorker s)) = shutdownLock s"
    and "reloaded (snd (createWorker s)) = reloaded s"
    and "shutdownTasks (snd (createWorker s)) = shutdownTasks s"
    and "syncedMap (snd (createWorker s)) = syncedMap s"
    and "onExit (snd (createWorker s)) = onExit s"
    and "on_reloaded (snd (createWorker s)) = on_reloaded s"
    and "on_workerExit (snd (createWorker s)) = on_workerExit s"
    and "cluster_isMaster (snd (createWorker s)) = cluster_isMaster s"
    and "pids (snd (createWorker s)) = pids s"
    and "self_pid (snd (createWorker s)) = self_pid s"
    and "now (snd (createWorker s)) = now s"
    and "cpus (snd (createWorker s)) = cpus s"
    and "signals_on (snd (createWorker s)) = signals_on s"
    and "cluster_exit_on (snd (createWorker s)) = cluster_exit_on s"
    and "message_on (snd (createWorker s)) = message_on s"
    and "suspended (snd (createWorker s)) = suspended s"
    and "hooks_waiting (snd (createWorker s)) = hooks_waiting s"
    and "exited (snd (createWorker s)) = exited s"
  by (simp_all add: createWorker_def Let_def split_def)

lemma createWorker_changes [simp]:
  "cluster_workers (snd (createWorker s)) = cluster_workers s @ [fst (createWorker s)]"
  "next_worker_id (snd (createWorker s)) = Suc (next_worker_id s)"
  "workerMap (snd (createWorker s)) =
     AList.update (next_worker_id s) \<lparr>started = now s, pid = pids s (next_worker_id s)\<rparr> (workerMap s)"
  by (simp_all add: createWorker_def Let_def split_def)

lemma createWorker_trace [simp]:
  "emits (trace (snd (createWorker s))) = emits (trace s)"
  "forks (trace (snd (createWorker s))) = forks (trace s) @ [Fork (fst (createWorker s))]"
  "events_named n (trace (snd (createWorker s))) = events_named n (trace s)"
  "run_labels (trace (snd (createWorker s))) = run_labels (trace s)"
  by (simp_all add: createWorker_def Let_def split_def)

lemma exit_each_frame [simp]:
  shows "numOfWorkers (exit_each ks e s) = numOfWorkers s"
    and "autoSpawn (exit_each ks e s) = autoSpawn s"
    and "syncWorker (exit_each ks e s) = syncWorker s"
    and "isReloading (exit_each ks e s) = isReloading s"
    and "isShutdown (exit_each ks e s) = isShutdown s"
    and "isMaster (exit_each ks e s) = isMaster s"
    and "shutdownLock (exit_each ks e s) = shutdownLock s"
    and "reloaded (exit_each ks e s) = reloaded s"
    and "shutdownTasks (exit_each ks e s) = shutdownTasks s"
    and "workerMap (exit_each ks e s) = workerMap s"
    and "syncedMap (exit_each ks e s) = syncedMap s"
    and "onExit (exit_each ks e s) = onExit s"
    and "on_reloaded (exit_each ks e s) = on_reloaded s"
    and "cluster_isMaster (exit_each ks e s) = cluster_isMaster s"
    and "cluster_workers (exit_each ks e s) = cluster_workers s"
    and "next_worker_id (exit_each ks e s) = next_worker_id s"
    and "pids (exit_each ks e s) = pids s"
    and "self_pid (exit_each ks e s) = self_pid s"
    and "now (exit_each ks e s) = now s"
    and "cpus (exit_each ks e s) = cpus s"
    and "signals_on (exit_each ks e s) = signals_on s"
    and "cluster_exit_on (exit_each ks e s) = cluster_exit_on s"
    and "message_on (exit_each ks e s) = message_on s"
    and "suspended (exit_each ks e s) = suspended s"
    and "hooks_waiting (exit_each ks e s) = hooks_waiting s"
    and "exited (exit_each ks e s) = exited s"
  by (cases ks; simp add: Let_def)+

lemma exit_each_quiet [simp]:
  "emits (trace (exit_each ks e s)) = emits (trace s)"
  "forks (trace (exit_each ks e s)) = forks (trace s)"
  "events_named n (trace (exit_each ks e s)) = events_named n (trace s)"
  "run_labels (trace (exit_each ks e s)) = run_labels (trace s)"
  by (cases ks; simp add: Let_def)+

lemma exit_each_fold_frame [simp]:
  shows "numOfWorkers (foldl (\<lambda>s (ks, e). exit_each ks e s) s l) = numOfWorkers s"
    and "autoSpawn (foldl (\<lambda>s (ks, e). exit_each ks e s) s l) = autoSpawn s"
    and "syncWorker (foldl (\<lambda>s (ks, e). exit_each ks e s) s l) = syncWorker s"
    and "isReloading (foldl (\<lambda>s (ks, e). exit_each ks e s) s l) = isReloading s"
    and "isShutdown (foldl (\<lambda>s (ks, e). exit_each ks e s) s l) = isShutdown s"
    and "isMaster (foldl (\<lambda>s (ks, e). exit_each ks e s) s l) = isMaster s"
    and "shutdownLock (foldl (\<lambda>s (ks, e). exit_each ks e s) s l) = shutdownLock s"
    and "reloaded (foldl (\<lambda>s (ks, e). exit_each ks e s) s l) = reloaded s"
    and "shutdownTasks (foldl (\<lambda>s (ks, e). exit_each ks e s) s l) = shutdownTasks s"
    and "workerMap (foldl (\<lambda>s (ks, e). exit_each ks e s) s l) = workerMap s"
    and "syncedMap (foldl (\<lambda>s (ks, e). exit_each ks e s) s l) = syncedMap s"
    and "onExit (foldl (\<lambda>s (ks, e). exit_each ks e s) s l) = onExit s"
    and "on_reloaded (foldl (\<lambda>s (ks, e). exit_each ks e s) s l) = on_reloaded s"
    and "cluster_isMaster (foldl (\<lambda>s (ks, e). exit_each ks e s) s l) = cluster_isMaster s"
    and "cluster_workers (foldl (\<lambda>s (ks, e). exit_each ks e s) s l) = cluster_workers s"
    and "next_worker_id (foldl (\<lambda>s (ks, e). exit_each ks e s) s l) = next_worker_id s"
    and "pids (foldl (\<lambda>s (ks, e). exit_each ks e s) s l) = pids s"
    and "self_pid (foldl (\<lambda>s (ks, e). exit_each ks e s) s l) = self_pid s"
    and "now (foldl (\<lambda>s (ks, e). exit_each ks e s) s l) = now s"
    and "cpus (foldl (\<lambda>s (ks, e). exit_each ks e s) s l) = cpus s"
    and "signals_on (foldl (\<lambda>s (ks, e). exit_each ks e s) s l) = signals_on s"
    and "cluster_exit_on (foldl (\<lambda>s (ks, e). exit_each ks e s) s l) = cluster_exit_on s"
    and "message_on (foldl (\<lambda>s (ks, e). exit_each ks e s) s l) = message_on s"
    and "suspended (foldl (\<lambda>s (ks, e). exit_each ks e s) s l) = suspended s"
    and "hooks_waiting (foldl (\<lambda>s (ks, e). exit_each ks e s) s l) = hooks_waiting s"
    and "exited (foldl (\<lambda>s (ks, e). exit_each ks e s) s l) = exited s"
  by (induction l arbitrary: s; simp add: split_def)+

lemma exit_each_fold_quiet [simp]:
  "emits (trace (foldl (\<lambda>s (ks, e). exit_each ks e s) s l)) = emits (trace s)"
  "forks (trace (foldl (\<lambda>s (ks, e). exit_each ks e s) s l)) = forks (trace s)"
  "events_named n (trace (foldl (\<lambda>s (ks, e). exit_each ks e s) s l)) = events_named n (trace s)"
  "run_labels (trace (foldl (\<lambda>s (ks, e). exit_each ks e s) s l)) = run_labels (trace s)"
  by (induction l arbitrary: s; simp add: split_def)+

lemma emit_workerExit_frame [simp]:
  shows "numOfWorkers (emit_workerExit s) = numOfWorkers s"
    and "autoSpawn (emit_workerExit s) = autoSpawn s"
    and "syncWorker (emit_workerExit s) = syncWorker s"
    and "isReloading (emit_workerExit s) = isReloading s"
    and "isShutdown (emit_workerExit s) = isShutdown s"
    and "isMaster (emit_workerExit s) = isMaster s"
    and "shutdownLock (emit_workerExit s) = shutdownLock s"
    and "reloaded (emit_workerExit s) = reloaded s"
    and "shutdownTasks (emit_workerExit s) = shutdownTasks s"
    and "workerMap (emit_workerExit s) = workerMap s"
    and "syncedMap (emit_workerExit s) = syncedMap s"
    and "onExit (emit_workerExit s) = onExit s"
    and "on_reloaded (emit_workerExit s) = on_reloaded s"
    and "cluster_isMaster (emit_workerExit s) = cluster_isMaster s"
    and "cluster_workers (emit_workerExit s) = cluster_workers s"
    and "next_worker_id (emit_workerExit s) = next_worker_id s"
    and "pids (emit_workerExit s) = pids s"
    and "self_pid (emit_workerExit s) = self_pid s"
    and "now (emit_workerExit s) = now s"
    and "cpus (emit_workerExit s) = cpus s"
    and "signals_on (emit_workerExit s) = signals_on s"
    and "cluster_exit_on (emit_workerExit s) = cluster_exit_on s"
    and "message_on (emit_workerExit s) = message_on s"
    and "suspended (emit_workerExit s) = suspended s"
    and "hooks_waiting (emit_workerExit s) = hooks_waiting s"
    and "exited (emit_workerExit s) = exited s"
  by (simp_all add: emit_workerExit_def)

lemma emit_workerExit_quiet [simp]:
  "emits (trace (emit_workerExit s)) = emits (trace s)"
  "forks (trace (emit_workerExit s)) = forks (trace s)"
  "events_named n (trace (emit_workerExit s)) = events_named n (trace s)"
  "run_labels (trace (emit_workerExit s)) = run_labels (trace s)"
  by (simp_all add: emit_workerExit_def)

lemma reload_each_frame [simp]:
  shows "numOfWorkers (reload_each ks s) = numOfWorkers s"
    and "autoSpawn (reload_each ks s) = autoSpawn s"
    and "syncWorker (reload_each ks s) = syncWorker s"
    and "isReloading (reload_each ks s) = isReloading s"
    and "isShutdown (reload_each ks s) = isShutdown s"
    and "isMaster (reload_each ks s) = isMaster s"
    and "shutdownLock (reload_each ks s) = shutdownLock s"
    and "reloaded (reload_each ks s) = reloaded s"
    and "shutdownTasks (reload_each ks s) = shutdownTasks s"
    and "workerMap (reload_each ks s) = workerMap s"
    and "syncedMap (reload_each ks s) = syncedMap s"
    and "onExit (reload_each ks s) = onExit s"
    and "on_workerExit (reload_each ks s) = on_workerExit s"
    and "cluster_isMaster (reload_each ks s) = cluster_isMaster s"
    and "cluster_workers (reload_each ks s) = cluster_workers s"
    and "next_worker_id (reload_each ks s) = next_worker_id s"
    and "pids (reload_each ks s) = pids s"
    and "self_pid (reload_each ks s) = self_pid s"
    and "now (reload_each ks s) = now s"
    and "cpus (reload_each ks s) = cpus s"
    and "signals_on (reload_each ks s) = signals_on s"
    and "cluster_exit_on (reload_each ks s) = cluster_exit_on s"
    and "message_on (reload_each ks s) = message_on s"
    and "suspended (reload_each ks s) = suspended s"
    and "hooks_waiting (reload_each ks s) = hooks_waiting s"
    and "exited (reload_each ks s) = exited s"
  by (cases ks; simp add: Let_def)+

lemma reload_each_quiet [simp]:
  "emits (trace (reload_each ks s)) = emits (trace s)"
  "forks (trace (reload_each ks s)) = forks (trace s)"
  "events_named n (trace (reload_each ks s)) = events_named n (trace s)"
  "run_labels (trace (reload_each ks s)) = run_labels (trace s)"
  by (cases ks; simp add: Let_def)+

lemma reload_each_fold_frame [simp]:
  shows "numOfWorkers (foldl (\<lambda>s ks. reload_each ks s) s l) = numOfWorkers s"
    and "autoSpawn (foldl (\<lambda>s ks. reload_each ks s) s l) = autoSpawn s"
    and "syncWorker (foldl (\<lambda>s ks. reload_each ks s) s l) = syncWorker s"
    and "isReloading (foldl (\<lambda>s ks. reload_each ks s) s l) = isReloading s"
    and "isShutdown (foldl (\<lambda>s ks. reload_each ks s) s l) = isShutdown s"
    and "isMaster (foldl (\<lambda>s ks. reload_each ks s) s l) = isMaster s"
    and "shutdownLock (foldl (\<lambda>s ks. reload_each ks s) s l) = shutdownLock s"
    and "reloaded (foldl (\<lambda>s ks. reload_each ks s) s l) = reloaded s"
    and "shutdownTasks (foldl (\<lambda>s ks. reload_each ks s) s l) = shutdownTasks s"
    and "workerMap (foldl (\<lambda>s ks. reload_each ks s) s l) = workerMap s"
    and "syncedMap (foldl (\<lambda>s ks. reload_each ks s) s l) = syncedMap s"
    and "onExit (foldl (\<lambda>s ks. reload_each ks s) s l) = onExit s"
    and "on_workerExit (foldl (\<lambda>s ks. reload_each ks s) s l) = on_workerExit s"
    and "cluster_isMaster (foldl (\<lambda>s ks. reload_each ks s) s l) = cluster_isMaster s"
    and "cluster_workers (foldl (\<lambda>s ks. reload_each ks s) s l) = cluster_workers s"
    and "next_worker_id (foldl (\<lambda>s ks. reload_each ks s) s l) = next_worker_id s"
    and "pids (foldl (\<lambda>s ks. reload_each ks s) s l) = pids s"
    and "self_pid (foldl (\<lambda>s ks. reload_each ks s) s l) = self_pid s"
    and "now (foldl (\<lambda>s ks. reload_each ks s) s l) = now s"
    and "cpus (foldl (\<lambda>s ks. reload_each ks s) s l) = cpus s"
    and "signals_on (foldl (\<lambda>s ks. reload_each ks s) s l) = signals_on s"
    and "cluster_exit_on (foldl (\<lambda>s ks. reload_each ks s) s l) = cluster_exit_on s"
    and "message_on (foldl (\<lambda>s ks. reload_each ks s) s l) = message_on s"
    and "suspended (foldl (\<lambda>s ks. reload_each ks s) s l) = suspended s"
    and "hooks_waiting (foldl (\<lambda>s ks. reload_each ks s) s l) = hooks_waiting s"
    and "exited (foldl (\<lambda>s ks. reload_each ks s) s l) = exited s"
  by (induction l arbitrary: s; simp)+

lemma reload_each_fold_quiet [simp]:
  "emits (trace (foldl (\<lambda>s ks. reload_each ks s) s l)) = emits (trace s)"
  "forks (trace (foldl (\<lambda>s ks. reload_each ks s) s l)) = forks (trace s)"
  "events_named n (trace (foldl (\<lambda>s ks. reload_each ks s) s l)) = events_named n (trace s)"
  "run_labels (trace (foldl (\<lambda>s ks. reload_each ks s) s l)) = run_labels (trace s)"
  by (induction l arbitrary: s; simp)+

lemma emit_reloaded_frame [simp]:
  shows "numOfWorkers (emit_reloaded s) = numOfWorkers s"
    and "autoSpawn (emit_reloaded s) = autoSpawn s"
    and "syncWorker (emit_reloaded s) = syncWorker s"
    and "isReloading (emit_reloaded s) = isReloading s"
    and "isShutdown (emit_reloaded s) = isShutdown s"
    and "isMaster (emit_reloaded s) = isMaster s"
    and "shutdownLock (emit_reloaded s) = shutdownLock s"
    and "reloaded (emit_reloaded s) = reloaded s"
    and "shutdownTasks (emit_reloaded s) = shutdownTasks s"
    and "workerMap (emit_reloaded s) = workerMap s"
    and "syncedMap (emit_reloaded s) = syncedMap s"
    and "onExit (emit_reloaded s) = onExit s"
    and "on_workerExit (emit_reloaded s) = on_workerExit s"
    and "cluster_isMaster (emit_reloaded s) = cluster_isMaster s"
    and "cluster_workers (emit_reloaded s) = cluster_workers s"
    and "next_worker_id (emit_reloaded s) = next_worker_id s"
    and "pids (emit_reloaded s) = pids s"
    and "self_pid (emit_reloaded s) = self_pid s"
    and "now (emit_reloaded s) = now s"
    and "cpus (emit_reloaded s) = cpus s"
    and "signals_on (emit_reloaded s) = signals_on s"
    and "cluster_exit_on (emit_reloaded s) = cluster_exit_on s"
    and "message_on (emit_reloaded s) = message_on s"
    and "suspended (emit_reloaded s) = suspended s"
    and "hooks_waiting (emit_reloaded s) = hooks_waiting s"
    and "exited (emit_reloaded s) = exited s"
  by (simp_all add: emit_reloaded_def)

lemma emit_reloaded_quiet [simp]:
  "emits (trace (emit_reloaded s)) = emits (trace s)"
  "forks (trace (emit_reloaded s)) = forks (trace s)"
  "events_named n (trace (emit_reloaded s)) = events_named n (trace s)"
  "run_labels (trace (emit_reloaded s)) = run_labels (trace s)"
  by (simp_all add: emit_reloaded_def)

section \<open>Requests\<close>

lemma exit_frame [simp]:
  shows "numOfWorkers (exit e sg s) = numOfWorkers s"
    and "autoSpawn (exit e sg s) = autoSpawn s"
    and "syncWorker (exit e sg s) = syncWorker s"
    and "isReloading (exit e sg s) = isReloading s"
    and "isMaster (exit e sg s) = isMaster s"
    and "reloaded (exit e sg s) = reloaded s"
    and "shutdownTasks (exit e sg s) = shutdownTasks s"
    and "workerMap (exit e sg s) = workerMap s"
    and "syncedMap (exit e sg s) = syncedMap s"
    and "onExit (exit e sg s) = onExit s"
    and "on_reloaded (exit e sg s) = on_reloaded s"
    and "cluster_isMaster (exit e sg s) = cluster_isMaster s"
    and "cluster_workers (exit e sg s) = cluster_workers s"
    and "next_worker_id (exit e sg s) = next_worker_id s"
    and "pids (exit e sg s) = pids s"
    and "self_pid (exit e sg s) = self_pid s"
    and "now (exit e sg s) = now s"
    and "cpus (exit e sg s) = cpus s"
    and "signals_on (exit e sg s) = signals_on s"
    and "cluster_exit_on (exit e sg s) = cluster_exit_on s"
    and "message_on (exit e sg s) = message_on s"
  by (simp_all add: exit_def Let_def)

lemma ee_stop_frame [simp]:
  shows "numOfWorkers (ee_stop codes e s) = numOfWorkers s"
    and "autoSpawn (ee_stop codes e s) = autoSpawn s"
    and "syncWorker (ee_stop codes e s) = syncWorker s"
    and "isReloading (ee_stop codes e s) = isReloading s"
    and "isMaster (ee_stop codes e s) = isMaster s"
    and "reloaded (ee_stop codes e s) = reloaded s"
    and "shutdownTasks (ee_stop codes e s) = shutdownTasks s"
    and "workerMap (ee_stop codes e s) = workerMap s"
    and "syncedMap (ee_stop codes e s) = syncedMap s"
    and "onExit (ee_stop codes e s) = onExit s"
    and "on_reloaded (ee_stop codes e s) = on_reloaded s"
    and "cluster_isMaster (ee_stop codes e s) = cluster_isMaster s"
    and "cluster_workers (ee_stop codes e s) = cluster_workers s"
    and "next_worker_id (ee_stop codes e s) = next_worker_id s"
    and "pids (ee_stop codes e s) = pids s"
    and "self_pid (ee_stop codes e s) = self_pid s"
    and "now (ee_stop codes e s) = now s"
    and "cpus (ee_stop codes e s) = cpus s"
    and "signals_on (ee_stop codes e s) = signals_on s"
    and "cluster_exit_on (ee_stop codes e s) = cluster_exit_on s"
    and "message_on (ee_stop codes e s) = message_on s"
  by (simp_all add: ee_stop_def)

lemma reload_frame [simp]:
  shows "numOfWorkers (reload s) = numOfWorkers s"
    and "autoSpawn (reload s) = autoSpawn s"
    and "syncWorker (reload s) = syncWorker s"
    and "isShutdown (reload s) = isShutdown s"
    and "isMaster (reload s) = isMaster s"
    and "shutdownLock (reload s) = shutdownLock s"
    and "shutdownTasks (reload s) = shutdownTasks s"
    and "workerMap (reload s) = workerMap s"
    and "syncedMap (reload s) = syncedMap s"
    and "onExit (reload s) = onExit s"
    and "on_workerExit (reload s) = on_workerExit s"
    and "cluster_isMaster (reload s) = cluster_isMaster s"
    and "cluster_workers (reload s) = cluster_workers s"
    and "next_worker_id (reload s) = next_worker_id s"
    and "pids (reload s) = pids s"
    and "self_pid (reload s) = self_pid s"
    and "now (reload s) = now s"
    and "cpus (reload s) = cpus s"
    and "signals_on (reload s) = signals_on s"
    and "cluster_exit_on (reload s) = cluster_exit_on s"
    and "message_on (reload s) = message_on s"
    and "suspended (reload s) = suspended s"
    and "hooks_waiting (reload s) = hooks_waiting s"
    and "exited (reload s) = exited s"
  by (simp_all add: reload_def Let_def)

lemma handleReloading_frame [simp]:
  shows "numOfWorkers (handleReloading s) = numOfWorkers s"
    and "autoSpawn (handleReloading s) = autoSpawn s"
    and "syncWorker (handleReloading s) = syncWorker s"
    and "isShutdown (handleReloading s) = isShutdown s"
    and "isMaster (handleReloading s) = isMaster s"
    and "shutdownLock (handleReloading s) = shutdownLock s"
    and "shutdownTasks (handleReloading s) = shutdownTasks s"
    and "syncedMap (handleReloading s) = syncedMap s"
    and "onExit (handleReloading s) = onExit s"
    and "on_workerExit (handleReloading s) = on_workerExit s"
    and "cluster_isMaster (handleReloading s) = cluster_isMaster s"
    and "pids (handleReloading s) = pids s"
    and "self_pid (handleReloading s) = self_pid s"
    and "now (handleReloading s) = now s"
    and "cpus (handleReloading s) = cpus s"
    and "signals_on (handleReloading s) = signals_on s"
    and "cluster_exit_on (handleReloading s) = cluster_exit_on s"
    and "message_on (handleReloading s) = message_on s"
    and "suspended (handleReloading s) = suspended s"
    and "hooks_waiting (handleReloading s) = hooks_waiting s"
    and "exited (handleReloading s) = exited s"
  by (simp_all add: handleReloading_def Let_def split_def)

lemma task_signal_frame [simp]:
  shows "numOfWorkers (task_signal k err s) = numOfWorkers s"
    and "autoSpawn (task_signal k err s) = autoSpawn s"
    and "syncWorker (task_signal k err s) = syncWorker s"
    and "isReloading (task_signal k err s) = isReloading s"
    and "isShutdown (task_signal k err s) = isShutdown s"
    and "isMaster (task_signal k err s) = isMaster s"
    and "shutdownLock (task_signal k err s) = shutdownLock s"
    and "reloaded (task_signal k err s) = reloaded s"
    and "shutdownTasks (task_signal k err s) = shutdownTasks s"
    and "workerMap (task_signal k err s) = workerMap s"
    and "syncedMap (task_signal k err s) = syncedMap s"
    and "onExit (task_signal k err s) = onExit s"
    and "on_reloaded (task_signal k err s) = on_reloaded s"
    and "on_workerExit (task_signal k err s) = on_workerExit s"
    and "cluster_isMaster (task_signal k err s) = cluster_isMaster s"
    and "cluster_workers (task_signal k err s) = cluster_workers s"
    and "next_worker_id (task_signal k err s) = next_worker_id s"
    and "pids (task_signal k err s) = pids s"
    and "self_pid (task_signal k err s) = self_pid s"
    and "now (task_signal k err s) = now s"
    and "cpus (task_signal k err s) = cpus s"
    and "signals_on (task_signal k err s) = signals_on s"
    and "cluster_exit_on (task_signal k err s) = cluster_exit_on s"
    and "message_on (task_signal k err s) = message_on s"
  by (simp_all add: task_signal_def Let_def)

lemma hook_signal_frame [simp]:
  shows "numOfWorkers (hook_signal k s) = numOfWorkers s"
    and "autoSpawn (hook_signal k s) = autoSpawn s"
    and "syncWorker (hook_signal k s) = syncWorker s"
    and "isReloading (hook_signal k s) = isReloading s"
    and "isShutdown (hook_signal k s) = isShutdown s"
    and "isMaster (hook_signal k s) = isMaster s"
    and "shutdownLock (hook_signal k s) = shutdownLock s"
    and "reloaded (hook_signal k s) = reloaded s"
    and "shutdownTasks (hook_signal k s) = shutdownTasks s"
    and "workerMap (hook_signal k s) = workerMap s"
    and "syncedMap (hook_signal k s) = syncedMap s"
    and "onExit (hook_signal k s) = onExit s"
    and "on_reloaded (hook_signal k s) = on_reloaded s"
    and "on_workerExit (hook_signal k s) = on_workerExit s"
    and "cluster_isMaster (hook_signal k s) = cluster_isMaster s"
    and "cluster_workers (hook_signal k s) = cluster_workers s"
    and "next_worker_id (hook_signal k s) = next_worker_id s"
    and "pids (hook_signal k s) = pids s"
    and "self_pid (hook_signal k s) = self_pid s"
    and "now (hook_signal k s) = now s"
    and "cpus (hook_signal k s) = cpus s"
    and "signals_on (hook_signal k s) = signals_on s"
    and "cluster_exit_on (hook_signal k s) = cluster_exit_on s"
    and "message_on (hook_signal k s) = message_on s"
    and "suspended (hook_signal k s) = suspended s"
  by (simp_all add: hook_signal_def)

section \<open>Unintentional worker exits\<close>

lemma numOfWorkers_handleAutoSpawn:
  "handleAutoSpawn w d code sg s = Inr s' \<Longrightarrow> numOfWorkers s' \<le> numOfWorkers s"
  by (auto simp add: handleAutoSpawn_def Let_def split_def split: if_splits option.splits)

lemma numOfWorkers_handleWorkerExit:
  "handleWorkerExit w su code sg s = Inr s' \<Longrightarrow> numOfWorkers s' \<le> numOfWorkers s"
  by (auto simp add: handleWorkerExit_def Let_def split: if_splits sum.splits
      dest!: numOfWorkers_handleAutoSpawn)

lemma numOfWorkers_worker_on_message:
  "worker_on_message w m s = Inr s' \<Longrightarrow> numOfWorkers s' = numOfWorkers s"
  by (auto simp add: worker_on_message_def parsed_def Let_def split: if_splits ipc_message.splits)

lemma numOfWorkers_process_on_message:
  "process_on_message m s = Inr s' \<Longrightarrow> numOfWorkers s' = numOfWorkers s"
  by (auto simp add: process_on_message_def parsed_def Let_def split: if_splits ipc_message.splits)

lemma numOfWorkers_handle:
  "handle codes ev s = Inr s' \<Longrightarrow> numOfWorkers s' \<le> numOfWorkers s"
proof (cases ev)
  case (Signal sg)
  then show "handle codes ev s = Inr s' \<Longrightarrow> numOfWorkers s' \<le> numOfWorkers s"
    by (cases sg) auto
next
  case (WorkerExited i su code sg)
  then show "handle codes ev s = Inr s' \<Longrightarrow> numOfWorkers s' \<le> numOfWorkers s"
    by (auto simp add: Let_def split: option.splits if_splits dest!: numOfWorkers_handleWorkerExit)
next
  case (WorkerMessage i m)
  then show "handle codes ev s = Inr s' \<Longrightarrow> numOfWorkers s' \<le> numOfWorkers s"
    by (auto split: option.splits dest!: numOfWorkers_worker_on_message)
next
  case (MasterMessage m)
  then show "handle codes ev s = Inr s' \<Longrightarrow> numOfWorkers s' \<le> numOfWorkers s"
    by (auto split: if_splits dest!: numOfWorkers_process_on_message)
qed (auto simp add: ee_addShutdownTask_def ee_onExit_def split: option.splits)

lemma numOfWorkers_run:
  "run codes evs s = Inr s' \<Longrightarrow> numOfWorkers s' \<le> numOfWorkers s"
proof (induction evs arbitrary: s)
  case Nil
  then show ?case by simp
next
  case (Cons ev evs)
  then obtain s1 where s1: "deliver codes ev s = Inr s1" and r: "run codes evs s1 = Inr s'"
    by (auto split: sum.splits)
  from s1 have "numOfWorkers s1 \<le> numOfWorkers s"
    by (auto simp add: deliver_def split: if_splits dest: numOfWorkers_handle)
  with Cons.IH [OF r] show ?case by simp
qed

text \<open>
  Claim C5. A worker that the registry holds exits, not by its own will
  (\<open>worker.suicide\<close> false), with \<open>autoSpawn\<close> on, no reload in flight and no shutdown
  in progress. The listener returns without a fault. If the worker lived less than
  \<open>MIN_LIFE\<close>, the worker count goes down by exactly 1, nothing is forked, no
  \<open>auto.spawn\<close> event is emitted, and no later event brings the count back up. If it
  lived at least \<open>MIN_LIFE\<close>, exactly one worker is forked, exactly one \<open>auto.spawn\<close>
  event is emitted, with the new worker's pid and id, and the worker count stays.
\<close>

theorem unintentional_exit_autospawn:
  assumes "map_of (workerMap s) (wid w) = Some d"
    and "autoSpawn s" and "\<not> isReloading s" and "\<not> isShutdown s"
  shows "\<exists>s'. handleWorkerExit w False code sg s = Inr s' \<and>
          (if now s - started d < MIN_LIFE then
             numOfWorkers s' = numOfWorkers s - 1
             \<and> cluster_workers s' = cluster_workers s
             \<and> forks (trace s') = forks (trace s)
             \<and> events_named ''auto.spawn'' (trace s') = events_named ''auto.spawn'' (trace s)
             \<and> (\<forall>evs s''. run codes evs s' = Inr s'' \<longrightarrow> numOfWorkers s'' \<le> numOfWorkers s - 1)
           else
             numOfWorkers s' = numOfWorkers s
             \<and> cluster_workers s' =
                 cluster_workers s @ [\<lparr>wid = next_worker_id s, process_pid = pids s (next_worker_id s)\<rparr>]
             \<and> forks (trace s') =
                 forks (trace s) @ [Fork \<lparr>wid = next_worker_id s, process_pid = pids s (next_worker_id s)\<rparr>]
             \<and> events_named ''auto.spawn'' (trace s') =
                 events_named ''auto.spawn'' (trace s) @
                   [Emit ''auto.spawn'' [JNum (int (pids s (next_worker_id s))), JNum (int (next_worker_id s))]])"
proof (cases "now s - started d < MIN_LIFE")
  case True
  define s1 where "s1 = log ERROR ''A worker process must be alive for at least MIN_LIFE''
      (log ERROR ''A worker process exited unexpectedly''
        (log INFO ''Cluster process is exiting'' s\<lparr>workerMap := AList.delete (wid w) (workerMap s)\<rparr>)
       \<lparr>numOfWorkers := numOfWorkers s - 1\<rparr>)"
  define s' where "s' = (if noMoreWorkers s1 then
      (if truthy code
       then shutdown JNull code
              (log INFO ''All worker processes have disconnected''
                 (log INFO ''No more workers running'' s1))
       else log INFO ''No more workers running'' s1)
      else emit_workerExit (syncWorkerMap s1))"
  have run: "handleWorkerExit w False code sg s = Inr s'"
    using assms True
    by (simp add: handleWorkerExit_def handleAutoSpawn_def Let_def s'_def s1_def)
  have n: "numOfWorkers s' = numOfWorkers s - 1"
    by (simp add: s'_def s1_def)
  have w: "cluster_workers s' = cluster_workers s"
    by (simp add: s'_def s1_def)
  have f: "forks (trace s') = forks (trace s)"
    by (simp add: s'_def s1_def)
  have e: "events_named ''auto.spawn'' (trace s') = events_named ''auto.spawn'' (trace s)"
    by (simp add: s'_def s1_def events_named_shutdown)
  have "\<forall>evs s''. run codes evs s' = Inr s'' \<longrightarrow> numOfWorkers s'' \<le> numOfWorkers s - 1"
    using numOfWorkers_run [of codes _ s'] n by auto
  with run n w f e True show ?thesis by simp
next
  case False
  define s1 where "s1 = emit ''auto.spawn''
      [JNum (int (pids s (next_worker_id s))), JNum (int (next_worker_id s))]
      (snd (createWorker (log ERROR ''A worker process exited unexpectedly''
        (log INFO ''Cluster process is exiting'' s\<lparr>workerMap := AList.delete (wid w) (workerMap s)\<rparr>))))"
  define s' where "s' = emit_workerExit (syncWorkerMap s1)"
  have run: "handleWorkerExit w False code sg s = Inr s'"
    using assms False
    by (simp add: handleWorkerExit_def handleAutoSpawn_def Let_def split_def noMoreWorkers_def
        s'_def s1_def)
  have "numOfWorkers s' = numOfWorkers s"
    and "cluster_workers s' =
           cluster_workers s @ [\<lparr>wid = next_worker_id s, process_pid = pids s (next_worker_id s)\<rparr>]"
    and "forks (trace s') =
           forks (trace s) @ [Fork \<lparr>wid = next_worker_id s, process_pid = pids s (next_worker_id s)\<rparr>]"
    and "events_named ''auto.spawn'' (trace s') =
           events_named ''auto.spawn'' (trace s) @
             [Emit ''auto.spawn'' [JNum (int (pids s (next_worker_id s))), JNum (int (next_worker_id s))]]"
    by (simp_all add: s'_def s1_def)
  with run False show ?thesis by simp
qed

lemma master_of_two_fields:
  "isMaster master_of_two" "cluster_isMaster master_of_two" "numOfWorkers master_of_two = 2"
  "autoSpawn master_of_two" "syncWorker master_of_two"
  "\<not> isReloading master_of_two" "\<not> isShutdown master_of_two" "\<not> shutdownLock master_of_two"
  "reloaded master_of_two = 0" "shutdownTasks master_of_two = []" "onExit master_of_two = None"
  "workerMap master_of_two = [(1, \<lparr>started = 0, pid = 4001\<rparr>), (2, \<lparr>started = 0, pid = 4002\<rparr>)]"
  "cluster_workers master_of_two = [\<lparr>wid = 1, process_pid = 4001\<rparr>, \<lparr>wid = 2, process_pid = 4002\<rparr>]"
  "next_worker_id master_of_two = 3" "pids master_of_two = (\<lambda>i. 4000 + i)"
  "now master_of_two = 0" "signals_on master_of_two" "cluster_exit_on master_of_two"
  "exited master_of_two = None" "on_reloaded master_of_two = []" "on_workerExit master_of_two = []"
  "suspended master_of_two = []" "hooks_waiting master_of_two = []"
  "forks (trace master_of_two) = [Fork \<lparr>wid = 1, process_pid = 4001\<rparr>, Fork \<lparr>wid = 2, process_pid = 4002\<rparr>]"
  "emits (trace master_of_two) =
     [Emit ''cluster'' [JStr ''master.ready'', JNum 4000], Emit ''cluster.master.ready'' [JNum 4000]]"
  "events_named ''auto.spawn'' (trace master_of_two) = []"
  "events_named ''exit'' (trace master_of_two) = []"
  "run_labels (trace master_of_two) = []"
  by (simp_all add: master_of_two_def ee_start_def start_def startListeners_def
      startClusterMode_def startMaster_def ee_isCluster_def Let_def eval_nat_numeral)

text \<open>
  The theorem of C5 on the cluster of two, after worker 1 has left \<open>cluster.workers\<close>:
  at time 0 the worker count falls to 1 and nothing is forked; at time 15000 worker 3
  is forked and announced.
\<close>

theorem unintentional_exit_autospawn_witness:
  "(\<exists>s'. handleWorkerExit \<lparr>wid = 1, process_pid = 4001\<rparr> False (JNum 1) JNull
           (master_of_two\<lparr>cluster_workers := [\<lparr>wid = 2, process_pid = 4002\<rparr>]\<rparr>) = Inr s'
         \<and> numOfWorkers s' = 1
         \<and> cluster_workers s' = [\<lparr>wid = 2, process_pid = 4002\<rparr>]
         \<and> events_named ''auto.spawn'' (trace s') = [])
   \<and> (\<exists>s'. handleWorkerExit \<lparr>wid = 1, process_pid = 4001\<rparr> False (JNum 1) JNull
           (master_of_two\<lparr>cluster_workers := [\<lparr>wid = 2, process_pid = 4002\<rparr>], now := 15000\<rparr>) = Inr s'
         \<and> numOfWorkers s' = 2
         \<and> cluster_workers s' = [\<lparr>wid = 2, process_pid = 4002\<rparr>, \<lparr>wid = 3, process_pid = 4003\<rparr>]
         \<and> events_named ''auto.spawn'' (trace s') = [Emit ''auto.spawn'' [JNum 4003, JNum 3]])"
proof (intro conjI)
  show "\<exists>s'. handleWorkerExit \<lparr>wid = 1, process_pid = 4001\<rparr> False (JNum 1) JNull
           (master_of_two\<lparr>cluster_workers := [\<lparr>wid = 2, process_pid = 4002\<rparr>]\<rparr>) = Inr s'
         \<and> numOfWorkers s' = 1
         \<and> cluster_workers s' = [\<lparr>wid = 2, process_pid = 4002\<rparr>]
         \<and> events_named ''auto.spawn'' (trace s') = []"
    using unintentional_exit_autospawn
      [of "master_of_two\<lparr>cluster_workers := [\<lparr>wid = 2, process_pid = 4002\<rparr>]\<rparr>"
          "\<lparr>wid = 1, process_pid = 4001\<rparr>" "\<lparr>started = 0, pid = 4001\<rparr>" "JNum 1" JNull example_codes]
    by (simp add: master_of_two_fields MIN_LIFE_def) blast
  show "\<exists>s'. handleWorkerExit \<lparr>wid = 1, process_pid = 4001\<rparr> False (JNum 1) JNull
           (master_of_two\<lparr>cluster_workers := [\<lparr>wid = 2, process_pid = 4002\<rparr>], now := 15000\<rparr>) = Inr s'
         \<and> numOfWorkers s' = 2
         \<and> cluster_workers s' = [\<lparr>wid = 2, process_pid = 4002\<rparr>, \<lparr>wid = 3, process_pid = 4003\<rparr>]
         \<and> events_named ''auto.spawn'' (trace s') = [Emit ''auto.spawn'' [JNum 4003, JNum 3]]"
    using unintentional_exit_autospawn
      [of "master_of_two\<lparr>cluster_workers := [\<lparr>wid = 2, process_pid = 4002\<rparr>], now := 15000\<rparr>"
          "\<lparr>wid = 1, process_pid = 4001\<rparr>" "\<lparr>started = 0, pid = 4001\<rparr>" "JNum 1" JNull example_codes]
    by (simp add: master_of_two_fields MIN_LIFE_def) blast
qed

section \<open>Reload on the master\<close>

lemma handleReloading_changes:
  "cluster_workers (handleReloading s) =
     cluster_workers s @ [\<lparr>wid = next_worker_id s, process_pid = pids s (next_worker_id s)\<rparr>]"
  "next_worker_id (handleReloading s) = Suc (next_worker_id s)"
  "reloaded (handleReloading s) = (if reloaded s + 1 = numOfWorkers s then 0 else reloaded s + 1)"
  "isReloading (handleReloading s) = (if reloaded s + 1 = numOfWorkers s then False else isReloading s)"
  "emits (trace (handleReloading s)) =
     emits (trace s) @
       [Emit ''reload'' [JStr ''reloading'', JNum (int (pids s (next_worker_id s))), JNum (int (next_worker_id s))],
        Emit ''reload.reloading'' [JUndefined, JNum (int (next_worker_id s))]] @
       (if reloaded s + 1 = numOfWorkers s
        then [Emit ''reload'' [JStr ''complete''], Emit ''reload.complete'' []] else [])"
  by (simp_all add: handleReloading_def Let_def split_def)

lemma find_by_key:
  "x \<in> f ` set xs \<Longrightarrow> \<exists>w. find (\<lambda>w. f w = x) xs = Some w \<and> f w = x"
  by (induction xs) auto

lemma lookup_worker_Some:
  "i \<in> wid ` set (cluster_workers s) \<Longrightarrow> \<exists>w. lookup_worker s i = Some w \<and> wid w = i"
  by (simp add: lookup_worker_def find_by_key)

lemma reloading_step:
  assumes "isReloading s" and "cluster_exit_on s" and "exited s = None"
    and "lookup_worker s i = Some w"
  shows "\<exists>s1. deliver codes (WorkerExited i su c g) s = Inr s1
           \<and> numOfWorkers s1 = numOfWorkers s \<and> cluster_exit_on s1 \<and> exited s1 = None
           \<and> pids s1 = pids s \<and> next_worker_id s1 = Suc (next_worker_id s)
           \<and> cluster_workers s1 =
               filter (\<lambda>v. wid v \<noteq> i) (cluster_workers s) @
                 [\<lparr>wid = next_worker_id s, process_pid = pids s (next_worker_id s)\<rparr>]
           \<and> reloaded s1 = (if reloaded s + 1 = numOfWorkers s then 0 else reloaded s + 1)
           \<and> isReloading s1 = (reloaded s + 1 \<noteq> numOfWorkers s)
           \<and> emits (trace s1) =
               emits (trace s) @ progress_events (pids s) (next_worker_id s) 1 @
                 (if reloaded s + 1 = numOfWorkers s
                  then [Emit ''reload'' [JStr ''complete''], Emit ''reload.complete'' []] else [])"
  using assms
  by (simp add: deliver_def handleWorkerExit_def Let_def handleReloading_changes)

lemma reload_run:
  assumes "isReloading s" and "cluster_exit_on s" and "exited s = None"
    and "numOfWorkers s = reloaded s + int (length ids)" and "ids \<noteq> []"
    and "distinct ids" and "set ids \<subseteq> wid ` set (cluster_workers s)"
  shows "\<exists>s'. run codes (map (\<lambda>i. WorkerExited i (su i) (c i) (g i)) ids) s = Inr s'
           \<and> emits (trace s') =
               emits (trace s) @ progress_events (pids s) (next_worker_id s) (length ids) @
                 [Emit ''reload'' [JStr ''complete''], Emit ''reload.complete'' []]
           \<and> isReloading s' = False \<and> reloaded s' = 0 \<and> exited s' = None
           \<and> numOfWorkers s' = numOfWorkers s"
  using assms
proof (induction ids arbitrary: s)
  case Nil
  then show ?case by simp
next
  case (Cons i rest)
  from Cons.prems(7) obtain w where w: "lookup_worker s i = Some w"
    using lookup_worker_Some [of i s] by auto
  from reloading_step [OF Cons.prems(1-3) w, of codes "su i" "c i" "g i"]
  obtain s1 where s1: "deliver codes (WorkerExited i (su i) (c i) (g i)) s = Inr s1"
    and n1: "numOfWorkers s1 = numOfWorkers s" and on1: "cluster_exit_on s1"
    and ex1: "exited s1 = None" and p1: "pids s1 = pids s"
    and id1: "next_worker_id s1 = Suc (next_worker_id s)"
    and ws1: "cluster_workers s1 =
               filter (\<lambda>v. wid v \<noteq> i) (cluster_workers s) @
                 [\<lparr>wid = next_worker_id s, process_pid = pids s (next_worker_id s)\<rparr>]"
    and r1: "reloaded s1 = (if reloaded s + 1 = numOfWorkers s then 0 else reloaded s + 1)"
    and ir1: "isReloading s1 = (reloaded s + 1 \<noteq> numOfWorkers s)"
    and e1: "emits (trace s1) =
               emits (trace s) @ progress_events (pids s) (next_worker_id s) 1 @
                 (if reloaded s + 1 = numOfWorkers s
                  then [Emit ''reload'' [JStr ''complete''], Emit ''reload.complete'' []] else [])"
    by blast
  show ?case
  proof (cases rest)
    case Nil
    with Cons.prems(4) have "reloaded s + 1 = numOfWorkers s" by simp
    with s1 n1 ex1 r1 ir1 e1 Nil show ?thesis by simp
  next
    case (Cons j more)
    with Cons.prems(4) have ne: "reloaded s + 1 \<noteq> numOfWorkers s" by simp
    have a: "isReloading s1" using ir1 ne by simp
    have b: "numOfWorkers s1 = reloaded s1 + int (length rest)"
      using n1 r1 ne Cons.prems(4) by simp
    have c: "rest \<noteq> []" using Cons by simp
    have d: "distinct rest" using Cons.prems(6) by simp
    have e: "set rest \<subseteq> wid ` set (cluster_workers s1)"
    proof
      fix k assume k: "k \<in> set rest"
      with Cons.prems(6) have "k \<noteq> i" by auto
      moreover from k Cons.prems(7) have "k \<in> wid ` set (cluster_workers s)" by auto
      ultimately show "k \<in> wid ` set (cluster_workers s1)"
        by (auto simp add: ws1)
    qed
    from Cons.IH [OF a on1 ex1 b c d e]
    obtain s' where "run codes (map (\<lambda>i. WorkerExited i (su i) (c i) (g i)) rest) s1 = Inr s'"
      and "emits (trace s') =
             emits (trace s1) @ progress_events (pids s1) (next_worker_id s1) (length rest) @
               [Emit ''reload'' [JStr ''complete''], Emit ''reload.complete'' []]"
      and "isReloading s' = False" and "reloaded s' = 0" and "exited s' = None"
      and "numOfWorkers s' = numOfWorkers s1"
      by blast
    with s1 n1 p1 id1 e1 ne show ?thesis by simp
  qed
qed

text \<open>
  All that a reload emits, in order. Each replacement emits \<open>reload\<close> with the state
  \<open>reloading\<close> and the pid and id of the new worker, and then \<open>reload.reloading\<close>, which
  is given \<open>worker.pid\<close> of the cluster's worker object (it has \<open>process.pid\<close>, and no
  \<open>pid\<close>) and so carries \<open>undefined\<close> and the id. On a master whose live workers are
  as many as \<open>numOfWorkers\<close>, the completion follows the last replacement.
\<close>

lemma reload_emits_in_order:
  assumes "isMaster s" and "signals_on s" and "cluster_exit_on s" and "exited s = None"
    and "numOfWorkers s = int (length ids)" and "ids \<noteq> []"
    and "distinct ids" and "set ids = wid ` set (cluster_workers s)"
  shows "reloaded (handleReloading s0) =
           (if reloaded s0 + 1 = numOfWorkers s0 then 0 else reloaded s0 + 1)
       \<and> isReloading (handleReloading s0) =
           (if reloaded s0 + 1 = numOfWorkers s0 then False else isReloading s0)
       \<and> emits (trace (handleReloading s0)) =
           emits (trace s0) @ progress_events (pids s0) (next_worker_id s0) 1 @
             (if reloaded s0 + 1 = numOfWorkers s0
              then [Emit ''reload'' [JStr ''complete''], Emit ''reload.complete'' []] else [])
       \<and> (\<exists>s'. run codes (Signal SIGHUP # map (\<lambda>i. WorkerExited i (su i) (c i) (g i)) ids) s = Inr s'
             \<and> emits (trace s') =
                 emits (trace s) @ progress_events (pids s) (next_worker_id s) (length ids) @
                   [Emit ''reload'' [JStr ''complete''], Emit ''reload.complete'' []]
             \<and> isReloading s' = False \<and> reloaded s' = 0)"
proof -
  have trigger: "deliver codes (Signal SIGHUP) s = Inr (reload s)"
    using assms(2,4) by (simp add: deliver_def)
  have "numOfWorkers s \<noteq> 0" using assms(5,6) by simp
  then have r: "isReloading (reload s)" "reloaded (reload s) = 0"
    using assms(1) by (simp_all add: reload_def Let_def)
  have "\<exists>s'. run codes (map (\<lambda>i. WorkerExited i (su i) (c i) (g i)) ids) (reload s) = Inr s'
           \<and> emits (trace s') =
               emits (trace (reload s)) @
                 progress_events (pids (reload s)) (next_worker_id (reload s)) (length ids) @
                 [Emit ''reload'' [JStr ''complete''], Emit ''reload.complete'' []]
           \<and> isReloading s' = False \<and> reloaded s' = 0 \<and> exited s' = None
           \<and> numOfWorkers s' = numOfWorkers (reload s)"
    using r assms by (intro reload_run) simp_all
  moreover have "emits (trace (reload s)) = emits (trace s)"
    by (simp add: reload_def Let_def)
  ultimately show ?thesis
    using trigger by (auto simp add: handleReloading_changes)
qed

text \<open>
  On the cluster of two: the hang-up signal, then the exits of the workers 1 and 2;
  the workers 3 and 4 replace them.
\<close>

lemma reload_of_two_emits:
  "\<exists>s'. run example_codes
          [Signal SIGHUP, WorkerExited 1 True (JNum 0) JNull, WorkerExited 2 True (JNum 0) JNull]
          master_of_two = Inr s'
      \<and> emits (trace s') =
          [Emit ''cluster'' [JStr ''master.ready'', JNum 4000],
           Emit ''cluster.master.ready'' [JNum 4000],
           Emit ''reload'' [JStr ''reloading'', JNum 4003, JNum 3],
           Emit ''reload.reloading'' [JUndefined, JNum 3],
           Emit ''reload'' [JStr ''reloading'', JNum 4004, JNum 4],
           Emit ''reload.reloading'' [JUndefined, JNum 4],
           Emit ''reload'' [JStr ''complete''], Emit ''reload.complete'' []]
      \<and> isReloading s' = False \<and> reloaded s' = 0"
  using reload_emits_in_order
    [of master_of_two "[1, 2]" master_of_two example_codes "\<lambda>i. True" "\<lambda>i. JNum 0" "\<lambda>i. JNull"]
  by (simp add: master_of_two_fields eval_nat_numeral)

section \<open>Messages that are not JSON\<close>

text \<open>
  What holds of claim C8: a payload on which \<open>JSON.parse\<close> throws and that has no
  \<open>command\<close> of its own, as every string has none, is logged as a warning and
  dropped by both listeners, without a fault.
\<close>

lemma unparsed_without_command_is_dropped:
  assumes "\<not> nullish raw" and "getprop raw ''command'' = JUndefined"
  shows "worker_on_message w (NotJson raw) s = Inr (log WARN ''Message data not JSON:'' s)
       \<and> process_on_message (NotJson raw) s = Inr (log WARN ''Message data not JSON:'' s)"
  using assms
  by (simp add: worker_on_message_def process_on_message_def parsed_def)

lemma unparsed_text_is_dropped:
  "worker_on_message w (NotJson (JStr txt)) s = Inr (log WARN ''Message data not JSON:'' s)
   \<and> process_on_message (NotJson (JStr txt)) s = Inr (log WARN ''Message data not JSON:'' s)"
  by (rule unparsed_without_command_is_dropped) simp_all

lemma started_worker_more_fields:
  "shutdownTasks started_worker = []" "onExit started_worker = None"
  "run_labels (trace started_worker) = []"
  by (simp_all add: started_worker_def config_max_def ee_start_def start_def startListeners_def
      startClusterMode_def startWorker_def ee_isCluster_def Let_def)

lemma commands_differ [simp]:
  "CMD_EXIT \<noteq> CMD_MSG" "CMD_EXIT \<noteq> CMD_RELOAD" "CMD_EXIT \<noteq> CMD_SYNC" "CMD_EXIT \<noteq> []"
  by (simp_all add: CMD_EXIT_def CMD_MSG_def CMD_RELOAD_def CMD_SYNC_def PREFIX_def)

text \<open>
  Claim C8 on the code. The channel hands an object to the listener; \<open>JSON.parse\<close>
  throws on it and the warning is logged, but the listener goes on with the object as
  it came: in the primary process the EXIT command of the object starts the shutdown
  of the cluster, and in a worker process it shuts the worker down.
\<close>

theorem exit_object_is_not_dropped:
  "(\<exists>s'. deliver example_codes (WorkerMessage 1 (NotJson exit_object)) master_of_two = Inr s'
      \<and> shutdownLock s' \<and> isShutdown s'
      \<and> not_logs (trace s') =
          not_logs (trace master_of_two) @
            [Send (SendExit JNull JUndefined) (Some \<lparr>wid = 1, process_pid = 4001\<rparr>)])
   \<and> (\<exists>s'. deliver example_codes (MasterMessage (NotJson exit_object)) started_worker = Inr s'
      \<and> exited s' = Some 0)"
  by (simp add: deliver_def lookup_worker_def master_of_two_fields started_worker_fields
      started_worker_more_fields worker_on_message_def process_on_message_def parsed_def
      exit_object_def exit_def noMoreWorkers_def js_or_def serialized_def Let_def
      shutdown_def taskList_def ee_isMaster_def shutdown_done_def)

section \<open>The shutdown lock\<close>

text \<open>
  What holds of claim C4. In a process whose \<open>isMaster\<close> flag is set, an exit request
  leaves the lock set; no event clears the lock; a request that finds the lock set
  logs, if it carries an error, and does nothing else; so of two \<open>stop\<close> calls in a row
  the second only logs.
\<close>

lemma exit_takes_lock: "isMaster s \<Longrightarrow> shutdownLock (exit e sg s)"
  by (simp add: exit_def Let_def)

lemma exit_keeps_lock: "shutdownLock s \<Longrightarrow> shutdownLock (exit e sg s)"
  by (simp add: exit_def Let_def)

lemma locked_exit_only_logs:
  "isMaster s \<Longrightarrow> shutdownLock s \<Longrightarrow>
   exit e sg s = (if truthy e then log FATAL ''Exit instruction by error'' s else s)"
  by (simp add: exit_def print_level_def)

lemma second_stop_only_logs:
  "isMaster s \<Longrightarrow>
   ee_stop codes e2 (ee_stop codes e1 s) =
     (if truthy e2 then log FATAL ''Exit instruction by error'' (ee_stop codes e1 s)
      else ee_stop codes e1 s)"
  by (simp add: ee_stop_def locked_exit_only_logs exit_takes_lock)

lemma lock_kept_handleAutoSpawn:
  "handleAutoSpawn w d code sg s = Inr s' \<Longrightarrow> shutdownLock s' = shutdownLock s"
  by (auto simp add: handleAutoSpawn_def Let_def split_def split: if_splits option.splits)

lemma lock_kept_handleWorkerExit:
  "handleWorkerExit w su code sg s = Inr s' \<Longrightarrow> shutdownLock s' = shutdownLock s"
  by (auto simp add: handleWorkerExit_def Let_def split: if_splits sum.splits
      dest!: lock_kept_handleAutoSpawn)

lemma lock_kept_worker_on_message:
  "shutdownLock s \<Longrightarrow> worker_on_message w m s = Inr s' \<Longrightarrow> shutdownLock s'"
  by (auto simp add: worker_on_message_def parsed_def Let_def exit_keeps_lock
      split: if_splits ipc_message.splits)

lemma lock_kept_process_on_message:
  "process_on_message m s = Inr s' \<Longrightarrow> shutdownLock s' = shutdownLock s"
  by (auto simp add: process_on_message_def parsed_def Let_def split: if_splits ipc_message.splits)

lemma lock_kept_handle:
  "shutdownLock s \<Longrightarrow> handle codes ev s = Inr s' \<Longrightarrow> shutdownLock s'"
proof (cases ev)
  case (Signal sg)
  then show "shutdownLock s \<Longrightarrow> handle codes ev s = Inr s' \<Longrightarrow> shutdownLock s'"
    by (cases sg) (auto simp add: exit_keeps_lock)
next
  case (Stop e)
  then show "shutdownLock s \<Longrightarrow> handle codes ev s = Inr s' \<Longrightarrow> shutdownLock s'"
    by (auto simp add: ee_stop_def exit_keeps_lock)
next
  case (WorkerExited i su code sg)
  then show "shutdownLock s \<Longrightarrow> handle codes ev s = Inr s' \<Longrightarrow> shutdownLock s'"
    by (auto simp add: Let_def split: option.splits if_splits dest!: lock_kept_handleWorkerExit)
next
  case (WorkerMessage i m)
  then show "shutdownLock s \<Longrightarrow> handle codes ev s = Inr s' \<Longrightarrow> shutdownLock s'"
    by (auto split: option.splits dest: lock_kept_worker_on_message)
next
  case (MasterMessage m)
  then show "shutdownLock s \<Longrightarrow> handle codes ev s = Inr s' \<Longrightarrow> shutdownLock s'"
    by (auto split: if_splits dest!: lock_kept_process_on_message)
qed (auto simp add: ee_addShutdownTask_def ee_onExit_def split: option.splits)

lemma lock_kept_run:
  "shutdownLock s \<Longrightarrow> run codes evs s = Inr s' \<Longrightarrow> shutdownLock s'"
proof (induction evs arbitrary: s)
  case Nil
  then show ?case by simp
next
  case (Cons ev evs)
  then obtain s1 where s1: "deliver codes ev s = Inr s1" and r: "run codes evs s1 = Inr s'"
    by (auto split: sum.splits)
  from s1 Cons.prems(1) have "shutdownLock s1"
    by (auto simp add: deliver_def split: if_splits dest: lock_kept_handle)
  then show ?case using r by (rule Cons.IH)
qed

lemma master_with_slow_task_fields:
  "isMaster master_with_slow_task" "cluster_isMaster master_with_slow_task"
  "numOfWorkers master_with_slow_task = 2" "\<not> autoSpawn master_with_slow_task"
  "syncWorker master_with_slow_task"
  "\<not> isReloading master_with_slow_task" "\<not> isShutdown master_with_slow_task"
  "\<not> shutdownLock master_with_slow_task"
  "shutdownTasks master_with_slow_task = [\<lparr>task = Fn 1 Defers, runOnMaster = True\<rparr>]"
  "onExit master_with_slow_task = Some (Fn 9 Defers)"
  "workerMap master_with_slow_task = [(1, \<lparr>started = 0, pid = 4001\<rparr>), (2, \<lparr>started = 0, pid = 4002\<rparr>)]"
  "cluster_workers master_with_slow_task = [\<lparr>wid = 1, process_pid = 4001\<rparr>, \<lparr>wid = 2, process_pid = 4002\<rparr>]"
  "signals_on master_with_slow_task" "cluster_exit_on master_with_slow_task"
  "exited master_with_slow_task = None" "on_workerExit master_with_slow_task = []"
  "suspended master_with_slow_task = []" "hooks_waiting master_with_slow_task = []"
  "events_named ''exit'' (trace master_with_slow_task) = []"
  "run_labels (trace master_with_slow_task) = []"
  by (simp_all add: master_with_slow_task_def config_max_def ee_start_def ee_onExit_def
      ee_addShutdownTask_def start_def startListeners_def
      startClusterMode_def startMaster_def ee_isCluster_def Let_def eval_nat_numeral)

text \<open>
  Claim C4 on the code. Both workers of the cluster exit with code 1; with the
  second exit \<open>handleWorkerExit\<close> starts the final shutdown, which does not take the
  lock, and the task is invoked. While the task is pending, \<open>stop()\<close> finds the lock
  unset and starts the final shutdown again: the task is invoked a second time. The
  two completion signals then give two \<open>exit\<close> events, the hook being called twice.
\<close>

theorem shutdown_started_twice:
  "\<exists>s'. run example_codes
          [WorkerExited 1 False (JNum 1) JNull, WorkerExited 2 False (JNum 1) JNull,
           Stop JUndefined, TaskSignal 0 JUndefined, TaskSignal 0 JUndefined]
          master_with_slow_task = Inr s'
      \<and> run_labels (trace s') = [1, 1]
      \<and> events_named ''exit'' (trace s') =
          [Emit ''exit'' [JNum 0, JNum 1], Emit ''exit'' [JNum 0, JNull]]
      \<and> exited s' = None"
  by (simp add: deliver_def lookup_worker_def master_with_slow_task_fields
      handleWorkerExit_def noMoreWorkers_def ee_stop_def example_codes_def
      exit_def js_or_def Let_def shutdown_def taskList_def ee_isMaster_def
      task_signal_def shutdown_done_def)

section \<open>Shutdown tasks and the exit event\<close>

lemma hooks_waiting_shutdown_done:
  "hooks_waiting (shutdown_done err e sg s) =
     (if hook_returns s then hooks_waiting s else hooks_waiting s @ [if truthy err then 1 else 0])"
  by (simp add: shutdown_done_def hook_returns_def Let_def split: option.splits callback.splits)

lemma eachSeries_shutdown_ok:
  "list_all succeeds ts \<Longrightarrow>
   events_named ''exit'' (trace (eachSeries_shutdown ts e sg s)) =
     events_named ''exit'' (trace s) @ [Emit ''exit'' [JNum 0, js_or sg JNull]]
   \<and> exited (eachSeries_shutdown ts e sg s) = (if hook_returns s then Some 0 else exited s)
   \<and> hooks_waiting (eachSeries_shutdown ts e sg s) =
       (if hook_returns s then hooks_waiting s else hooks_waiting s @ [0])
   \<and> suspended (eachSeries_shutdown ts e sg s) = suspended s"
  by (induction ts arbitrary: s)
     (auto simp add: Let_def succeeds_def exited_shutdown_done events_named_shutdown_done
        hooks_waiting_shutdown_done split: callback.splits)

lemma eachSeries_shutdown_failed:
  "list_all succeeds pre \<Longrightarrow> fails item \<Longrightarrow>
   events_named ''exit'' (trace (eachSeries_shutdown (pre @ item # post) e sg s)) =
     events_named ''exit'' (trace s) @ [Emit ''exit'' [JNum 1, js_or sg JNull]]
   \<and> exited (eachSeries_shutdown (pre @ item # post) e sg s) =
       (if hook_returns s then Some 1 else exited s)
   \<and> hooks_waiting (eachSeries_shutdown (pre @ item # post) e sg s) =
       (if hook_returns s then hooks_waiting s else hooks_waiting s @ [1])
   \<and> suspended (eachSeries_shutdown (pre @ item # post) e sg s) = suspended s"
  by (induction pre arbitrary: s)
     (auto simp add: Let_def succeeds_def fails_def exited_shutdown_done events_named_shutdown_done
        hooks_waiting_shutdown_done split: callback.splits)

lemma eachSeries_shutdown_deferred:
  "list_all succeeds pre \<Longrightarrow> defers item \<Longrightarrow>
   events_named ''exit'' (trace (eachSeries_shutdown (pre @ item # post) e sg s)) =
     events_named ''exit'' (trace s)
   \<and> hooks_waiting (eachSeries_shutdown (pre @ item # post) e sg s) = hooks_waiting s"
  by (induction pre arbitrary: s)
     (auto simp add: Let_def succeeds_def defers_def split: callback.splits)

lemma exited_hook_signal:
  "k < length (hooks_waiting s) \<Longrightarrow> exited (hook_signal k s) = Some (hooks_waiting s ! k)"
  by (simp add: hook_signal_def)

lemma shutdown_ok:
  "list_all succeeds (taskList s) \<Longrightarrow>
   events_named ''exit'' (trace (shutdown e sg s)) =
     events_named ''exit'' (trace s) @ [Emit ''exit'' [JNum 0, js_or sg JNull]]
   \<and> exited (shutdown e sg s) = (if hook_returns s then Some 0 else exited s)
   \<and> hooks_waiting (shutdown e sg s) =
       (if hook_returns s then hooks_waiting s else hooks_waiting s @ [0])
   \<and> suspended (shutdown e sg s) = suspended s"
  by (simp add: shutdown_def Let_def eachSeries_shutdown_ok)

lemma shutdown_failed:
  "taskList s = pre @ item # post \<Longrightarrow> list_all succeeds pre \<Longrightarrow> fails item \<Longrightarrow>
   events_named ''exit'' (trace (shutdown e sg s)) =
     events_named ''exit'' (trace s) @ [Emit ''exit'' [JNum 1, js_or sg JNull]]
   \<and> exited (shutdown e sg s) = (if hook_returns s then Some 1 else exited s)
   \<and> hooks_waiting (shutdown e sg s) =
       (if hook_returns s then hooks_waiting s else hooks_waiting s @ [1])
   \<and> suspended (shutdown e sg s) = suspended s"
  by (simp add: shutdown_def Let_def eachSeries_shutdown_failed)

lemma shutdown_deferred_quiet:
  "taskList s = pre @ item # post \<Longrightarrow> list_all succeeds pre \<Longrightarrow> defers item \<Longrightarrow>
   events_named ''exit'' (trace (shutdown e sg s)) = events_named ''exit'' (trace s)
   \<and> hooks_waiting (shutdown e sg s) = hooks_waiting s"
  by (simp add: shutdown_def Let_def eachSeries_shutdown_deferred)

lemma task_signal_failure:
  "k < length (suspended s) \<Longrightarrow> truthy err \<Longrightarrow>
   run_labels (trace (task_signal k err s)) = run_labels (trace s)
   \<and> events_named ''exit'' (trace (task_signal k err s)) =
       events_named ''exit'' (trace s) @
         [Emit ''exit'' [JNum 1, js_or (shutdown_sig (suspended s ! k)) JNull]]
   \<and> exited (task_signal k err s) = (if hook_returns s then Some 1 else exited s)
   \<and> hooks_waiting (task_signal k err s) =
       (if hook_returns s then hooks_waiting s else hooks_waiting s @ [1])
   \<and> suspended (task_signal k err s) = take k (suspended s) @ drop (Suc k) (suspended s)"
  by (simp add: task_signal_def Let_def exited_shutdown_done events_named_shutdown_done
      hooks_waiting_shutdown_done hook_returns_def)

lemma task_signal_success:
  "k < length (suspended s) \<Longrightarrow> \<not> truthy err \<Longrightarrow> list_all succeeds (remaining (suspended s ! k)) \<Longrightarrow>
   events_named ''exit'' (trace (task_signal k err s)) =
       events_named ''exit'' (trace s) @
         [Emit ''exit'' [JNum 0, js_or (shutdown_sig (suspended s ! k)) JNull]]
   \<and> exited (task_signal k err s) = (if hook_returns s then Some 0 else exited s)
   \<and> hooks_waiting (task_signal k err s) =
       (if hook_returns s then hooks_waiting s else hooks_waiting s @ [0])"
  by (simp add: task_signal_def Let_def eachSeries_shutdown_ok hook_returns_def)

text \<open>
  Claim C2, as the code has it. The final shutdown invokes the filtered tasks one
  after the other, in the order of registration, each after the one before it has
  reported success. When all report success, all have run, and the exit event
  carries the code 0. When one reports a failure, before it returns or by a later
  completion signal, no task after it is invoked: the exit event is emitted with the
  code 1 at once and the process exits with code 1, at once or, under an \<open>onExit\<close>
  hook that defers, when the hook signals completion. When one returns without its
  completion signal, no task after it is invoked and nothing is emitted until the
  signal arrives; a signal without an error resumes the iteration with the rest of
  the list.
\<close>

theorem shutdown_tasks_in_order_until_failure:
  assumes "taskList s = pre @ item # post" and "list_all succeeds pre"
  shows "(succeeds item \<and> list_all succeeds post \<longrightarrow>
            run_labels (trace (shutdown e sg s)) =
              run_labels (trace s) @ map (label \<circ> task) (pre @ item # post)
            \<and> events_named ''exit'' (trace (shutdown e sg s)) =
                events_named ''exit'' (trace s) @ [Emit ''exit'' [JNum 0, js_or sg JNull]]
            \<and> (hook_returns s \<longrightarrow> exited (shutdown e sg s) = Some 0))
       \<and> (fails item \<longrightarrow>
            run_labels (trace (shutdown e sg s)) =
              run_labels (trace s) @ map (label \<circ> task) (pre @ [item])
            \<and> events_named ''exit'' (trace (shutdown e sg s)) =
                events_named ''exit'' (trace s) @ [Emit ''exit'' [JNum 1, js_or sg JNull]]
            \<and> (hook_returns s \<longrightarrow> exited (shutdown e sg s) = Some 1)
            \<and> (\<not> hook_returns s \<longrightarrow>
                 exited (hook_signal (length (hooks_waiting s)) (shutdown e sg s)) = Some 1))
       \<and> (defers item \<longrightarrow>
            run_labels (trace (shutdown e sg s)) =
              run_labels (trace s) @ map (label \<circ> task) (pre @ [item])
            \<and> events_named ''exit'' (trace (shutdown e sg s)) = events_named ''exit'' (trace s)
            \<and> exited (shutdown e sg s) = exited s
            \<and> suspended (shutdown e sg s) =
                suspended s @ [\<lparr>remaining = post, errorShutdown = e, shutdown_sig = sg\<rparr>])
       \<and> (k < length (suspended t) \<and> truthy err \<longrightarrow>
            run_labels (trace (task_signal k err t)) = run_labels (trace t)
            \<and> events_named ''exit'' (trace (task_signal k err t)) =
                events_named ''exit'' (trace t) @
                  [Emit ''exit'' [JNum 1, js_or (shutdown_sig (suspended t ! k)) JNull]]
            \<and> (hook_returns t \<longrightarrow> exited (task_signal k err t) = Some 1)
            \<and> (\<not> hook_returns t \<longrightarrow>
                 exited (hook_signal (length (hooks_waiting t)) (task_signal k err t)) = Some 1))
       \<and> (k < length (suspended t) \<and> \<not> truthy err \<longrightarrow>
            run_labels (trace (task_signal k err t)) =
              run_labels (trace t) @ map (label \<circ> task) (visited (remaining (suspended t ! k)))
            \<and> (list_all succeeds (remaining (suspended t ! k)) \<longrightarrow>
                 events_named ''exit'' (trace (task_signal k err t)) =
                   events_named ''exit'' (trace t) @
                     [Emit ''exit'' [JNum 0, js_or (shutdown_sig (suspended t ! k)) JNull]]
                 \<and> (hook_returns t \<longrightarrow> exited (task_signal k err t) = Some 0)))"
proof (intro conjI impI)
  assume a: "succeeds item \<and> list_all succeeds post"
  with assms have all: "list_all succeeds (taskList s)" by simp
  then have "visited (taskList s) = taskList s" by (rule visited_all)
  with assms show "run_labels (trace (shutdown e sg s)) =
      run_labels (trace s) @ map (label \<circ> task) (pre @ item # post)"
    by (simp add: run_labels_shutdown)
  show "events_named ''exit'' (trace (shutdown e sg s)) =
      events_named ''exit'' (trace s) @ [Emit ''exit'' [JNum 0, js_or sg JNull]]"
    using shutdown_ok [OF all] by simp
  assume "hook_returns s"
  then show "exited (shutdown e sg s) = Some 0"
    using shutdown_ok [OF all, of e sg] by simp
next
  assume f: "fails item"
  with assms have "visited (taskList s) = pre @ [item]"
    by (simp add: visited_until fails_not_succeeds)
  then show "run_labels (trace (shutdown e sg s)) =
      run_labels (trace s) @ map (label \<circ> task) (pre @ [item])"
    by (simp add: run_labels_shutdown)
  show "events_named ''exit'' (trace (shutdown e sg s)) =
      events_named ''exit'' (trace s) @ [Emit ''exit'' [JNum 1, js_or sg JNull]]"
    using shutdown_failed [OF assms f] by simp
  {
    assume "hook_returns s"
    then show "exited (shutdown e sg s) = Some 1"
      using shutdown_failed [OF assms f, of e sg] by simp
  }
  {
    assume "\<not> hook_returns s"
    then have "hooks_waiting (shutdown e sg s) = hooks_waiting s @ [1]"
      using shutdown_failed [OF assms f, of e sg] by simp
    then show "exited (hook_signal (length (hooks_waiting s)) (shutdown e sg s)) = Some 1"
      by (simp add: exited_hook_signal)
  }
next
  assume d: "defers item"
  with assms have "visited (taskList s) = pre @ [item]"
    by (simp add: visited_until defers_not_succeeds)
  then show "run_labels (trace (shutdown e sg s)) =
      run_labels (trace s) @ map (label \<circ> task) (pre @ [item])"
    by (simp add: run_labels_shutdown)
  show "events_named ''exit'' (trace (shutdown e sg s)) = events_named ''exit'' (trace s)"
    using shutdown_deferred_quiet [OF assms d] by simp
  show "exited (shutdown e sg s) = exited s"
    using shutdown_deferred [OF assms d] by simp
  show "suspended (shutdown e sg s) =
      suspended s @ [\<lparr>remaining = post, errorShutdown = e, shutdown_sig = sg\<rparr>]"
    using shutdown_deferred [OF assms d] by simp
next
  assume late: "k < length (suspended t) \<and> truthy err"
  then have k: "k < length (suspended t)" and err: "truthy err" by simp_all
  show "run_labels (trace (task_signal k err t)) = run_labels (trace t)"
    using task_signal_failure [OF k err] by simp
  show "events_named ''exit'' (trace (task_signal k err t)) =
      events_named ''exit'' (trace t) @
        [Emit ''exit'' [JNum 1, js_or (shutdown_sig (suspended t ! k)) JNull]]"
    using task_signal_failure [OF k err] by simp
  {
    assume "hook_returns t"
    then show "exited (task_signal k err t) = Some 1"
      using task_signal_failure [OF k err] by simp
  }
  {
    assume "\<not> hook_returns t"
    then have "hooks_waiting (task_signal k err t) = hooks_waiting t @ [1]"
      using task_signal_failure [OF k err] by simp
    then show "exited (hook_signal (length (hooks_waiting t)) (task_signal k err t)) = Some 1"
      by (simp add: exited_hook_signal)
  }
next
  assume ok: "k < length (suspended t) \<and> \<not> truthy err"
  then have k: "k < length (suspended t)" and err: "\<not> truthy err" by simp_all
  show "run_labels (trace (task_signal k err t)) =
      run_labels (trace t) @ map (label \<circ> task) (visited (remaining (suspended t ! k)))"
    using k err by (rule task_signal_resumes)
  assume all: "list_all succeeds (remaining (suspended t ! k))"
  show "events_named ''exit'' (trace (task_signal k err t)) =
      events_named ''exit'' (trace t) @
        [Emit ''exit'' [JNum 0, js_or (shutdown_sig (suspended t ! k)) JNull]]"
    using task_signal_success [OF k err all] by simp
  assume "hook_returns t"
  then show "exited (task_signal k err t) = Some 0"
    using task_signal_success [OF k err all] by simp
qed

lemma standalone_slow_first_fields:
  "isMaster standalone_slow_first" "\<not> shutdownLock standalone_slow_first"
  "numOfWorkers standalone_slow_first = 0" "onExit standalone_slow_first = None"
  "shutdownTasks standalone_slow_first =
     [\<lparr>task = Fn 1 Defers, runOnMaster = True\<rparr>,
      \<lparr>task = Fn 2 (CallsBack JUndefined), runOnMaster = True\<rparr>]"
  "signals_on standalone_slow_first" "exited standalone_slow_first = None"
  "suspended standalone_slow_first = []" "hooks_waiting standalone_slow_first = []"
  "run_labels (trace standalone_slow_first) = []"
  "events_named ''exit'' (trace standalone_slow_first) = []"
  by (simp_all add: standalone_slow_first_def config_max_def
      ee_start_def ee_addShutdownTask_def start_def startListeners_def startClusterMode_def
      ee_isCluster_def Let_def)

lemma standalone_failing_first_quiet:
  "events_named ''exit'' (trace standalone_failing_first) = []"
  by (simp add: standalone_failing_first_def config_max_def
      ee_start_def ee_addShutdownTask_def start_def startListeners_def startClusterMode_def
      ee_isCluster_def Let_def)

lemma stopped_slow_first_fields:
  "suspended (ee_stop example_codes JUndefined standalone_slow_first) =
     [\<lparr>remaining = [\<lparr>task = Fn 2 (CallsBack JUndefined), runOnMaster = True\<rparr>],
       errorShutdown = JUndefined, shutdown_sig = JNum 0\<rparr>]"
  "run_labels (trace (ee_stop example_codes JUndefined standalone_slow_first)) = [1]"
  "events_named ''exit'' (trace (ee_stop example_codes JUndefined standalone_slow_first)) = []"
  "onExit (ee_stop example_codes JUndefined standalone_slow_first) = None"
  "exited (ee_stop example_codes JUndefined standalone_slow_first) = None"
  by (simp_all add: standalone_slow_first_fields example_codes_def ee_stop_def exit_def
      shutdown_def taskList_def ee_isMaster_def Let_def)

text \<open>
  C2 as stated fails: with two tasks registered, the first reporting a failure, the
  process exits with code 1 and the second task has not run.
\<close>

theorem failed_task_skips_the_rest:
  "map (label \<circ> task) (taskList standalone_failing_first) = [1, 2]
   \<and> fails (hd (taskList standalone_failing_first))
   \<and> run_labels (trace (ee_stop example_codes JUndefined standalone_failing_first)) = [1]
   \<and> exited (ee_stop example_codes JUndefined standalone_failing_first) = Some 1"
  by (simp add: standalone_failing_first_fields example_codes_def ee_stop_def exit_def
      shutdown_def taskList_def ee_isMaster_def fails_def shutdown_done_def process_exit_def Let_def)

text \<open>
  The theorem of C2 on two standalone processes: a first task that reports a failure
  before it returns, and a first task whose late completion signal carries an error.
  In both the second task has not run and the process has exited with code 1.
\<close>

theorem shutdown_tasks_in_order_until_failure_witness:
  "run_labels (trace (shutdown JNull JNull standalone_failing_first)) = [1]
   \<and> events_named ''exit'' (trace (shutdown JNull JNull standalone_failing_first)) =
       [Emit ''exit'' [JNum 1, JNull]]
   \<and> exited (shutdown JNull JNull standalone_failing_first) = Some 1
   \<and> run_labels (trace (task_signal 0 (JStr ''timed out'')
         (ee_stop example_codes JUndefined standalone_slow_first))) = [1]
   \<and> events_named ''exit'' (trace (task_signal 0 (JStr ''timed out'')
         (ee_stop example_codes JUndefined standalone_slow_first))) = [Emit ''exit'' [JNum 1, JNull]]
   \<and> exited (task_signal 0 (JStr ''timed out'')
         (ee_stop example_codes JUndefined standalone_slow_first)) = Some 1"
  using shutdown_tasks_in_order_until_failure
    [where s = standalone_failing_first and pre = "[]"
       and item = "\<lparr>task = Fn 1 (CallsBack (JStr ''disk full'')), runOnMaster = True\<rparr>"
       and post = "[\<lparr>task = Fn 2 (CallsBack JUndefined), runOnMaster = True\<rparr>]"
       and e = JNull and sg = JNull and k = 0
       and t = "ee_stop example_codes JUndefined standalone_slow_first"
       and err = "JStr ''timed out''"]
  by (simp add: standalone_failing_first_fields standalone_failing_first_quiet
      standalone_slow_first_fields stopped_slow_first_fields taskList_def
      ee_isMaster_def succeeds_def fails_def defers_def hook_returns_def js_or_def)

section \<open>The exit code after stop\<close>

subsection \<open>A shutdown whose tasks all complete\<close>

lemma run_append:
  "run codes (xs @ ys) s = (case run codes xs s of Inl f \<Rightarrow> Inl f | Inr s' \<Rightarrow> run codes ys s')"
  by (induction xs arbitrary: s) (simp_all split: sum.splits)

lemma completion_signals_Nil:
  "completion_signals ok [] hook =
     (case hook of
        None \<Rightarrow> []
      | Some f \<Rightarrow> (case behaviour f of CallsBack v \<Rightarrow> [] | Defers \<Rightarrow> [HookSignal 0]))"
  by (simp add: completion_signals_def)

lemma completion_signals_Cons:
  "completion_signals ok (item # ts) hook =
     (if defers item then TaskSignal 0 ok # completion_signals ok ts hook
      else completion_signals ok ts hook)"
  by (simp add: completion_signals_def)

lemma shutdown_done_completes:
  assumes "exited s = None" and "hooks_waiting s = []" and "\<not> truthy err"
  shows "\<exists>s'. run codes (completion_signals ok [] (onExit s)) (shutdown_done err e sg s) = Inr s'
           \<and> exited s' = Some 0 \<and> run_labels (trace s') = run_labels (trace s)"
  using assms
  by (auto simp add: completion_signals_Nil shutdown_done_def Let_def deliver_def hook_signal_def
      split: option.splits callback.splits)

lemma eachSeries_shutdown_completes:
  assumes "exited s = None" and "suspended s = []" and "hooks_waiting s = []"
    and "list_all (\<lambda>i. \<not> fails i) ts" and "\<not> truthy ok"
  shows "\<exists>s'. run codes (completion_signals ok ts (onExit s)) (eachSeries_shutdown ts e sg s) = Inr s'
           \<and> exited s' = Some 0
           \<and> run_labels (trace s') = run_labels (trace s) @ map (label \<circ> task) ts"
  using assms
proof (induction ts arbitrary: s)
  case Nil
  then show ?case
    using shutdown_done_completes [of s JUndefined codes ok e sg] by simp
next
  case (Cons item rest)
  let ?s2 = "out (RunTask (label (task item))) (log (print_level e) ''Execute shutdown task'' s)"
  show ?case
  proof (cases "behaviour (task item)")
    case (CallsBack err)
    with Cons.prems(4) have ok: "\<not> truthy err" and nd: "\<not> defers item"
      by (simp_all add: fails_def defers_def)
    have "\<exists>s'. run codes (completion_signals ok rest (onExit ?s2)) (eachSeries_shutdown rest e sg ?s2) = Inr s'
           \<and> exited s' = Some 0
           \<and> run_labels (trace s') = run_labels (trace ?s2) @ map (label \<circ> task) rest"
      using Cons.prems by (intro Cons.IH) simp_all
    with CallsBack ok nd show ?thesis
      by (simp add: completion_signals_Cons Let_def o_def)
  next
    case Defers
    then have d: "defers item" by (simp add: defers_def)
    let ?s3 = "?s2\<lparr>suspended := []\<rparr>"
    have "\<exists>s'. run codes (completion_signals ok rest (onExit ?s3)) (eachSeries_shutdown rest e sg ?s3) = Inr s'
           \<and> exited s' = Some 0
           \<and> run_labels (trace s') = run_labels (trace ?s3) @ map (label \<circ> task) rest"
      using Cons.prems by (intro Cons.IH) simp_all
    with Defers d Cons.prems(1,2,5) show ?thesis
      by (simp add: completion_signals_Cons Let_def deliver_def task_signal_def o_def)
  qed
qed

lemma shutdown_completes:
  assumes "exited s = None" and "suspended s = []" and "hooks_waiting s = []"
    and "list_all (\<lambda>i. \<not> fails i) (taskList s)" and "\<not> truthy ok"
  shows "\<exists>s'. run codes (completion_signals ok (taskList s) (onExit s)) (shutdown e sg s) = Inr s'
           \<and> exited s' = Some 0
           \<and> run_labels (trace s') = run_labels (trace s) @ map (label \<circ> task) (taskList s)"
  using eachSeries_shutdown_completes
    [of "log VERBOSE ''Number of shutdown tasks before shutting down'' s" "taskList s" ok codes e sg]
    assms
  by (simp add: shutdown_def Let_def)

subsection \<open>The workers leave, then the master shuts down\<close>

lemma taskList_same:
  "isMaster s' = isMaster s \<Longrightarrow> numOfWorkers s' = numOfWorkers s \<Longrightarrow>
   shutdownTasks s' = shutdownTasks s \<Longrightarrow> taskList s' = taskList s"
  by (simp add: taskList_def ee_isMaster_def)

lemma exit_step_while_shutting_down:
  assumes "isShutdown s" and "\<not> isReloading s" and "cluster_exit_on s" and "exited s = None"
    and "lookup_worker s i = Some w"
  shows "\<exists>s2 s3.
           deliver codes (WorkerExited i su c g) s =
             Inr (if filter (\<lambda>v. wid v \<noteq> i) (cluster_workers s) = []
                  then shutdown JNull c s3 else emit_workerExit (syncWorkerMap s2))
           \<and> isShutdown s2
           \<and> \<not> isReloading s2
           \<and> cluster_exit_on s2
           \<and> exited s2 = None
           \<and> suspended s2 = suspended s
           \<and> hooks_waiting s2 = hooks_waiting s
           \<and> taskList s2 = taskList s
           \<and> onExit s2 = onExit s
           \<and> run_labels (trace s2) = run_labels (trace s)
           \<and> cluster_workers s2 = filter (\<lambda>v. wid v \<noteq> i) (cluster_workers s)
           \<and> isShutdown s3
           \<and> \<not> isReloading s3
           \<and> cluster_exit_on s3
           \<and> exited s3 = None
           \<and> suspended s3 = suspended s
           \<and> hooks_waiting s3 = hooks_waiting s
           \<and> taskList s3 = taskList s
           \<and> onExit s3 = onExit s
           \<and> run_labels (trace s3) = run_labels (trace s)
           \<and> cluster_workers s3 = filter (\<lambda>v. wid v \<noteq> i) (cluster_workers s)"
proof -
  define s2 where "s2 =
    (if \<not> su \<and> autoSpawn s
     then log INFO ''Master process is instructing to shutdown''
            ((log INFO ''Cluster process is exiting''
               (s\<lparr>cluster_workers := filter (\<lambda>v. wid v \<noteq> i) (cluster_workers s)\<rparr>))
             \<lparr>workerMap := AList.delete (wid w) (workerMap s)\<rparr>)
     else (log INFO ''Cluster process is exiting''
             (s\<lparr>cluster_workers := filter (\<lambda>v. wid v \<noteq> i) (cluster_workers s)\<rparr>))
          \<lparr>workerMap := AList.delete (wid w) (workerMap s)\<rparr>)"
  define s3 where "s3 =
    log INFO ''All worker processes have disconnected'' (log INFO ''No more workers running'' s2)"
  have d: "deliver codes (WorkerExited i su c g) s =
             Inr (if filter (\<lambda>v. wid v \<noteq> i) (cluster_workers s) = []
                  then shutdown JNull c s3 else emit_workerExit (syncWorkerMap s2))"
    using assms
    by (simp add: deliver_def handleWorkerExit_def handleAutoSpawn_def noMoreWorkers_def Let_def
        s2_def s3_def)
  have f2: "isShutdown s2"
    "\<not> isReloading s2"
    "cluster_exit_on s2"
    "exited s2 = None"
    "suspended s2 = suspended s"
    "hooks_waiting s2 = hooks_waiting s"
    "taskList s2 = taskList s"
    "onExit s2 = onExit s"
    "run_labels (trace s2) = run_labels (trace s)"
    "cluster_workers s2 = filter (\<lambda>v. wid v \<noteq> i) (cluster_workers s)"
    using assms(1-4) by (simp_all add: s2_def taskList_def ee_isMaster_def)
  have f3: "isShutdown s3"
    "\<not> isReloading s3"
    "cluster_exit_on s3"
    "exited s3 = None"
    "suspended s3 = suspended s"
    "hooks_waiting s3 = hooks_waiting s"
    "taskList s3 = taskList s"
    "onExit s3 = onExit s"
    "run_labels (trace s3) = run_labels (trace s)"
    "cluster_workers s3 = filter (\<lambda>v. wid v \<noteq> i) (cluster_workers s)"
    using f2 by (simp_all add: s3_def taskList_def ee_isMaster_def)
  show ?thesis
    using d f2 f3 by blast
qed

lemma workers_leave_then_shutdown:
  assumes "isShutdown s" and "\<not> isReloading s" and "cluster_exit_on s" and "exited s = None"
    and "suspended s = []" and "hooks_waiting s = []"
    and "list_all (\<lambda>i. \<not> fails i) (taskList s)" and "\<not> truthy ok"
    and "ids \<noteq> []" and "distinct ids" and "set ids = wid ` set (cluster_workers s)"
  shows "\<exists>s'. run codes (map (\<lambda>i. WorkerExited i (su i) (c i) (g i)) ids @
                          completion_signals ok (taskList s) (onExit s)) s = Inr s'
           \<and> exited s' = Some 0
           \<and> run_labels (trace s') = run_labels (trace s) @ map (label \<circ> task) (taskList s)"
  using assms
proof (induction ids arbitrary: s)
  case Nil
  then show ?case by simp
next
  case (Cons i rest)
  from Cons.prems(11) obtain w where w: "lookup_worker s i = Some w"
    using lookup_worker_Some [of i s] by auto
  from exit_step_while_shutting_down [OF Cons.prems(1-4) w, of codes "su i" "c i" "g i"]
  obtain s2 s3 where step: "deliver codes (WorkerExited i (su i) (c i) (g i)) s =
             Inr (if filter (\<lambda>v. wid v \<noteq> i) (cluster_workers s) = []
                  then shutdown JNull (c i) s3 else emit_workerExit (syncWorkerMap s2))"
    and f2: "isShutdown s2"
      "\<not> isReloading s2"
      "cluster_exit_on s2"
      "exited s2 = None"
      "suspended s2 = suspended s"
      "hooks_waiting s2 = hooks_waiting s"
      "taskList s2 = taskList s"
      "onExit s2 = onExit s"
      "run_labels (trace s2) = run_labels (trace s)"
      "cluster_workers s2 = filter (\<lambda>v. wid v \<noteq> i) (cluster_workers s)"
    and f3: "isShutdown s3"
      "\<not> isReloading s3"
      "cluster_exit_on s3"
      "exited s3 = None"
      "suspended s3 = suspended s"
      "hooks_waiting s3 = hooks_waiting s"
      "taskList s3 = taskList s"
      "onExit s3 = onExit s"
      "run_labels (trace s3) = run_labels (trace s)"
      "cluster_workers s3 = filter (\<lambda>v. wid v \<noteq> i) (cluster_workers s)"
    by blast
  have img: "wid ` set (filter (\<lambda>v. wid v \<noteq> i) (cluster_workers s)) = set rest"
    using Cons.prems(10,11) by auto
  show ?case
  proof (cases rest)
    case Nil
    with img have none: "filter (\<lambda>v. wid v \<noteq> i) (cluster_workers s) = []" by simp
    have "\<exists>s'. run codes (completion_signals ok (taskList s3) (onExit s3))
                  (shutdown JNull (c i) s3) = Inr s'
           \<and> exited s' = Some 0
           \<and> run_labels (trace s') = run_labels (trace s3) @ map (label \<circ> task) (taskList s3)"
      using Cons.prems(5-8) f3 by (intro shutdown_completes) simp_all
    then show ?thesis
      using step none Nil f3 by (simp add: o_def)
  next
    case (Cons j more)
    have some: "filter (\<lambda>v. wid v \<noteq> i) (cluster_workers s) \<noteq> []"
    proof
      assume "filter (\<lambda>v. wid v \<noteq> i) (cluster_workers s) = []"
      then have "wid ` set (filter (\<lambda>v. wid v \<noteq> i) (cluster_workers s)) = {}"
        by (simp only: set_simps image_empty)
      with img Cons show False by simp
    qed
    let ?s4 = "emit_workerExit (syncWorkerMap s2)"
    have tl: "taskList ?s4 = taskList s"
      using f2 by (simp add: taskList_def ee_isMaster_def)
    have "\<exists>s'. run codes (map (\<lambda>i. WorkerExited i (su i) (c i) (g i)) rest @
                          completion_signals ok (taskList ?s4) (onExit ?s4)) ?s4 = Inr s'
           \<and> exited s' = Some 0
           \<and> run_labels (trace s') = run_labels (trace ?s4) @ map (label \<circ> task) (taskList ?s4)"
      using Cons.prems(5-8,10) f2 tl img Cons by (intro Cons.IH) simp_all
    then show ?thesis
      using step some tl f2 by (simp add: o_def)
  qed
qed

subsection \<open>Stop in the primary process and in a worker\<close>

lemma stop_on_primary:
  assumes "isMaster s" and "cluster_isMaster s" and "\<not> shutdownLock s" and "\<not> isReloading s"
    and "exited s = None" and "suspended s = []" and "hooks_waiting s = []"
    and "cluster_workers s \<noteq> [] \<longrightarrow> numOfWorkers s \<noteq> 0 \<and> cluster_exit_on s"
    and "distinct ids" and "set ids = wid ` set (cluster_workers s)"
    and "list_all (\<lambda>i. \<not> fails i) (taskList s)" and "\<not> truthy ok"
  shows "\<exists>s'. run codes (Stop error # map (\<lambda>i. WorkerExited i (su i) (c i) (g i)) ids @
                          completion_signals ok (taskList s) (onExit s)) s = Inr s'
           \<and> exited s' = Some 0
           \<and> run_labels (trace s') = run_labels (trace s) @ map (label \<circ> task) (taskList s)"
proof -
  define sg where "sg = (if truthy error then FATAL_ERROR codes else EXPECTED codes)"
  define s1 where "s1 =
    (if truthy error
     then log (print_level error) ''Exiting with an error'' (s\<lparr>shutdownLock := True\<rparr>)
     else log (print_level error) ''Exiting'' (s\<lparr>shutdownLock := True\<rparr>))"
  have f1: "exited s1 = None" "suspended s1 = []" "hooks_waiting s1 = []"
    "taskList s1 = taskList s" "onExit s1 = onExit s"
    "run_labels (trace s1) = run_labels (trace s)" "\<not> isReloading s1" 
    "cluster_exit_on s1 = cluster_exit_on s" "cluster_workers s1 = cluster_workers s"
    "numOfWorkers s1 = numOfWorkers s" "cluster_isMaster s1"
    using assms(2,4-7) by (simp_all add: s1_def taskList_def ee_isMaster_def)
  have first: "deliver codes (Stop error) s = Inr (exit error sg s)"
    using assms(5) by (simp add: deliver_def ee_stop_def sg_def)
  show ?thesis
  proof (cases "cluster_workers s = []")
    case True
    with assms(10) have ids: "ids = []" by simp
    show ?thesis
    proof (cases "numOfWorkers s = 0")
      case True
      have e: "exit error sg s = shutdown error sg s1"
        using assms(1,3) True by (simp add: exit_def Let_def s1_def)
      have "\<exists>s'. run codes (completion_signals ok (taskList s1) (onExit s1))
                    (shutdown error sg s1) = Inr s'
             \<and> exited s' = Some 0
             \<and> run_labels (trace s') = run_labels (trace s1) @ map (label \<circ> task) (taskList s1)"
        using f1 assms(11,12) by (intro shutdown_completes) simp_all
      then show ?thesis
        using first e ids f1 by (simp add: o_def)
    next
      case False
      define s2 where "s2 = log (print_level error) ''Master is exiting'' (s1\<lparr>isShutdown := True\<rparr>)"
      have f2: "exited s2 = None" "suspended s2 = []" "hooks_waiting s2 = []"
        "taskList s2 = taskList s" "onExit s2 = onExit s"
        "run_labels (trace s2) = run_labels (trace s)"
        using f1 by (simp_all add: s2_def taskList_def ee_isMaster_def)
      have e: "exit error sg s = shutdown sg JUndefined s2"
        using assms(1,2,3) False \<open>cluster_workers s = []\<close>
        by (simp add: exit_def Let_def s1_def s2_def noMoreWorkers_def)
      have "\<exists>s'. run codes (completion_signals ok (taskList s2) (onExit s2))
                    (shutdown sg JUndefined s2) = Inr s'
             \<and> exited s' = Some 0
             \<and> run_labels (trace s') = run_labels (trace s2) @ map (label \<circ> task) (taskList s2)"
        using f2 assms(11,12) by (intro shutdown_completes) simp_all
      then show ?thesis
        using first e ids f2 by (simp add: o_def)
    qed
  next
    case False
    with assms(8) have n: "numOfWorkers s \<noteq> 0" and on: "cluster_exit_on s" by simp_all
    define s4 where "s4 = exit_each (map wid (cluster_workers s)) error (s1\<lparr>isShutdown := True\<rparr>)"
    have f4: "isShutdown s4" "\<not> isReloading s4" "cluster_exit_on s4" "exited s4 = None"
      "suspended s4 = []" "hooks_waiting s4 = []" "taskList s4 = taskList s" "onExit s4 = onExit s"
      "run_labels (trace s4) = run_labels (trace s)" "cluster_workers s4 = cluster_workers s"
      using f1 on by (simp_all add: s4_def taskList_def ee_isMaster_def)
    have e: "exit error sg s = s4"
      using assms(1,2,3) n False
      by (simp add: exit_def Let_def s1_def s4_def noMoreWorkers_def)
    from False assms(10) have "ids \<noteq> []" by auto
    then have "\<exists>s'. run codes (map (\<lambda>i. WorkerExited i (su i) (c i) (g i)) ids @
                            completion_signals ok (taskList s4) (onExit s4)) s4 = Inr s'
             \<and> exited s' = Some 0
             \<and> run_labels (trace s') = run_labels (trace s4) @ map (label \<circ> task) (taskList s4)"
      using f4 assms(9-12) by (intro workers_leave_then_shutdown) simp_all
    then show ?thesis
      using first e f4 by (simp add: o_def)
  qed
qed

lemma stop_on_worker:
  assumes "\<not> isMaster s" and "message_on s"
    and "exited s = None" and "suspended s = []" and "hooks_waiting s = []"
    and "list_all (\<lambda>i. \<not> fails i) (taskList s)" and "\<not> truthy ok"
    and "getprop env ''command'' = JStr CMD_EXIT"
  shows "\<exists>s'. run codes (Stop error # MasterMessage (Json env) #
                          completion_signals ok (taskList s) (onExit s)) s = Inr s'
           \<and> exited s' = Some 0
           \<and> run_labels (trace s') = run_labels (trace s) @ map (label \<circ> task) (taskList s)"
proof -
  define sg where "sg = (if truthy error then FATAL_ERROR codes else EXPECTED codes)"
  define s1 where "s1 = out (Send (SendExit (serialized error) sg) None) s"
  define s2 where "s2 = log INFO ''Shutting down worker process for exit'' s1"
  have f2: "exited s1 = None" "message_on s1" "exited s2 = None" "suspended s2 = []"
    "hooks_waiting s2 = []" "taskList s2 = taskList s" "onExit s2 = onExit s"
    "run_labels (trace s2) = run_labels (trace s)"
    using assms(2-5) by (simp_all add: s1_def s2_def taskList_def ee_isMaster_def)
  have first: "deliver codes (Stop error) s = Inr s1"
    using assms(1,3) by (simp add: deliver_def ee_stop_def exit_def s1_def sg_def)
  from assms(8) have nn: "\<not> nullish env" by (cases env) simp_all
  have second: "deliver codes (MasterMessage (Json env)) s1 =
      Inr (shutdown (js_or (getprop env ''error'') JNull) JUndefined s2)"
    using f2(1,2) nn assms(8)
    by (simp add: deliver_def process_on_message_def parsed_def s2_def)
  have "\<exists>s'. run codes (completion_signals ok (taskList s2) (onExit s2))
                (shutdown (js_or (getprop env ''error'') JNull) JUndefined s2) = Inr s'
         \<and> exited s' = Some 0
         \<and> run_labels (trace s') = run_labels (trace s2) @ map (label \<circ> task) (taskList s2)"
    using f2 assms(6,7) by (intro shutdown_completes) simp_all
  then show ?thesis
    using first second f2 by (simp add: o_def)
qed

subsection \<open>No exit code but 0 without a failure of a task\<close>

lemma nfp_same:
  "exited s' = exited s \<Longrightarrow> hooks_waiting s' = hooks_waiting s \<Longrightarrow>
   shutdownTasks s' = shutdownTasks s \<Longrightarrow> suspended s' = suspended s \<Longrightarrow>
   no_failure_pending s' = no_failure_pending s"
  by (simp add: no_failure_pending_def)

lemma nfp_shutdown_done:
  "no_failure_pending s \<Longrightarrow> \<not> truthy err \<Longrightarrow> no_failure_pending (shutdown_done err e sg s)"
  by (auto simp add: no_failure_pending_def exited_shutdown_done hooks_waiting_shutdown_done)

lemma nfp_eachSeries_shutdown:
  "no_failure_pending s \<Longrightarrow> list_all (\<lambda>i. \<not> fails i) ts \<Longrightarrow>
   no_failure_pending (eachSeries_shutdown ts e sg s)"
proof (induction ts arbitrary: s)
  case Nil
  then show ?case by (simp add: nfp_shutdown_done)
next
  case (Cons item rest)
  let ?s2 = "out (RunTask (label (task item))) (log (print_level e) ''Execute shutdown task'' s)"
  have s2: "no_failure_pending ?s2"
    using Cons.prems(1) by (simp add: no_failure_pending_def)
  show ?case
  proof (cases "behaviour (task item)")
    case (CallsBack err)
    with Cons.prems(2) have "\<not> truthy err" by (simp add: fails_def)
    with CallsBack Cons.IH [OF s2] Cons.prems(2) show ?thesis
      by (simp add: Let_def)
  next
    case Defers
    with s2 Cons.prems(2) show ?thesis
      by (simp add: Let_def no_failure_pending_def)
  qed
qed

lemma taskList_subset: "list_all P (shutdownTasks s) \<Longrightarrow> list_all P (taskList s)"
  by (simp add: taskList_def list_all_filter)

lemma nfp_shutdown:
  "no_failure_pending s \<Longrightarrow> no_failure_pending (shutdown e sg s)"
proof -
  assume a: "no_failure_pending s"
  then have "list_all (\<lambda>i. \<not> fails i) (taskList s)"
    by (simp add: no_failure_pending_def taskList_subset)
  moreover have "no_failure_pending (log VERBOSE ''Number of shutdown tasks before shutting down'' s)"
    using a by (simp add: no_failure_pending_def)
  ultimately show ?thesis
    by (simp add: shutdown_def Let_def nfp_eachSeries_shutdown)
qed

lemma list_all_take: "list_all P xs \<Longrightarrow> list_all P (take k xs)"
  by (auto simp add: list_all_iff dest: in_set_takeD)

lemma list_all_drop: "list_all P xs \<Longrightarrow> list_all P (drop k xs)"
  by (auto simp add: list_all_iff dest: in_set_dropD)

lemma nfp_task_signal:
  "no_failure_pending s \<Longrightarrow> \<not> truthy err \<Longrightarrow> no_failure_pending (task_signal k err s)"
proof (cases "k < length (suspended s)")
  case False
  then show "no_failure_pending s \<Longrightarrow> no_failure_pending (task_signal k err s)"
    by (simp add: task_signal_def)
next
  case True
  assume a: "no_failure_pending s" and e: "\<not> truthy err"
  let ?s1 = "s\<lparr>suspended := take k (suspended s) @ drop (Suc k) (suspended s)\<rparr>"
  have s1: "no_failure_pending ?s1"
    using a by (simp add: no_failure_pending_def list_all_take list_all_drop)
  have r: "list_all (\<lambda>i. \<not> fails i) (remaining (suspended s ! k))"
    using a True by (simp add: no_failure_pending_def list_all_length)
  show "no_failure_pending (task_signal k err s)"
    using True e s1 r by (simp add: task_signal_def Let_def nfp_eachSeries_shutdown)
qed

lemma nfp_hook_signal:
  "no_failure_pending s \<Longrightarrow> no_failure_pending (hook_signal k s)"
proof (cases "k < length (hooks_waiting s)")
  case False
  then show "no_failure_pending s \<Longrightarrow> no_failure_pending (hook_signal k s)"
    by (simp add: hook_signal_def)
next
  case True
  assume a: "no_failure_pending s"
  with True have "hooks_waiting s ! k = 0"
    by (simp add: no_failure_pending_def list_all_length)
  with a True show "no_failure_pending (hook_signal k s)"
    by (simp add: hook_signal_def no_failure_pending_def list_all_take list_all_drop)
qed

lemma nfp_exit: "no_failure_pending s \<Longrightarrow> no_failure_pending (exit e sg s)"
proof -
  assume a: "no_failure_pending s"
  have upd: "\<And>x. no_failure_pending x \<Longrightarrow> no_failure_pending (x\<lparr>shutdownLock := True\<rparr>)"
    "\<And>x. no_failure_pending x \<Longrightarrow> no_failure_pending (x\<lparr>isShutdown := True\<rparr>)"
    "\<And>x l t. no_failure_pending x \<Longrightarrow> no_failure_pending (log l t x)"
    "\<And>x ef. no_failure_pending x \<Longrightarrow> no_failure_pending (out ef x)"
    "\<And>x ks er. no_failure_pending x \<Longrightarrow> no_failure_pending (exit_each ks er x)"
    by (simp_all add: no_failure_pending_def)
  show ?thesis
    using a by (simp add: exit_def Let_def upd nfp_shutdown)
qed

lemma nfp_handleWorkerExit:
  "no_failure_pending s \<Longrightarrow> handleWorkerExit w su c g s = Inr s' \<Longrightarrow> no_failure_pending s'"
proof -
  assume a: "no_failure_pending s" and h: "handleWorkerExit w su c g s = Inr s'"
  have upd: "\<And>x m. no_failure_pending x \<Longrightarrow> no_failure_pending (x\<lparr>workerMap := m\<rparr>)"
    "\<And>x n. no_failure_pending x \<Longrightarrow> no_failure_pending (x\<lparr>numOfWorkers := n\<rparr>)"
    "\<And>x l t. no_failure_pending x \<Longrightarrow> no_failure_pending (log l t x)"
    "\<And>x n a. no_failure_pending x \<Longrightarrow> no_failure_pending (emit n a x)"
    "\<And>x. no_failure_pending x \<Longrightarrow> no_failure_pending (handleReloading x)"
    "\<And>x. no_failure_pending x \<Longrightarrow> no_failure_pending (snd (createWorker x))"
    "\<And>x. no_failure_pending x \<Longrightarrow> no_failure_pending (syncWorkerMap x)"
    "\<And>x. no_failure_pending x \<Longrightarrow> no_failure_pending (emit_workerExit x)"
    by (simp_all add: no_failure_pending_def)
  show ?thesis
    using a h
    by (auto simp add: handleWorkerExit_def handleAutoSpawn_def Let_def split_def upd nfp_shutdown
        split: if_splits sum.splits option.splits)
qed

lemma nfp_worker_on_message:
  "no_failure_pending s \<Longrightarrow> worker_on_message w m s = Inr s' \<Longrightarrow> no_failure_pending s'"
proof -
  assume a: "no_failure_pending s" and h: "worker_on_message w m s = Inr s'"
  have upd: "\<And>x l t. no_failure_pending x \<Longrightarrow> no_failure_pending (log l t x)"
    "\<And>x ef. no_failure_pending x \<Longrightarrow> no_failure_pending (out ef x)"
    by (simp_all add: no_failure_pending_def)
  show ?thesis
    using a h
    by (auto simp add: worker_on_message_def parsed_def Let_def upd nfp_exit
        split: if_splits ipc_message.splits)
qed

lemma nfp_process_on_message:
  "no_failure_pending s \<Longrightarrow> process_on_message m s = Inr s' \<Longrightarrow> no_failure_pending s'"
proof -
  assume a: "no_failure_pending s" and h: "process_on_message m s = Inr s'"
  have upd: "\<And>x l t. no_failure_pending x \<Longrightarrow> no_failure_pending (log l t x)"
    "\<And>x n a. no_failure_pending x \<Longrightarrow> no_failure_pending (emit n a x)"
    "\<And>x v. no_failure_pending x \<Longrightarrow> no_failure_pending (x\<lparr>syncedMap := v\<rparr>)"
    by (simp_all add: no_failure_pending_def)
  show ?thesis
    using a h
    by (auto simp add: process_on_message_def parsed_def Let_def upd nfp_shutdown
        split: if_splits ipc_message.splits)
qed

lemma nfp_handle:
  "no_failure_pending s \<Longrightarrow> \<not> reports_failure ev \<Longrightarrow> handle codes ev s = Inr s' \<Longrightarrow>
   no_failure_pending s'"
proof (cases ev)
  case (Signal sg)
  then show "no_failure_pending s \<Longrightarrow> handle codes ev s = Inr s' \<Longrightarrow> no_failure_pending s'"
    by (cases sg) (auto simp add: nfp_exit, simp_all add: no_failure_pending_def)
next
  case (Stop e)
  then show "no_failure_pending s \<Longrightarrow> handle codes ev s = Inr s' \<Longrightarrow> no_failure_pending s'"
    by (auto simp add: ee_stop_def nfp_exit)
next
  case (AddShutdownTask fn rom)
  then show "no_failure_pending s \<Longrightarrow> \<not> reports_failure ev \<Longrightarrow> handle codes ev s = Inr s' \<Longrightarrow>
      no_failure_pending s'"
    by (cases fn) (auto simp add: ee_addShutdownTask_def no_failure_pending_def fails_def Let_def)
next
  case (OnExit fn)
  then show "no_failure_pending s \<Longrightarrow> handle codes ev s = Inr s' \<Longrightarrow> no_failure_pending s'"
    by (cases fn) (auto simp add: ee_onExit_def no_failure_pending_def)
next
  case (WorkerExited i su c g)
  have "\<And>x ws. no_failure_pending x \<Longrightarrow> no_failure_pending (x\<lparr>cluster_workers := ws\<rparr>)"
    by (simp add: no_failure_pending_def)
  with WorkerExited
  show "no_failure_pending s \<Longrightarrow> handle codes ev s = Inr s' \<Longrightarrow> no_failure_pending s'"
    by (auto simp add: Let_def split: option.splits if_splits dest: nfp_handleWorkerExit [rotated])
next
  case (WorkerMessage i m)
  then show "no_failure_pending s \<Longrightarrow> handle codes ev s = Inr s' \<Longrightarrow> no_failure_pending s'"
    by (auto split: option.splits dest: nfp_worker_on_message)
next
  case (MasterMessage m)
  then show "no_failure_pending s \<Longrightarrow> handle codes ev s = Inr s' \<Longrightarrow> no_failure_pending s'"
    by (auto split: if_splits dest: nfp_process_on_message)
next
  case (TaskSignal k err)
  then show "no_failure_pending s \<Longrightarrow> \<not> reports_failure ev \<Longrightarrow> handle codes ev s = Inr s' \<Longrightarrow>
      no_failure_pending s'"
    by (auto simp add: nfp_task_signal)
next
  case (HookSignal k)
  then show "no_failure_pending s \<Longrightarrow> handle codes ev s = Inr s' \<Longrightarrow> no_failure_pending s'"
    by (auto simp add: nfp_hook_signal)
next
  case (Elapse d)
  then show "no_failure_pending s \<Longrightarrow> handle codes ev s = Inr s' \<Longrightarrow> no_failure_pending s'"
    by (auto simp add: no_failure_pending_def)
qed

lemma nfp_run:
  "no_failure_pending s \<Longrightarrow> list_all (\<lambda>ev. \<not> reports_failure ev) evs \<Longrightarrow>
   run codes evs s = Inr s' \<Longrightarrow> no_failure_pending s'"
proof (induction evs arbitrary: s)
  case Nil
  then show ?case by simp
next
  case (Cons ev evs)
  then obtain s1 where s1: "deliver codes ev s = Inr s1" and r: "run codes evs s1 = Inr s'"
    by (auto split: sum.splits)
  from s1 Cons.prems(1,2) have "no_failure_pending s1"
    by (auto simp add: deliver_def split: if_splits dest: nfp_handle)
  with Cons.IH r Cons.prems(2) show ?case by simp
qed

text \<open>
  Claim C1, as the code has it. The error that \<open>stop\<close> is given does not enter the
  exit code. With shutdown tasks of which none reports a failure, and with no
  reload and no other shutdown in flight:
  \<^item> in the primary process (standalone or master), \<open>stop(error)\<close>, then the exits of
    the live workers, if there are any, then the completion signals that the tasks
    and the \<open>onExit\<close> hook left open, end in \<open>process.exit(0)\<close>, every task of the
    filtered list having run once;
  \<^item> in a worker process, \<open>stop(error)\<close>, then the EXIT command of the master, then
    these completion signals, end in \<open>process.exit(0)\<close> as well;
  \<^item> in any process and any run of events in which no task reports a failure,
    whatever \<open>stop\<close> is given and however often, the process does not exit with a
    code other than 0.
\<close>

theorem stop_exit_code:
  assumes "isMaster s" and "cluster_isMaster s" and "\<not> shutdownLock s" and "\<not> isReloading s"
    and "exited s = None" and "suspended s = []" and "hooks_waiting s = []"
    and "cluster_workers s \<noteq> [] \<longrightarrow> numOfWorkers s \<noteq> 0 \<and> cluster_exit_on s"
    and "distinct ids" and "set ids = wid ` set (cluster_workers s)"
    and "list_all (\<lambda>i. \<not> fails i) (taskList s)" and "\<not> truthy ok"
  shows "(\<exists>s'. run codes (Stop error # map (\<lambda>i. WorkerExited i (su i) (c i) (g i)) ids @
                          completion_signals ok (taskList s) (onExit s)) s = Inr s'
            \<and> exited s' = Some 0
            \<and> run_labels (trace s') = run_labels (trace s) @ map (label \<circ> task) (taskList s))
       \<and> (\<not> isMaster w \<and> message_on w \<and> exited w = None \<and> suspended w = []
            \<and> hooks_waiting w = [] \<and> list_all (\<lambda>i. \<not> fails i) (taskList w)
            \<and> getprop env ''command'' = JStr CMD_EXIT \<longrightarrow>
           (\<exists>w'. run codes (Stop error # MasterMessage (Json env) #
                            completion_signals ok (taskList w) (onExit w)) w = Inr w'
              \<and> exited w' = Some 0
              \<and> run_labels (trace w') = run_labels (trace w) @ map (label \<circ> task) (taskList w)))
       \<and> (no_failure_pending t \<and> list_all (\<lambda>ev. \<not> reports_failure ev) evs
            \<and> run codes evs t = Inr t' \<longrightarrow>
           exited t' = None \<or> exited t' = Some 0)"
proof (intro conjI impI)
  show "\<exists>s'. run codes (Stop error # map (\<lambda>i. WorkerExited i (su i) (c i) (g i)) ids @
                          completion_signals ok (taskList s) (onExit s)) s = Inr s'
            \<and> exited s' = Some 0
            \<and> run_labels (trace s') = run_labels (trace s) @ map (label \<circ> task) (taskList s)"
    using assms by (rule stop_on_primary)
next
  assume "\<not> isMaster w \<and> message_on w \<and> exited w = None \<and> suspended w = []
            \<and> hooks_waiting w = [] \<and> list_all (\<lambda>i. \<not> fails i) (taskList w)
            \<and> getprop env ''command'' = JStr CMD_EXIT"
  then show "\<exists>w'. run codes (Stop error # MasterMessage (Json env) #
                            completion_signals ok (taskList w) (onExit w)) w = Inr w'
              \<and> exited w' = Some 0
              \<and> run_labels (trace w') = run_labels (trace w) @ map (label \<circ> task) (taskList w)"
    using assms(12) by (intro stop_on_worker) simp_all
next
  assume "no_failure_pending t \<and> list_all (\<lambda>ev. \<not> reports_failure ev) evs
            \<and> run codes evs t = Inr t'"
  then have "no_failure_pending t'"
    using nfp_run [of t evs codes t'] by simp
  then show "exited t' = None \<or> exited t' = Some 0"
    by (simp add: no_failure_pending_def)
qed

lemma started_worker_idle:
  "suspended started_worker = []" "hooks_waiting started_worker = []"
  by (simp_all add: started_worker_def config_max_def ee_start_def start_def startListeners_def
      startClusterMode_def startWorker_def ee_isCluster_def Let_def)

lemma standalone_one_task_idle:
  "suspended standalone_one_task = []" "hooks_waiting standalone_one_task = []"
  by (simp_all add: standalone_one_task_def config_max_def ee_start_def
      ee_addShutdownTask_def start_def startListeners_def startClusterMode_def ee_isCluster_def Let_def)

text \<open>
  C1 as stated fails: \<open>stop\<close> with an error object, on a standalone process whose only
  shutdown task reports success, exits with code 0.
\<close>

theorem stop_error_exits_zero:
  "truthy example_error \<and> list_all succeeds (shutdownTasks standalone_one_task)
   \<and> exited (ee_stop example_codes example_error standalone_one_task) = Some 0"
  by (simp add: standalone_one_task_fields example_error_def example_codes_def ee_stop_def exit_def
      shutdown_def taskList_def ee_isMaster_def succeeds_def shutdown_done_def Let_def)

text \<open>
  The theorem of C1 on three processes. The master of two whose task and hook defer:
  \<open>stop\<close> with an error object, the exits of the workers 1 and 2, the completion
  signal of the task and that of the hook; the process exits with code 0. A worker:
  \<open>stop\<close> with the error object, then the EXIT command of the master; it exits with
  code 0. The standalone process with one task: after \<open>stop\<close> with the error object
  the exit code is not other than 0.
\<close>

theorem stop_exit_code_witness:
  "map_option exited
     (final (run example_codes
        [Stop example_error, WorkerExited 1 True (JNum 0) JNull, WorkerExited 2 True (JNum 0) JNull,
         TaskSignal 0 JUndefined, HookSignal 0]
        master_with_slow_task)) = Some (Some 0)
   \<and> map_option exited
       (final (run example_codes [Stop example_error, MasterMessage (Json exit_envelope)]
          started_worker)) = Some (Some 0)
   \<and> (exited (ee_stop example_codes example_error standalone_one_task) = None
       \<or> exited (ee_stop example_codes example_error standalone_one_task) = Some 0)"
proof -
  note inst = stop_exit_code
      [where s = master_with_slow_task and ids = "[1, 2]" and ok = JUndefined
         and codes = example_codes and error = example_error
         and su = "\<lambda>i. True" and c = "\<lambda>i. JNum 0" and g = "\<lambda>i. JNull"
         and w = started_worker and env = exit_envelope
         and t = standalone_one_task and evs = "[Stop example_error]"
         and t' = "ee_stop example_codes example_error standalone_one_task"]
  have hyps: "isMaster master_with_slow_task \<and> cluster_isMaster master_with_slow_task
      \<and> \<not> shutdownLock master_with_slow_task \<and> \<not> isReloading master_with_slow_task
      \<and> exited master_with_slow_task = None \<and> suspended master_with_slow_task = []
      \<and> hooks_waiting master_with_slow_task = []
      \<and> (cluster_workers master_with_slow_task \<noteq> [] \<longrightarrow>
           numOfWorkers master_with_slow_task \<noteq> 0 \<and> cluster_exit_on master_with_slow_task)
      \<and> distinct [1, 2::nat]
      \<and> set [1, 2] = wid ` set (cluster_workers master_with_slow_task)
      \<and> list_all (\<lambda>i. \<not> fails i) (taskList master_with_slow_task)
      \<and> \<not> truthy JUndefined"
    by (simp add: master_with_slow_task_fields taskList_def ee_isMaster_def fails_def)
  have all: "(\<exists>s'. run example_codes
          (Stop example_error #
           map (\<lambda>i. WorkerExited i True (JNum 0) JNull) [1, 2] @
           completion_signals JUndefined (taskList master_with_slow_task)
             (onExit master_with_slow_task)) master_with_slow_task = Inr s'
        \<and> exited s' = Some 0
        \<and> run_labels (trace s') =
            run_labels (trace master_with_slow_task) @
              map (label \<circ> task) (taskList master_with_slow_task))
     \<and> (\<not> isMaster started_worker \<and> message_on started_worker \<and> exited started_worker = None
          \<and> suspended started_worker = [] \<and> hooks_waiting started_worker = []
          \<and> list_all (\<lambda>i. \<not> fails i) (taskList started_worker)
          \<and> getprop exit_envelope ''command'' = JStr CMD_EXIT \<longrightarrow>
         (\<exists>w'. run example_codes (Stop example_error # MasterMessage (Json exit_envelope) #
                    completion_signals JUndefined (taskList started_worker) (onExit started_worker))
                  started_worker = Inr w'
            \<and> exited w' = Some 0
            \<and> run_labels (trace w') =
                run_labels (trace started_worker) @ map (label \<circ> task) (taskList started_worker)))
     \<and> (no_failure_pending standalone_one_task
          \<and> list_all (\<lambda>ev. \<not> reports_failure ev) [Stop example_error]
          \<and> run example_codes [Stop example_error] standalone_one_task =
              Inr (ee_stop example_codes example_error standalone_one_task) \<longrightarrow>
         exited (ee_stop example_codes example_error standalone_one_task) = None
         \<or> exited (ee_stop example_codes example_error standalone_one_task) = Some 0)"
    using hyps by (intro inst) simp_all
  have one: "map_option exited
     (final (run example_codes
        [Stop example_error, WorkerExited 1 True (JNum 0) JNull, WorkerExited 2 True (JNum 0) JNull,
         TaskSignal 0 JUndefined, HookSignal 0]
        master_with_slow_task)) = Some (Some 0)"
    using all [THEN conjunct1]
    by (auto simp add: final_def completion_signals_def master_with_slow_task_fields taskList_def
        ee_isMaster_def defers_def)
  have two: "map_option exited
       (final (run example_codes [Stop example_error, MasterMessage (Json exit_envelope)]
          started_worker)) = Some (Some 0)"
    using all [THEN conjunct2, THEN conjunct1]
    by (auto simp add: final_def completion_signals_def started_worker_fields
        started_worker_more_fields started_worker_idle taskList_def exit_envelope_def
        ee_isMaster_def defers_def)
  have three: "exited (ee_stop example_codes example_error standalone_one_task) = None
       \<or> exited (ee_stop example_codes example_error standalone_one_task) = Some 0"
    using all [THEN conjunct2, THEN conjunct2]
    by (simp add: no_failure_pending_def standalone_one_task_fields standalone_one_task_idle
        deliver_def fails_def)
  from one two three show ?thesis by simp
qed

section \<open>Reload on a full pool\<close>

lemma events_named_emits: "events_named n (emits es) = events_named n es"
proof (induction es)
  case Nil
  then show ?case by simp
next
  case (Cons e es)
  then show ?case by (cases e) simp_all
qed

lemma reload_channel_progress:
  "events_named ''reload'' (progress_events p i n) = reloading_events p i n"
  by (induction n arbitrary: i) simp_all

lemma complete_channel_progress:
  "events_named ''reload.complete'' (progress_events p i n) = []"
  by (induction n arbitrary: i) simp_all

lemma reloading_channel_progress:
  "length (events_named ''reload.reloading'' (progress_events p i n)) = n"
  by (induction n arbitrary: i) simp_all

lemma handleReloading_channels:
  "events_named ''reload'' (trace (handleReloading s)) =
     events_named ''reload'' (trace s) @ reloading_events (pids s) (next_worker_id s) 1 @
       (if reloaded s + 1 = numOfWorkers s then [Emit ''reload'' [JStr ''complete'']] else [])"
  "events_named ''reload.complete'' (trace (handleReloading s)) =
     events_named ''reload.complete'' (trace s) @
       (if reloaded s + 1 = numOfWorkers s then [Emit ''reload.complete'' []] else [])"
  by (simp_all add: handleReloading_def Let_def split_def)


lemma master_of_two_channels:
  "events_named ''reload'' (trace master_of_two) = []"
  "events_named ''reload.complete'' (trace master_of_two) = []"
  "events_named ''reload.reloading'' (trace master_of_two) = []"
  by (simp_all add: master_of_two_def ee_start_def start_def startListeners_def
      startClusterMode_def startMaster_def ee_isCluster_def Let_def eval_nat_numeral)


lemma plain_master_of_two_fields:
  "isMaster plain_master_of_two" "cluster_isMaster plain_master_of_two"
  "numOfWorkers plain_master_of_two = 2" "\<not> autoSpawn plain_master_of_two"
  "syncWorker plain_master_of_two"
  "\<not> isReloading plain_master_of_two" "\<not> isShutdown plain_master_of_two"
  "reloaded plain_master_of_two = 0"
  "workerMap plain_master_of_two = [(1, \<lparr>started = 0, pid = 4001\<rparr>), (2, \<lparr>started = 0, pid = 4002\<rparr>)]"
  "cluster_workers plain_master_of_two = [\<lparr>wid = 1, process_pid = 4001\<rparr>, \<lparr>wid = 2, process_pid = 4002\<rparr>]"
  "next_worker_id plain_master_of_two = 3" "pids plain_master_of_two = (\<lambda>i. 4000 + i)"
  "signals_on plain_master_of_two" "cluster_exit_on plain_master_of_two"
  "exited plain_master_of_two = None" "on_reloaded plain_master_of_two = []"
  "on_workerExit plain_master_of_two = []"
  "events_named ''reload'' (trace plain_master_of_two) = []"
  "events_named ''reload.complete'' (trace plain_master_of_two) = []"
  by (simp_all add: plain_master_of_two_def config_max_def ee_start_def start_def startListeners_def
      startClusterMode_def startMaster_def ee_isCluster_def Let_def eval_nat_numeral)


end
